theory Spec2Isabelle
  imports Main
begin

section \<open>Parsed documents and the Python operations the server applies to them\<close>

text \<open>
  \<^verbatim>\<open>json.load\<close> and \<^verbatim>\<open>yaml.safe_load\<close> hand the server trees of Python values:
  \<^verbatim>\<open>None\<close>, booleans, integers, strings, lists and dicts. A dict is kept as an
  association list in insertion order, looked up at the first entry of a key and keyed by
  strings, as a JSON object is. A Python string is a list of characters, one \<open>char\<close> per
  code point (code points below 256). Floating point literals do not occur in the model:
  the server never inspects one.
\<close>

datatype jval =
    JNull
  | JBool bool
  | JInt int
  | JStr string
  | JArr "jval list"
  | JObj "(string \<times> jval) list"

text \<open>
  Exceptions are values. \<open>KeyError\<close> carries the missing key, and \<^verbatim>\<open>str(e)\<close> prints the
  \<^verbatim>\<open>repr\<close> of the key; the others carry the message that \<^verbatim>\<open>str(e)\<close> prints (CPython 3.11
  wording for the interpreter's own messages).
\<close>

datatype error =
    KeyError jval
  | TypeError string
  | ValueError string
  | IndexError string
  | AttributeError string
  | OSError string

definition rbind :: "error + 'a \<Rightarrow> ('a \<Rightarrow> error + 'b) \<Rightarrow> error + 'b" where
  "rbind m f = (case m of Inl e \<Rightarrow> Inl e | Inr x \<Rightarrow> f x)"

subsection \<open>Dicts\<close>

fun dict_get :: "('k \<times> 'v) list \<Rightarrow> 'k \<Rightarrow> 'v option" where
  "dict_get [] k = None"
| "dict_get ((k', v) # d) k = (if k' = k then Some v else dict_get d k)"

text \<open>\<^verbatim>\<open>d[k] = v\<close>: an existing key keeps its place, a new key goes to the end.\<close>

fun dict_set :: "'k \<Rightarrow> 'v \<Rightarrow> ('k \<times> 'v) list \<Rightarrow> ('k \<times> 'v) list" where
  "dict_set k v [] = [(k, v)]"
| "dict_set k v ((k', v') # d) = (if k' = k then (k, v) # d else (k', v') # dict_set k v d)"

subsection \<open>Type names, truth values, \<^verbatim>\<open>str\<close> and \<^verbatim>\<open>repr\<close>\<close>

fun type_name :: "jval \<Rightarrow> string" where
  "type_name JNull = ''NoneType''"
| "type_name (JBool _) = ''bool''"
| "type_name (JInt _) = ''int''"
| "type_name (JStr _) = ''str''"
| "type_name (JArr _) = ''list''"
| "type_name (JObj _) = ''dict''"

fun py_truthy :: "jval \<Rightarrow> bool" where
  "py_truthy JNull = False"
| "py_truthy (JBool b) = b"
| "py_truthy (JInt i) = (i \<noteq> 0)"
| "py_truthy (JStr s) = (s \<noteq> [])"
| "py_truthy (JArr xs) = (xs \<noteq> [])"
| "py_truthy (JObj d) = (d \<noteq> [])"

fun hashable :: "jval \<Rightarrow> bool" where
  "hashable (JArr _) = False"
| "hashable (JObj _) = False"
| "hashable _ = True"

definition digit_char :: "nat \<Rightarrow> char" where
  "digit_char d = char_of (48 + d)"

fun str_nat :: "nat \<Rightarrow> string" where
  "str_nat n = (if n < 10 then [digit_char n] else str_nat (n div 10) @ [digit_char (n mod 10)])"

definition str_int :: "int \<Rightarrow> string" where
  "str_int i = (if i < 0 then CHR ''-'' # str_nat (nat (- i)) else str_nat (nat i))"

fun join :: "string \<Rightarrow> string list \<Rightarrow> string" where
  "join sep [] = []"
| "join sep [x] = x"
| "join sep (x # y # ys) = x @ sep @ join sep (y # ys)"

text \<open>A name between single quotes, as the interpreter's messages print type names.\<close>

definition quoted :: "string \<Rightarrow> string" where
  "quoted s = [CHR 0x27] @ s @ [CHR 0x27]"

text \<open>
  \<^verbatim>\<open>repr\<close> of a string. The quote is the double quote when the string holds a single quote
  and no double quote, the single quote otherwise. The quote and the backslash are
  escaped with a backslash, tab, newline and carriage return are written with their
  letters, and every other character that \<^verbatim>\<open>str.isprintable\<close> rejects (below 256: the
  control characters, the no-break space and the soft hyphen) as a backslash, the letter
  x and two hexadecimal digits.
\<close>

definition hex_digit :: "nat \<Rightarrow> char" where
  "hex_digit d = (if d < 10 then char_of (48 + d) else char_of (87 + d))"

definition printable :: "char \<Rightarrow> bool" where
  "printable c = (let n = (of_char c :: nat) in (32 \<le> n \<and> n < 127) \<or> (161 \<le> n \<and> n \<noteq> 173))"

definition repr_char :: "char \<Rightarrow> char \<Rightarrow> string" where
  "repr_char q c =
     (if c = q \<or> c = CHR 0x5C then [CHR 0x5C, c]
      else if c = CHR 0x09 then [CHR 0x5C, CHR ''t'']
      else if c = CHR 0x0A then [CHR 0x5C, CHR ''n'']
      else if c = CHR 0x0D then [CHR 0x5C, CHR ''r'']
      else if printable c then [c]
      else [CHR 0x5C, CHR ''x'', hex_digit ((of_char c :: nat) div 16),
            hex_digit ((of_char c :: nat) mod 16)])"

definition repr_str :: "string \<Rightarrow> string" where
  "repr_str s =
     (let q = (if CHR 0x27 \<in> set s \<and> CHR 0x22 \<notin> set s then CHR 0x22 else CHR 0x27)
      in [q] @ concat (map (repr_char q) s) @ [q])"

primrec py_repr :: "jval \<Rightarrow> string" where
  "py_repr JNull = ''None''"
| "py_repr (JBool b) = (if b then ''True'' else ''False'')"
| "py_repr (JInt i) = str_int i"
| "py_repr (JStr s) = repr_str s"
| "py_repr (JArr xs) = ''['' @ join '', '' (map py_repr xs) @ '']''"
| "py_repr (JObj d) =
     ''{'' @ join '', '' (map (\<lambda>kv. repr_str (fst kv) @ '': '' @ snd kv) (map (map_prod id py_repr) d)) @ ''}''"

definition py_str :: "jval \<Rightarrow> string" where
  "py_str v = (case v of JStr s \<Rightarrow> s | _ \<Rightarrow> py_repr v)"

fun exc_str :: "error \<Rightarrow> string" where
  "exc_str (KeyError k) = py_repr k"
| "exc_str (TypeError m) = m"
| "exc_str (ValueError m) = m"
| "exc_str (IndexError m) = m"
| "exc_str (AttributeError m) = m"
| "exc_str (OSError m) = m"

subsection \<open>Subscription, membership, assignment, iteration\<close>

definition py_index :: "'a list \<Rightarrow> int \<Rightarrow> 'a option" where
  "py_index xs i =
     (let n = int (length xs); j = (if i < 0 then n + i else i)
      in if 0 \<le> j \<and> j < n then Some (xs ! nat j) else None)"

fun as_index :: "jval \<Rightarrow> int option" where
  "as_index (JInt i) = Some i"
| "as_index (JBool b) = Some (if b then 1 else 0)"
| "as_index _ = None"

text \<open>\<^verbatim>\<open>c[k]\<close>\<close>

fun py_getitem :: "jval \<Rightarrow> jval \<Rightarrow> error + jval" where
  "py_getitem (JObj d) k =
     (if \<not> hashable k then Inl (TypeError (''unhashable type: '' @ quoted (type_name k)))
      else case k of
        JStr s \<Rightarrow> (case dict_get d s of Some v \<Rightarrow> Inr v | None \<Rightarrow> Inl (KeyError k))
      | _ \<Rightarrow> Inl (KeyError k))"
| "py_getitem (JArr xs) k =
     (case as_index k of
        None \<Rightarrow> Inl (TypeError (''list indices must be integers or slices, not '' @ type_name k))
      | Some i \<Rightarrow> (case py_index xs i of
          None \<Rightarrow> Inl (IndexError ''list index out of range'')
        | Some v \<Rightarrow> Inr v))"
| "py_getitem (JStr s) k =
     (case as_index k of
        None \<Rightarrow> Inl (TypeError (''string indices must be integers, not '' @ quoted (type_name k)))
      | Some i \<Rightarrow> (case py_index s i of
          None \<Rightarrow> Inl (IndexError ''string index out of range'')
        | Some c \<Rightarrow> Inr (JStr [c])))"
| "py_getitem c k = Inl (TypeError (quoted (type_name c) @ '' object is not subscriptable''))"

fun is_infix :: "string \<Rightarrow> string \<Rightarrow> bool" where
  "is_infix k [] = (k = [])"
| "is_infix k (c # cs) = (take (length k) (c # cs) = k \<or> is_infix k cs)"

text \<open>\<^verbatim>\<open>k in d\<close> for a dict \<open>d\<close> with string keys\<close>

definition dict_has :: "jval \<Rightarrow> (string \<times> 'v) list \<Rightarrow> error + bool" where
  "dict_has k d =
     (if \<not> hashable k then Inl (TypeError (''unhashable type: '' @ quoted (type_name k)))
      else Inr (case k of JStr s \<Rightarrow> dict_get d s \<noteq> None | _ \<Rightarrow> False))"

text \<open>\<^verbatim>\<open>k in c\<close> for a string \<open>k\<close>\<close>

fun py_in :: "string \<Rightarrow> jval \<Rightarrow> error + bool" where
  "py_in k (JObj d) = Inr (dict_get d k \<noteq> None)"
| "py_in k (JArr xs) = Inr (JStr k \<in> set xs)"
| "py_in k (JStr s) = Inr (is_infix k s)"
| "py_in k c = Inl (TypeError (''argument of type '' @ quoted (type_name c) @ '' is not iterable''))"

text \<open>\<^verbatim>\<open>c[k] = v\<close> for a string \<open>k\<close>\<close>

fun py_setitem :: "jval \<Rightarrow> string \<Rightarrow> jval \<Rightarrow> error + jval" where
  "py_setitem (JObj d) k v = Inr (JObj (dict_set k v d))"
| "py_setitem (JArr xs) k v = Inl (TypeError ''list indices must be integers or slices, not str'')"
| "py_setitem c k v =
     Inl (TypeError (quoted (type_name c) @ '' object does not support item assignment''))"

text \<open>
  The objects of a parsed document form a tree, so a write into a child that was reached
  as \<^verbatim>\<open>c[k]\<close> is the parent with that child replaced.
\<close>

fun put_child :: "jval \<Rightarrow> jval \<Rightarrow> jval \<Rightarrow> jval" where
  "put_child (JObj d) (JStr s) v = JObj (dict_set s v d)"
| "put_child (JArr xs) k v =
     (case as_index k of
        None \<Rightarrow> JArr xs
      | Some i \<Rightarrow> (let n = int (length xs); j = (if i < 0 then n + i else i)
                   in if 0 \<le> j \<and> j < n then JArr (xs[nat j := v]) else JArr xs))"
| "put_child c k v = c"

text \<open>\<^verbatim>\<open>for x in c\<close>: the elements of a list, the keys of a dict, the characters of a string.\<close>

fun py_iter :: "jval \<Rightarrow> error + jval list" where
  "py_iter (JArr xs) = Inr xs"
| "py_iter (JObj d) = Inr (map (\<lambda>kv. JStr (fst kv)) d)"
| "py_iter (JStr s) = Inr (map (\<lambda>c. JStr [c]) s)"
| "py_iter c = Inl (TypeError (quoted (type_name c) @ '' object is not iterable''))"

text \<open>\<^verbatim>\<open>a, b = c\<close>\<close>

definition py_unpack2 :: "jval \<Rightarrow> error + jval \<times> jval" where
  "py_unpack2 c =
     (case py_iter c of
        Inl e \<Rightarrow> Inl (TypeError (''cannot unpack non-iterable '' @ type_name c @ '' object''))
      | Inr xs \<Rightarrow> (case xs of
          [a, b] \<Rightarrow> Inr (a, b)
        | _ \<Rightarrow> if length xs < 2
                then Inl (ValueError (''not enough values to unpack (expected 2, got ''
                                       @ str_nat (length xs) @ '')''))
                else Inl (ValueError ''too many values to unpack (expected 2)'')))"

text \<open>\<^verbatim>\<open>d.get(k, default)\<close> for a string \<open>k\<close>\<close>

fun py_get :: "jval \<Rightarrow> string \<Rightarrow> jval \<Rightarrow> error + jval" where
  "py_get (JObj d) k dflt = Inr (case dict_get d k of Some v \<Rightarrow> v | None \<Rightarrow> dflt)"
| "py_get c k dflt =
     Inl (AttributeError (quoted (type_name c) @ '' object has no attribute '' @ quoted ''get''))"

section \<open>Module constants (server.py, lines 55--94)\<close>

text \<open>\<^verbatim>\<open>special_char_pattern = r'[^a-zA-Z0-9_]'\<close>: the characters the class excludes.\<close>

definition word_char :: "char \<Rightarrow> bool" where
  "word_char c =
     (let n = (of_char c :: nat)
      in (97 \<le> n \<and> n \<le> 122) \<or> (65 \<le> n \<and> n \<le> 90) \<or> (48 \<le> n \<and> n \<le> 57) \<or> n = 95)"

definition special_char_pattern :: "char \<Rightarrow> bool" where
  "special_char_pattern c = (\<not> word_char c)"

definition aspect_ratio_aliases :: "(string \<times> string) list" where
  "aspect_ratio_aliases =
     [(''1:1'', ''1:1''), (''square'', ''1:1''),
      (''16:9'', ''16:9''), (''widest'', ''16:9''),
      (''9:16'', ''9:16''), (''tallest'', ''9:16''),
      (''4:3'', ''4:3''), (''wide'', ''4:3''),
      (''3:4'', ''3:4''), (''tall'', ''3:4'')]"

definition default_aspect_ratios :: jval where
  "default_aspect_ratios =
     JObj [(''16:9'', JArr [JInt 1280, JInt 720]),
           (''4:3'', JArr [JInt 1152, JInt 864]),
           (''1:1'', JArr [JInt 1024, JInt 1024]),
           (''3:4'', JArr [JInt 864, JInt 1152]),
           (''9:16'', JArr [JInt 720, JInt 1280])]"

definition aspect_ratios_key :: string where "aspect_ratios_key = ''aspect_ratios''"
definition save_image_node_key :: string where "save_image_node_key = ''save_image_node''"
definition image_size_nodes_key :: string where "image_size_nodes_key = ''image_size_nodes''"
definition seed_nodes_key :: string where "seed_nodes_key = ''seed_nodes''"
definition prompt_nodes_key :: string where "prompt_nodes_key = ''prompt_nodes''"
definition inputs_key :: string where "inputs_key = ''inputs''"
definition seed_key :: string where "seed_key = ''seed''"
definition noise_seed_key :: string where "noise_seed_key = ''noise_seed''"
definition width_key :: string where "width_key = ''width''"
definition height_key :: string where "height_key = ''height''"
definition text_key :: string where "text_key = ''text''"

section \<open>The process state and its surroundings\<close>

text \<open>
  What lives for the whole process, and what a tool call can change. \<open>workflow\<close> and
  \<open>config\<close> are the two entries of the module-level dict \<^verbatim>\<open>comfyui_workflow\<close>. The
  counters index the answers of the surroundings: the \<open>k\<close>-th call of
  \<^verbatim>\<open>uuid.uuid4()\<close> and the \<open>k\<close>-th request to \<^verbatim>\<open>/history\<close>.
\<close>

datatype fdata = Png string | Txt string

record world =
  workflow :: jval
  config :: jval
  uuids :: nat
  requests :: nat
  slept :: nat
  posted :: "(jval \<times> nat) list"
  files :: "(string \<times> fdata) list"

text \<open>
  The settings read from the process environment, and everything the server asks of its
  surroundings: random UUIDs (as 128-bit numbers), the engine's three HTTP operations
  (an answer is the parsed JSON object, or the exception the request or the parse
  raised), the image decoder, the clock, and what the file system refuses: saving the
  image at a path, opening a path for writing, and writing a text to the file at a path
  (\<^verbatim>\<open>f.write\<close> and the close at the end of the \<^verbatim>\<open>with\<close> block; the answer is the
  exception together with the part of the text that reached the file).
\<close>

record env =
  output_dir :: string
  image_app_base_url :: string
  comfyui_workflow_name :: string
  uuid4 :: "nat \<Rightarrow> nat"
  queue_prompt :: "jval \<Rightarrow> nat \<Rightarrow> error + (string \<times> jval) list"
  get_history :: "nat \<Rightarrow> jval \<Rightarrow> error + (string \<times> jval) list"
  get_image :: "jval \<Rightarrow> jval \<Rightarrow> jval \<Rightarrow> error + string"
  image_open :: "string \<Rightarrow> error + string"
  now :: string
  save_error :: "string \<Rightarrow> error option"
  open_error :: "string \<Rightarrow> error option"
  write_error :: "string \<Rightarrow> string \<Rightarrow> (error \<times> string) option"

text \<open>Statements run one after another on the state; an exception ends the run and keeps
  what was written before it.\<close>

definition sbind ::
  "('s \<Rightarrow> (error + 'a) \<times> 's) \<Rightarrow> ('a \<Rightarrow> 's \<Rightarrow> (error + 'b) \<times> 's) \<Rightarrow> 's \<Rightarrow> (error + 'b) \<times> 's" where
  "sbind m f s = (case m s of (Inl e, s') \<Rightarrow> (Inl e, s') | (Inr x, s') \<Rightarrow> f x s')"

definition pure_step :: "error + 'a \<Rightarrow> 's \<Rightarrow> (error + 'a) \<times> 's" where
  "pure_step r s = (r, s)"

fun for_each :: "('a \<Rightarrow> 's \<Rightarrow> (error + unit) \<times> 's) \<Rightarrow> 'a list \<Rightarrow> 's \<Rightarrow> (error + unit) \<times> 's" where
  "for_each body [] s = (Inr (), s)"
| "for_each body (x # xs) s =
     (case body x s of (Inl e, s') \<Rightarrow> (Inl e, s') | (Inr u, s') \<Rightarrow> for_each body xs s')"

section \<open>Start of the process (server.py, lines 96--116)\<close>

text \<open>
  The arguments are what \<^verbatim>\<open>json.load\<close> and \<^verbatim>\<open>yaml.safe_load\<close> returned for the two
  files, or the exception that opening or parsing raised. An \<open>Inl\<close> result is an
  exception at import time: the process ends before it serves a request.
\<close>

definition load_config :: "jval \<Rightarrow> error + jval" where
  "load_config config_data =
     rbind (py_in aspect_ratios_key config_data) (\<lambda>present.
     rbind (if \<not> present then Inr True
            else rbind (py_getitem config_data (JStr aspect_ratios_key)) (\<lambda>v. Inr (\<not> py_truthy v)))
       (\<lambda>use_default.
     if use_default then py_setitem config_data aspect_ratios_key default_aspect_ratios
     else Inr config_data))"

definition startup :: "error + jval \<Rightarrow> error + jval \<Rightarrow> error + world" where
  "startup workflow_file config_file =
     rbind workflow_file (\<lambda>workflow_data.
     rbind config_file (\<lambda>config_data.
     rbind (load_config config_data) (\<lambda>config_data'.
     Inr \<lparr>workflow = workflow_data, config = config_data', uuids = 0, requests = 0,
          slept = 0, posted = [], files = []\<rparr>)))"

section \<open>Seeds (server.py, lines 118--119)\<close>

text \<open>
  \<^verbatim>\<open>int(uuid.uuid4().int % 1e10)\<close>. The right operand is a float, so Python first
  converts the 128-bit integer to a double: it keeps 53 significant bits, rounding to
  nearest, ties to even. The result is again a whole number, and so is its remainder by
  \<open>10^10\<close>, which the float remainder computes exactly.
\<close>

fun bit_length :: "nat \<Rightarrow> nat" where
  "bit_length n = (if n = 0 then 0 else Suc (bit_length (n div 2)))"

definition float_of_nat :: "nat \<Rightarrow> nat" where
  "float_of_nat u =
     (if bit_length u \<le> 53 then u
      else let e = bit_length u - 53;
               q = u div 2 ^ e;
               r = u mod 2 ^ e;
               half = 2 ^ (e - 1)
           in (if r > half \<or> (r = half \<and> odd q) then q + 1 else q) * 2 ^ e)"

definition make_random_seed :: "nat \<Rightarrow> int" where
  "make_random_seed u = int (float_of_nat u mod 10 ^ 10)"

section \<open>Aspect ratio (server.py, lines 124--131)\<close>

definition resolve_alias :: "jval \<Rightarrow> error + string" where
  "resolve_alias aspect_ratio =
     rbind (dict_has aspect_ratio aspect_ratio_aliases) (\<lambda>known.
     let aspect_ratio' = (if \<not> known then JStr ''square'' else aspect_ratio)
     in case aspect_ratio' of
          JStr a \<Rightarrow> (case dict_get aspect_ratio_aliases a of
                       Some r \<Rightarrow> Inr r
                     | None \<Rightarrow> Inl (KeyError aspect_ratio'))
        | _ \<Rightarrow> Inl (KeyError aspect_ratio'))"

definition image_size :: "jval \<Rightarrow> jval \<Rightarrow> error + jval \<times> jval" where
  "image_size cfg aspect_ratio =
     rbind (resolve_alias aspect_ratio) (\<lambda>r.
     rbind (py_getitem cfg (JStr aspect_ratios_key)) (\<lambda>table.
     rbind (py_getitem table (JStr r)) py_unpack2))"

section \<open>Writing the request into the graph (server.py, lines 133--149)\<close>

text \<open>
  \<^verbatim>\<open>prompt_structure = comfyui_workflow[workflow_key]\<close> binds a second name to the graph
  the module holds; every assignment below is made in that graph, which is the
  \<open>workflow\<close> field of the state.
\<close>

definition graph_has :: "jval \<Rightarrow> jval \<Rightarrow> string \<Rightarrow> error + bool" where
  "graph_has g n field =
     rbind (py_getitem g n) (\<lambda>node.
     rbind (py_getitem node (JStr inputs_key)) (py_in field))"

definition graph_set :: "jval \<Rightarrow> jval \<Rightarrow> string \<Rightarrow> jval \<Rightarrow> error + jval" where
  "graph_set g n field v =
     rbind (py_getitem g n) (\<lambda>node.
     rbind (py_getitem node (JStr inputs_key)) (\<lambda>inputs.
     rbind (py_setitem inputs field v) (\<lambda>inputs'.
     Inr (put_child g n (put_child node (JStr inputs_key) inputs')))))"

text \<open>\<^verbatim>\<open>field in prompt_structure[n][inputs_key]\<close>\<close>

definition has_input :: "jval \<Rightarrow> string \<Rightarrow> world \<Rightarrow> (error + bool) \<times> world" where
  "has_input n field w = (graph_has (workflow w) n field, w)"

text \<open>\<^verbatim>\<open>prompt_structure[n][inputs_key][field] = v\<close>\<close>

definition set_input :: "jval \<Rightarrow> string \<Rightarrow> jval \<Rightarrow> world \<Rightarrow> (error + unit) \<times> world" where
  "set_input n field v w =
     (case graph_set (workflow w) n field v of
        Inl e \<Rightarrow> (Inl e, w)
      | Inr g \<Rightarrow> (Inr (), w\<lparr>workflow := g\<rparr>))"

text \<open>What a reader of the graph finds at \<^verbatim>\<open>g[n][inputs_key][field]\<close>.\<close>

definition graph_get :: "jval \<Rightarrow> jval \<Rightarrow> string \<Rightarrow> error + jval" where
  "graph_get g n field =
     rbind (py_getitem g n) (\<lambda>node.
     rbind (py_getitem node (JStr inputs_key)) (\<lambda>inputs.
     py_getitem inputs (JStr field)))"

definition py_if :: "bool \<Rightarrow> ('s \<Rightarrow> (error + unit) \<times> 's) \<Rightarrow> 's \<Rightarrow> (error + unit) \<times> 's" where
  "py_if b m s = (if b then m s else (Inr (), s))"

text \<open>One call of \<^verbatim>\<open>make_random_seed()\<close>: it takes the next UUID.\<close>

definition draw_seed :: "env \<Rightarrow> world \<Rightarrow> (error + jval) \<times> world" where
  "draw_seed eng w =
     (Inr (JInt (make_random_seed (uuid4 eng (uuids w)))), w\<lparr>uuids := Suc (uuids w)\<rparr>)"

text \<open>
  \<^verbatim>\<open>if field in prompt_structure[n][inputs_key]: prompt_structure[n][inputs_key][field] = rhs\<close>.
  Python evaluates the right-hand side before the target of the assignment.
\<close>

definition assign_if_present ::
  "jval \<Rightarrow> string \<Rightarrow> (world \<Rightarrow> (error + jval) \<times> world) \<Rightarrow> world \<Rightarrow> (error + unit) \<times> world" where
  "assign_if_present n field rhs =
     sbind (has_input n field) (\<lambda>present.
     py_if present (sbind rhs (set_input n field)))"

definition size_node :: "jval \<Rightarrow> jval \<Rightarrow> jval \<Rightarrow> world \<Rightarrow> (error + unit) \<times> world" where
  "size_node width height n =
     sbind (assign_if_present n width_key (pure_step (Inr width))) (\<lambda>u.
     assign_if_present n height_key (pure_step (Inr height)))"

definition seed_node :: "env \<Rightarrow> jval \<Rightarrow> world \<Rightarrow> (error + unit) \<times> world" where
  "seed_node eng n =
     sbind (assign_if_present n seed_key (draw_seed eng)) (\<lambda>u.
     assign_if_present n noise_seed_key (draw_seed eng))"

definition prompt_node :: "jval \<Rightarrow> jval \<Rightarrow> world \<Rightarrow> (error + unit) \<times> world" where
  "prompt_node prompt n = set_input n text_key prompt"

definition config_list :: "string \<Rightarrow> world \<Rightarrow> (error + jval list) \<times> world" where
  "config_list key w = (rbind (py_getitem (config w) (JStr key)) py_iter, w)"

definition inject :: "env \<Rightarrow> jval \<Rightarrow> jval \<Rightarrow> jval \<Rightarrow> world \<Rightarrow> (error + unit) \<times> world" where
  "inject eng prompt width height =
     sbind (config_list image_size_nodes_key) (\<lambda>size_nodes.
     sbind (for_each (size_node width height) size_nodes) (\<lambda>u.
     sbind (config_list seed_nodes_key) (\<lambda>seed_nodes.
     sbind (for_each (seed_node eng) seed_nodes) (\<lambda>u.
     sbind (config_list prompt_nodes_key) (\<lambda>prompt_nodes.
     for_each (prompt_node prompt) prompt_nodes)))))"

text \<open>
  The seed fields the loop of lines 142--146 assigns at a node, in the order of the
  assignments, and all of them along the list of seed nodes.
\<close>

definition seed_fields :: "jval \<Rightarrow> jval \<Rightarrow> string list" where
  "seed_fields g n =
     (if graph_has g n seed_key = Inr True then [seed_key] else []) @
     (if graph_has g n noise_seed_key = Inr True then [noise_seed_key] else [])"

definition seed_writes :: "jval \<Rightarrow> jval list \<Rightarrow> (jval \<times> string) list" where
  "seed_writes g ns = concat (map (\<lambda>n. map (Pair n) (seed_fields g n)) ns)"

section \<open>Submission (server.py, lines 122, 152--157, 169--171)\<close>

definition new_client_id :: "env \<Rightarrow> world \<Rightarrow> (error + nat) \<times> world" where
  "new_client_id eng w = (Inr (uuid4 eng (uuids w)), w\<lparr>uuids := Suc (uuids w)\<rparr>)"

definition post_prompt :: "env \<Rightarrow> nat \<Rightarrow> world \<Rightarrow> (error + (string \<times> jval) list) \<times> world" where
  "post_prompt eng client_id w =
     (queue_prompt eng (workflow w) client_id, w\<lparr>posted := posted w @ [(workflow w, client_id)]\<rparr>)"

definition submit :: "env \<Rightarrow> jval \<Rightarrow> jval \<Rightarrow> world \<Rightarrow> (error + jval) \<times> world" where
  "submit eng prompt aspect_ratio =
     sbind (new_client_id eng) (\<lambda>client_id.
     sbind (\<lambda>w. (image_size (config w) aspect_ratio, w)) (\<lambda>size.
     sbind (inject eng prompt (fst size) (snd size)) (\<lambda>u.
     sbind (post_prompt eng client_id) (\<lambda>result.
     pure_step (py_getitem (JObj result) (JStr ''prompt_id''))))))"

section \<open>Waiting for the job (server.py, lines 173--183)\<close>

text \<open>
  The source loops with \<^verbatim>\<open>while True\<close>. The first argument bounds the number of
  requests the model follows; \<open>None\<close> says that the loop is still running after that
  many. Each round that does not leave the loop calls \<^verbatim>\<open>time.sleep(1)\<close>.
\<close>

definition sleep :: "nat \<Rightarrow> world \<Rightarrow> world" where
  "sleep n w = w\<lparr>slept := slept w + n\<rparr>"

definition is_processing :: "(string \<times> jval) list \<Rightarrow> jval \<Rightarrow> error + bool" where
  "is_processing history prompt_id =
     rbind (py_getitem (JObj history) prompt_id) (\<lambda>data.
     rbind (py_get data ''is_processing'' (JBool False)) (\<lambda>p. Inr (py_truthy p)))"

fun poll :: "nat \<Rightarrow> env \<Rightarrow> jval \<Rightarrow> world \<Rightarrow> ((error + unit) \<times> world) option" where
  "poll 0 eng prompt_id w = None"
| "poll (Suc fuel) eng prompt_id w =
     (let w1 = w\<lparr>requests := Suc (requests w)\<rparr>
      in case get_history eng (requests w) prompt_id of
           Inl e \<Rightarrow> Some (Inl e, w1)
         | Inr history \<Rightarrow>
             (case dict_has prompt_id history of
                Inl e \<Rightarrow> Some (Inl e, w1)
              | Inr present \<Rightarrow>
                  if present then
                    (case is_processing history prompt_id of
                       Inl e \<Rightarrow> Some (Inl e, w1)
                     | Inr busy \<Rightarrow>
                         if busy then poll fuel eng prompt_id (sleep 1 w1)
                         else Some (Inr (), w1))
                  else poll fuel eng prompt_id (sleep 1 w1)))"

text \<open>
  What the \<open>k\<close>-th answer of \<^verbatim>\<open>/history\<close> says about the job: not finished (the
  answer does not know the job id, or knows it with a true \<^verbatim>\<open>is_processing\<close>), or
  finished (it knows the job id, and \<^verbatim>\<open>is_processing\<close> is false or absent).
\<close>

definition still_pending :: "env \<Rightarrow> jval \<Rightarrow> nat \<Rightarrow> bool" where
  "still_pending eng prompt_id k =
     (case get_history eng k prompt_id of
        Inl e \<Rightarrow> False
      | Inr history \<Rightarrow>
          dict_has prompt_id history = Inr False \<or>
          (dict_has prompt_id history = Inr True \<and> is_processing history prompt_id = Inr True))"

definition finished :: "env \<Rightarrow> jval \<Rightarrow> nat \<Rightarrow> bool" where
  "finished eng prompt_id k =
     (case get_history eng k prompt_id of
        Inl e \<Rightarrow> False
      | Inr history \<Rightarrow>
          dict_has prompt_id history = Inr True \<and> is_processing history prompt_id = Inr False)"

section \<open>Fetching and storing the image (server.py, lines 185--212)\<close>

fun fetch_images :: "env \<Rightarrow> jval list \<Rightarrow> error + string list" where
  "fetch_images eng [] = Inr []"
| "fetch_images eng (img # rest) =
     rbind (py_getitem img (JStr ''filename'')) (\<lambda>filename.
     rbind (py_getitem img (JStr ''subfolder'')) (\<lambda>subfolder.
     rbind (py_getitem img (JStr ''type'')) (\<lambda>folder_type.
     rbind (get_image eng filename subfolder folder_type) (\<lambda>image_data.
     rbind (fetch_images eng rest) (\<lambda>others. Inr (image_data # others))))))"

definition node_images :: "env \<Rightarrow> jval \<Rightarrow> jval \<Rightarrow> error + string list" where
  "node_images eng outputs node_id =
     rbind (py_getitem outputs node_id) (\<lambda>node_output.
     rbind (py_in ''images'' node_output) (\<lambda>has_images.
     if has_images then
       rbind (py_getitem node_output (JStr ''images'')) (\<lambda>images.
       rbind (py_iter images) (fetch_images eng))
     else Inr []))"

fun collect_outputs ::
  "env \<Rightarrow> jval \<Rightarrow> jval list \<Rightarrow> (jval \<times> string list) list \<Rightarrow> error + (jval \<times> string list) list" where
  "collect_outputs eng outputs [] output_images = Inr output_images"
| "collect_outputs eng outputs (node_id # rest) output_images =
     rbind (node_images eng outputs node_id) (\<lambda>images_output.
     collect_outputs eng outputs rest (dict_set node_id images_output output_images))"

definition final_history :: "env \<Rightarrow> jval \<Rightarrow> world \<Rightarrow> (error + jval) \<times> world" where
  "final_history eng prompt_id w =
     (rbind (get_history eng (requests w) prompt_id) (\<lambda>h. py_getitem (JObj h) prompt_id),
      w\<lparr>requests := Suc (requests w)\<rparr>)"

definition output_images_of :: "env \<Rightarrow> jval \<Rightarrow> error + (jval \<times> string list) list" where
  "output_images_of eng history =
     rbind (py_getitem history (JStr ''outputs'')) (\<lambda>outputs.
     rbind (py_iter outputs) (\<lambda>node_ids.
     collect_outputs eng outputs node_ids []))"

text \<open>\<^verbatim>\<open>re.sub(special_char_pattern, '-', title)\<close>: the pattern matches one character at a time.\<close>

definition re_sub :: "(char \<Rightarrow> bool) \<Rightarrow> char \<Rightarrow> string \<Rightarrow> string" where
  "re_sub pattern repl s = map (\<lambda>c. if pattern c then repl else c) s"

text \<open>\<^verbatim>\<open>os.path.join\<close> of two components, on POSIX.\<close>

definition path_join :: "string \<Rightarrow> string \<Rightarrow> string" where
  "path_join a b =
     (if b \<noteq> [] \<and> hd b = CHR ''/'' then b
      else if a = [] \<or> last a = CHR ''/'' then a @ b
      else a @ ''/'' @ b)"

text \<open>
  Lines 200--210. \<^verbatim>\<open>os.makedirs\<close> and \<^verbatim>\<open>image.save\<close> are one write of the decoded
  image to the path; \<open>save_error\<close> says whether it raises.
\<close>

definition store_image ::
  "env \<Rightarrow> jval \<Rightarrow> string \<Rightarrow> world \<Rightarrow> (error + string option \<times> string) \<times> world" where
  "store_image eng title image_data w =
     (case image_open eng image_data of
        Inl e \<Rightarrow> (Inl e, w)
      | Inr img \<Rightarrow>
          (case title of
             JStr t \<Rightarrow>
               (let image_title = re_sub special_char_pattern CHR ''-'' t;
                    formatted_datetime = now eng;
                    image_filename =
                      formatted_datetime @ ''_'' @ image_title @ ''_'' @ comfyui_workflow_name eng @ ''.png'';
                    image_path = path_join (output_dir eng) image_filename
                in case save_error eng image_path of
                     Some e \<Rightarrow> (Inl e, w)
                   | None \<Rightarrow>
                       (Inr (Some image_filename,
                             ''!['' @ t @ '']('' @ image_app_base_url eng @ ''/'' @ image_filename @ '')''),
                        w\<lparr>files := dict_set image_path (Png img) (files w)\<rparr>))
           | _ \<Rightarrow>
               (Inl (TypeError (''expected string or bytes-like object, got '' @ quoted (type_name title))),
                w)))"

definition retrieve ::
  "env \<Rightarrow> jval \<Rightarrow> jval \<Rightarrow> world \<Rightarrow> (error + string option \<times> string) \<times> world" where
  "retrieve eng title prompt_id =
     sbind (final_history eng prompt_id) (\<lambda>history.
     sbind (pure_step (output_images_of eng history)) (\<lambda>output_images.
     sbind (\<lambda>w. (py_getitem (config w) (JStr save_image_node_key), w)) (\<lambda>save_image_node.
     case (case dict_get output_images (JStr (py_str save_image_node)) of
             Some xs \<Rightarrow> xs | None \<Rightarrow> []) of
       [] \<Rightarrow> pure_step (Inr (None, ''Unspecified error. No image generated.''))
     | image_data # others \<Rightarrow> store_image eng title image_data)))"

section \<open>The whole pipeline (server.py, lines 121--212)\<close>

definition comfyui_generate_image ::
  "nat \<Rightarrow> env \<Rightarrow> jval \<Rightarrow> jval \<Rightarrow> jval \<Rightarrow> world \<Rightarrow> ((error + string option \<times> string) \<times> world) option" where
  "comfyui_generate_image fuel eng prompt title aspect_ratio w =
     (case submit eng prompt aspect_ratio w of
        (Inl e, w1) \<Rightarrow> Some (Inl e, w1)
      | (Inr prompt_id, w1) \<Rightarrow>
          (case poll fuel eng prompt_id w1 of
             None \<Rightarrow> None
           | Some (Inl e, w2) \<Rightarrow> Some (Inl e, w2)
           | Some (Inr u, w2) \<Rightarrow> Some (retrieve eng title prompt_id w2)))"

section \<open>The tool handler (server.py, lines 245--276)\<close>

datatype text_content = TextContent string string

fun str_replace :: "string \<Rightarrow> string \<Rightarrow> string \<Rightarrow> string" where
  "str_replace old new [] = []"
| "str_replace [] new (c # cs) = c # cs"
| "str_replace (a # as) new (c # cs) =
     (if take (Suc (length as)) (c # cs) = a # as
      then new @ str_replace (a # as) new (drop (length as) cs)
      else c # str_replace (a # as) new cs)"

text \<open>How the argument check of a built-in method names the type of what it was given.\<close>

definition arg_type_name :: "jval \<Rightarrow> string" where
  "arg_type_name v = (if v = JNull then ''None'' else type_name v)"

text \<open>
  Lines 260--264. \<^verbatim>\<open>open(prompt_path, 'w')\<close> creates or empties the file, or raises;
  \<^verbatim>\<open>f.write(prompt)\<close> raises when the prompt is not a string, and the write or the close
  of the file raises when the file system refuses the text (it cannot be encoded, the
  disk is full).
\<close>

definition write_prompt_file :: "env \<Rightarrow> string \<Rightarrow> jval \<Rightarrow> world \<Rightarrow> (error + unit) \<times> world" where
  "write_prompt_file eng image_filename prompt w =
     (let prompt_filename = str_replace ''.png'' ''.txt'' image_filename;
          prompt_path = path_join (output_dir eng) prompt_filename
      in case open_error eng prompt_path of
           Some e \<Rightarrow> (Inl e, w)
         | None \<Rightarrow>
             (case prompt of
                JStr p \<Rightarrow>
                  (case write_error eng prompt_path p of
                     Some (e, written) \<Rightarrow>
                       (Inl e, w\<lparr>files := dict_set prompt_path (Txt written) (files w)\<rparr>)
                   | None \<Rightarrow> (Inr (), w\<lparr>files := dict_set prompt_path (Txt p) (files w)\<rparr>))
              | _ \<Rightarrow> (Inl (TypeError (''write() argument must be str, not '' @ arg_type_name prompt)),
                      w\<lparr>files := dict_set prompt_path (Txt []) (files w)\<rparr>)))"

definition arguments_get :: "(string \<times> jval) list \<Rightarrow> string \<Rightarrow> jval" where
  "arguments_get arguments k = (case dict_get arguments k of Some v \<Rightarrow> v | None \<Rightarrow> JNull)"

definition error_text :: "error \<Rightarrow> text_content list" where
  "error_text e = [TextContent ''text'' (''Error generating image: '' @ exc_str e)]"

definition handle_call_tool ::
  "nat \<Rightarrow> env \<Rightarrow> string \<Rightarrow> (string \<times> jval) list \<Rightarrow> world \<Rightarrow> (text_content list \<times> world) option" where
  "handle_call_tool fuel eng name arguments w =
     (if name = ''image_generate'' then
        (let prompt = arguments_get arguments ''prompt'';
             title = arguments_get arguments ''title'';
             aspect_ratio = arguments_get arguments ''aspect_ratio''
         in case comfyui_generate_image fuel eng prompt title aspect_ratio w of
              None \<Rightarrow> None
            | Some (Inl e, w1) \<Rightarrow> Some (error_text e, w1)
            | Some (Inr (image_filename, markdown), w1) \<Rightarrow>
                (if image_filename \<noteq> None \<and> image_filename \<noteq> Some [] then
                   (case write_prompt_file eng (the image_filename) prompt w1 of
                      (Inl e, w2) \<Rightarrow> Some (error_text e, w2)
                    | (Inr u, w2) \<Rightarrow> Some ([TextContent ''text'' markdown], w2))
                 else Some ([TextContent ''text'' markdown], w1)))
      else Some ([TextContent ''text'' (''Unknown tool: '' @ name)], w))"

section \<open>A concrete installation\<close>

text \<open>
  A four-node graph with its binding config, and surroundings in which the engine first
  does not know the job, then reports it as processing, then as finished with one image
  on node 9. The UUIDs are version-4 UUIDs as numbers.
\<close>

definition sample_graph :: "jval \<Rightarrow> jval \<Rightarrow> jval \<Rightarrow> jval \<Rightarrow> jval \<Rightarrow> jval" where
  "sample_graph width height seed noise_seed prompt =
     JObj [(''5'', JObj [(''class_type'', JStr ''EmptyLatentImage''),
                        (''inputs'', JObj [(''width'', width), (''height'', height)])]),
           (''3'', JObj [(''class_type'', JStr ''KSampler''),
                        (''inputs'', JObj [(''seed'', seed), (''noise_seed'', noise_seed)])]),
           (''6'', JObj [(''class_type'', JStr ''CLIPTextEncode''),
                        (''inputs'', JObj [(''text'', prompt)])]),
           (''9'', JObj [(''class_type'', JStr ''SaveImage''), (''inputs'', JObj [])])]"

definition sample_workflow :: jval where
  "sample_workflow = sample_graph (JInt 512) (JInt 512) (JInt 0) (JInt 0) (JStr [])"

definition sample_config :: jval where
  "sample_config =
     JObj [(''image_size_nodes'', JArr [JStr ''5'']),
           (''seed_nodes'', JArr [JStr ''3'']),
           (''prompt_nodes'', JArr [JStr ''6'']),
           (''save_image_node'', JStr ''9'')]"

text \<open>The same config with a size node, 7, that the graph does not have.\<close>

definition sample_config_missing :: jval where
  "sample_config_missing =
     JObj [(''image_size_nodes'', JArr [JStr ''5'', JStr ''7'']),
           (''seed_nodes'', JArr [JStr ''3'']),
           (''prompt_nodes'', JArr [JStr ''6'']),
           (''save_image_node'', JStr ''9'')]"

definition sample_uuid4 :: "nat \<Rightarrow> nat" where
  "sample_uuid4 k =
     (if k = 0 then 324969006592305634633390616021200786553
      else if k = 1 then 206270748846078943386476922107622956559
      else if k = 2 then 37794938172491477839448661346873767443
      else 302240678275694148452353 + k)"

definition sample_image :: jval where
  "sample_image =
     JObj [(''filename'', JStr ''ComfyUI_00001_.png''), (''subfolder'', JStr []),
           (''type'', JStr ''output'')]"

definition sample_final :: "(string \<times> jval) list \<Rightarrow> (string \<times> jval) list" where
  "sample_final outputs = [(''p1'', JObj [(''outputs'', JObj outputs)])]"

definition sample_history ::
  "(string \<times> jval) list \<Rightarrow> nat \<Rightarrow> jval \<Rightarrow> error + (string \<times> jval) list" where
  "sample_history final k prompt_id =
     (if k = 0 then Inr []
      else if k = 1 then Inr [(''p1'', JObj [(''is_processing'', JBool True)])]
      else Inr final)"

definition sample_outputs :: "(string \<times> jval) list" where
  "sample_outputs = [(''9'', JObj [(''images'', JArr [sample_image])])]"

text \<open>Outputs in which node 8 produced an image and node 9, the save node, none.\<close>

definition sample_outputs_elsewhere :: "(string \<times> jval) list" where
  "sample_outputs_elsewhere =
     [(''8'', JObj [(''images'', JArr [sample_image])]), (''9'', JObj [(''images'', JArr [])])]"

text \<open>Outputs in which node 8 produced an image and node 9 has no entry.\<close>

definition sample_outputs_absent :: "(string \<times> jval) list" where
  "sample_outputs_absent = [(''8'', JObj [(''images'', JArr [sample_image])])]"

definition sample_env_with ::
  "(jval \<Rightarrow> nat \<Rightarrow> error + (string \<times> jval) list) \<Rightarrow>
   (nat \<Rightarrow> jval \<Rightarrow> error + (string \<times> jval) list) \<Rightarrow> (string \<Rightarrow> error option) \<Rightarrow> env" where
  "sample_env_with queue history sidecar_error =
     \<lparr>output_dir = ''./output'',
      image_app_base_url = ''http://127.0.0.1:8081/view'',
      comfyui_workflow_name = ''flux-krea'',
      uuid4 = sample_uuid4,
      queue_prompt = queue,
      get_history = history,
      get_image = (\<lambda>filename subfolder folder_type. Inr ''PNG-bytes''),
      image_open = (\<lambda>image_data. Inr image_data),
      now = ''2025-01-31_12:00:00'',
      save_error = (\<lambda>path. None),
      open_error = sidecar_error,
      write_error = (\<lambda>path data. None)\<rparr>"

definition sample_queue :: "jval \<Rightarrow> nat \<Rightarrow> error + (string \<times> jval) list" where
  "sample_queue graph client_id = Inr [(''prompt_id'', JStr ''p1'')]"

definition sample_env :: env where
  "sample_env =
     sample_env_with sample_queue (sample_history (sample_final sample_outputs)) (\<lambda>path. None)"

definition sample_world :: world where
  "sample_world =
     \<lparr>workflow = sample_workflow,
      config = JObj [(''image_size_nodes'', JArr [JStr ''5'']),
                     (''seed_nodes'', JArr [JStr ''3'']),
                     (''prompt_nodes'', JArr [JStr ''6'']),
                     (''save_image_node'', JStr ''9''),
                     (''aspect_ratios'', default_aspect_ratios)],
      uuids = 0, requests = 0, slept = 0, posted = [], files = []\<rparr>"

text \<open>
  The sample state after one call with the sample arguments has fetched and stored the
  image, before the prompt file is written.
\<close>

definition sample_world_after :: world where
  "sample_world_after =
     sample_world
       \<lparr>workflow := sample_graph (JInt 864) (JInt 1152) (JInt 6585701376) (JInt 7082102784)
                      (JStr ''a red fox''),
        uuids := 3, requests := 4, slept := 2,
        posted := [(sample_graph (JInt 864) (JInt 1152) (JInt 6585701376) (JInt 7082102784)
                      (JStr ''a red fox''), 324969006592305634633390616021200786553)],
        files := [(''./output/2025-01-31_12:00:00_Red-Fox_flux-krea.png'', Png ''PNG-bytes'')]\<rparr>"

text \<open>The state in which the process starts with the sample graph and that config.\<close>

definition sample_world_missing :: world where
  "sample_world_missing =
     sample_world
       \<lparr>config := JObj [(''image_size_nodes'', JArr [JStr ''5'', JStr ''7'']),
                       (''seed_nodes'', JArr [JStr ''3'']),
                       (''prompt_nodes'', JArr [JStr ''6'']),
                       (''save_image_node'', JStr ''9''),
                       (''aspect_ratios'', default_aspect_ratios)]\<rparr>"

definition sample_arguments :: "(string \<times> jval) list" where
  "sample_arguments =
     [(''prompt'', JStr ''a red fox''), (''title'', JStr ''Red Fox''),
      (''aspect_ratio'', JStr ''tall'')]"

section \<open>Properties\<close>

subsection \<open>The character class of the title pattern\<close>

lemma word_char_iff:
  "word_char c \<longleftrightarrow>
     c \<in> set ''abcdefghijklmnopqrstuvwxyzABCDEFGHIJKLMNOPQRSTUVWXYZ0123456789_''"
  apply (cases c)
  subgoal for b0 b1 b2 b3 b4 b5 b6 b7
    apply (cases b0; cases b1; cases b2; cases b3; cases b4; cases b5; cases b6; cases b7)
    apply (simp_all add: word_char_def)
    done
  done

subsection \<open>Dicts and results\<close>

lemma dict_get_set_same [simp]: "dict_get (dict_set k v d) k = Some v"
  by (induction d) auto

lemma dict_get_set_other [simp]: "k' \<noteq> k \<Longrightarrow> dict_get (dict_set k v d) k' = dict_get d k'"
  by (induction d) auto

lemma rbind_simps [simp]: "rbind (Inl e) f = Inl e" "rbind (Inr x) f = f x"
  by (simp_all add: rbind_def)

lemma rbind_Inr_iff: "rbind m f = Inr y \<longleftrightarrow> (\<exists>x. m = Inr x \<and> f x = Inr y)"
  by (cases m) auto

lemma getitem_str_Inr:
  "py_getitem node (JStr k) = Inr x \<longleftrightarrow> (\<exists>nd. node = JObj nd \<and> dict_get nd k = Some x)"
  by (cases node) (auto split: option.splits)

lemma getitem_JObj_Inr:
  "py_getitem (JObj gd) n = Inr x \<longleftrightarrow> (\<exists>s. n = JStr s \<and> dict_get gd s = Some x)"
  by (cases n) (auto split: option.splits)

lemma setitem_Inr:
  "py_setitem c k v = Inr c' \<longleftrightarrow> (\<exists>d. c = JObj d \<and> c' = JObj (dict_set k v d))"
  by (cases c) auto

subsection \<open>One assignment in a graph that is a dict\<close>

lemma graph_set_JObj:
  "graph_set (JObj gd) n f v = Inr g' \<longleftrightarrow>
     (\<exists>s nd d. n = JStr s \<and> dict_get gd s = Some (JObj nd) \<and>
        dict_get nd inputs_key = Some (JObj d) \<and>
        g' = JObj (dict_set s (JObj (dict_set inputs_key (JObj (dict_set f v d)) nd)) gd))"
  unfolding graph_set_def rbind_Inr_iff getitem_JObj_Inr getitem_str_Inr setitem_Inr
  by auto

lemma graph_set_is_dict:
  "graph_set (JObj gd) n f v = Inr g' \<Longrightarrow> \<exists>gd'. g' = JObj gd'"
  unfolding graph_set_JObj by blast

lemma graph_get_after_set:
  assumes "graph_set (JObj gd) n f v = Inr g'"
  shows "graph_get g' n f = Inr v"
  using assms unfolding graph_set_JObj by (auto simp: graph_get_def)

lemma graph_get_frame:
  assumes "graph_set (JObj gd) n f v = Inr g'" and "m \<noteq> n \<or> f' \<noteq> f"
  shows "graph_get g' m f' = graph_get (JObj gd) m f'"
proof -
  from assms(1) obtain s nd d where n: "n = JStr s" and s: "dict_get gd s = Some (JObj nd)"
    and i: "dict_get nd inputs_key = Some (JObj d)"
    and g': "g' = JObj (dict_set s (JObj (dict_set inputs_key (JObj (dict_set f v d)) nd)) gd)"
    unfolding graph_set_JObj by blast
  show ?thesis
  proof (cases "m = n")
    case True
    with assms(2) have "f' \<noteq> f" by simp
    with True n s i g' show ?thesis by (simp add: graph_get_def)
  next
    case False
    then show ?thesis using n g' by (cases m) (auto simp: graph_get_def)
  qed
qed

lemma graph_has_frame:
  assumes "graph_set (JObj gd) n f v = Inr g'"
    and "m \<noteq> n \<or> f' \<noteq> f \<or> graph_has (JObj gd) n f = Inr True"
  shows "graph_has g' m f' = graph_has (JObj gd) m f'"
proof -
  from assms(1) obtain s nd d where n: "n = JStr s" and s: "dict_get gd s = Some (JObj nd)"
    and i: "dict_get nd inputs_key = Some (JObj d)"
    and g': "g' = JObj (dict_set s (JObj (dict_set inputs_key (JObj (dict_set f v d)) nd)) gd)"
    unfolding graph_set_JObj by blast
  show ?thesis
  proof (cases "m = n")
    case True
    show ?thesis
    proof (cases "f' = f")
      case False
      with True n s i g' show ?thesis by (simp add: graph_has_def)
    next
      case f: True
      with True assms(2) have "graph_has (JObj gd) n f = Inr True" by simp
      with True f n s i g' show ?thesis by (simp add: graph_has_def)
    qed
  next
    case False
    then show ?thesis using n g' by (cases m) (auto simp: graph_has_def)
  qed
qed

lemma getitem_frame:
  assumes "graph_set (JObj gd) n f v = Inr g'"
  shows "isl (py_getitem g' m) = isl (py_getitem (JObj gd) m)"
proof -
  from assms(1) obtain s nd d where n: "n = JStr s" and s: "dict_get gd s = Some (JObj nd)"
    and g': "g' = JObj (dict_set s (JObj (dict_set inputs_key (JObj (dict_set f v d)) nd)) gd)"
    unfolding graph_set_JObj by blast
  show ?thesis
    using n s g' by (cases m; cases "m = n") (auto split: option.splits)
qed


subsection \<open>Conditional assignments and the seed loop\<close>

lemma assign_if_present_ok:
  assumes run: "assign_if_present n f rhs w = (Inr (), w')"
    and rhs: "rhs w = (Inr v, w1)"
  shows "(graph_has (workflow w) n f = Inr False \<and> w' = w) \<or>
         (graph_has (workflow w) n f = Inr True \<and>
          (\<exists>g'. graph_set (workflow w1) n f v = Inr g' \<and> w' = w1\<lparr>workflow := g'\<rparr>))"
  using run rhs
  by (auto simp: assign_if_present_def sbind_def has_input_def py_if_def set_input_def
      split: sum.splits if_splits prod.splits)

lemma assign_draw_ok:
  assumes g: "workflow w = JObj gd"
    and run: "assign_if_present n f (draw_seed eng) w = (Inr (), w')"
  shows "\<exists>b gd'. graph_has (workflow w) n f = Inr b \<and> workflow w' = JObj gd' \<and>
           uuids w' = uuids w + (if b then 1 else 0) \<and>
           (\<forall>m f'. graph_has (workflow w') m f' = graph_has (workflow w) m f') \<and>
           (\<forall>m f'. m \<noteq> n \<or> f' \<noteq> f \<longrightarrow> graph_get (workflow w') m f' = graph_get (workflow w) m f') \<and>
           (b \<longrightarrow> graph_get (workflow w') n f = Inr (JInt (make_random_seed (uuid4 eng (uuids w)))))"
proof -
  let ?v = "JInt (make_random_seed (uuid4 eng (uuids w)))"
  let ?w1 = "w\<lparr>uuids := Suc (uuids w)\<rparr>"
  have rhs: "draw_seed eng w = (Inr ?v, ?w1)" by (simp add: draw_seed_def)
  from assign_if_present_ok [OF run rhs]
  consider (absent) "graph_has (workflow w) n f = Inr False" "w' = w"
    | (present) g' where "graph_has (workflow w) n f = Inr True"
        "graph_set (workflow ?w1) n f ?v = Inr g'" "w' = ?w1\<lparr>workflow := g'\<rparr>"
    by blast
  then show ?thesis
  proof cases
    case absent
    with g show ?thesis by (intro exI [of _ False]) simp
  next
    case present
    from present(2) g have set: "graph_set (JObj gd) n f ?v = Inr g'" by simp
    from graph_set_is_dict [OF set] obtain gd' where "g' = JObj gd'" ..
    moreover have "graph_has g' m f' = graph_has (JObj gd) m f'" for m f'
      using graph_has_frame [OF set] present(1) g by simp
    moreover have "graph_get g' m f' = graph_get (JObj gd) m f'" if "m \<noteq> n \<or> f' \<noteq> f" for m f'
      using graph_get_frame [OF set that] .
    moreover have "graph_get g' n f = Inr ?v"
      using graph_get_after_set [OF set] .
    ultimately show ?thesis using present(1,3) g by auto
  qed
qed

lemma seed_key_noise_seed_key [simp]: "seed_key \<noteq> noise_seed_key"
  by (simp add: seed_key_def noise_seed_key_def)

lemma seed_node_ok:
  assumes g: "workflow w = JObj gd" and run: "seed_node eng n w = (Inr (), w')"
  shows "(\<exists>gd'. workflow w' = JObj gd') \<and>
         uuids w' = uuids w + length (seed_fields (workflow w) n) \<and>
         (\<forall>m f. graph_has (workflow w') m f = graph_has (workflow w) m f) \<and>
         (\<forall>m f. m \<noteq> n \<longrightarrow> graph_get (workflow w') m f = graph_get (workflow w) m f) \<and>
         (\<forall>k < length (seed_fields (workflow w) n).
            graph_get (workflow w') n (seed_fields (workflow w) n ! k) =
              Inr (JInt (make_random_seed (uuid4 eng (uuids w + k)))))"
proof -
  from run obtain wa where a: "assign_if_present n seed_key (draw_seed eng) w = (Inr (), wa)"
    and b: "assign_if_present n noise_seed_key (draw_seed eng) wa = (Inr (), w')"
    by (auto simp: seed_node_def sbind_def split: prod.splits sum.splits)
  from assign_draw_ok [OF g a] obtain b1 gda where
    a1: "graph_has (workflow w) n seed_key = Inr b1" and a2: "workflow wa = JObj gda"
    and a3: "uuids wa = uuids w + (if b1 then 1 else 0)"
    and a4: "\<And>m f'. graph_has (workflow wa) m f' = graph_has (workflow w) m f'"
    and a5: "\<And>m f'. m \<noteq> n \<or> f' \<noteq> seed_key \<Longrightarrow> graph_get (workflow wa) m f' = graph_get (workflow w) m f'"
    and a6: "b1 \<Longrightarrow> graph_get (workflow wa) n seed_key = Inr (JInt (make_random_seed (uuid4 eng (uuids w))))"
    by blast
  from assign_draw_ok [OF a2 b] obtain b2 gdb where
    b1: "graph_has (workflow wa) n noise_seed_key = Inr b2" and b2: "workflow w' = JObj gdb"
    and b3: "uuids w' = uuids wa + (if b2 then 1 else 0)"
    and b4: "\<And>m f'. graph_has (workflow w') m f' = graph_has (workflow wa) m f'"
    and b5: "\<And>m f'. m \<noteq> n \<or> f' \<noteq> noise_seed_key \<Longrightarrow> graph_get (workflow w') m f' = graph_get (workflow wa) m f'"
    and b6: "b2 \<Longrightarrow> graph_get (workflow w') n noise_seed_key = Inr (JInt (make_random_seed (uuid4 eng (uuids wa))))"
    by blast
  have fields: "seed_fields (workflow w) n =
      (if b1 then [seed_key] else []) @ (if b2 then [noise_seed_key] else [])"
    using a1 b1 a4 by (simp add: seed_fields_def)
  have seed_kept: "graph_get (workflow w') n seed_key = graph_get (workflow wa) n seed_key"
    using b5 [of n seed_key] by simp
  show ?thesis
  proof (intro conjI allI impI)
    show "\<exists>gd'. workflow w' = JObj gd'" using b2 by blast
    show "uuids w' = uuids w + length (seed_fields (workflow w) n)"
      using a3 b3 fields by simp
    show "graph_has (workflow w') m f = graph_has (workflow w) m f" for m f
      using a4 b4 by simp
    show "graph_get (workflow w') m f = graph_get (workflow w) m f" if "m \<noteq> n" for m f
      using a5 [of m f] b5 [of m f] that by simp
    show "graph_get (workflow w') n (seed_fields (workflow w) n ! k) =
            Inr (JInt (make_random_seed (uuid4 eng (uuids w + k))))"
      if "k < length (seed_fields (workflow w) n)" for k
      using that fields a3 a6 b6 seed_kept
      by (cases b1; cases b2; cases k) auto
  qed
qed

lemma seed_writes_cong:
  "(\<And>m f. graph_has g' m f = graph_has g m f) \<Longrightarrow> seed_writes g' ns = seed_writes g ns"
  by (simp add: seed_writes_def seed_fields_def)

lemma seed_writes_Cons:
  "seed_writes g (n # ns) = map (Pair n) (seed_fields g n) @ seed_writes g ns"
  by (simp add: seed_writes_def)

lemma seed_writes_nodes: "(m, f) \<in> set (seed_writes g ns) \<Longrightarrow> m \<in> set ns"
  by (auto simp: seed_writes_def)

lemma seed_loop_ok:
  assumes "workflow w = JObj gd" and "distinct ns"
    and "for_each (seed_node eng) ns w = (Inr (), w')"
  shows "(\<exists>gd'. workflow w' = JObj gd') \<and>
         uuids w' = uuids w + length (seed_writes (workflow w) ns) \<and>
         (\<forall>m f. graph_has (workflow w') m f = graph_has (workflow w) m f) \<and>
         (\<forall>m f. m \<notin> set ns \<longrightarrow> graph_get (workflow w') m f = graph_get (workflow w) m f) \<and>
         (\<forall>k < length (seed_writes (workflow w) ns).
            graph_get (workflow w') (fst (seed_writes (workflow w) ns ! k))
                (snd (seed_writes (workflow w) ns ! k)) =
              Inr (JInt (make_random_seed (uuid4 eng (uuids w + k)))))"
  using assms
proof (induction ns arbitrary: w gd)
  case Nil
  then show ?case by (simp add: seed_writes_def)
next
  case (Cons n ns)
  from Cons.prems(3) obtain w1 where step: "seed_node eng n w = (Inr (), w1)"
    and rest: "for_each (seed_node eng) ns w1 = (Inr (), w')"
    by (auto split: prod.splits sum.splits)
  from Cons.prems(2) have n: "n \<notin> set ns" and d: "distinct ns" by simp_all
  note s = seed_node_ok [OF Cons.prems(1) step]
  from s obtain gd1 where g1: "workflow w1 = JObj gd1" by blast
  note r = Cons.IH [OF g1 d rest]
  have has1: "graph_has (workflow w1) m f = graph_has (workflow w) m f" for m f
    using s by blast
  have writes1: "seed_writes (workflow w1) ns = seed_writes (workflow w) ns"
    using has1 by (rule seed_writes_cong)
  let ?here = "seed_fields (workflow w) n"
  let ?later = "seed_writes (workflow w) ns"
  have all: "seed_writes (workflow w) (n # ns) = map (Pair n) ?here @ ?later"
    by (rule seed_writes_Cons)
  show ?case
  proof (intro conjI allI impI)
    show "\<exists>gd'. workflow w' = JObj gd'" using r by blast
    show "uuids w' = uuids w + length (seed_writes (workflow w) (n # ns))"
      using r s writes1 all by simp
    show "graph_has (workflow w') m f = graph_has (workflow w) m f" for m f
      using r has1 by simp
    show "graph_get (workflow w') m f = graph_get (workflow w) m f" if "m \<notin> set (n # ns)" for m f
    proof -
      from that have "m \<noteq> n" "m \<notin> set ns" by simp_all
      then show ?thesis using r s by simp
    qed
    show "graph_get (workflow w') (fst (seed_writes (workflow w) (n # ns) ! k))
            (snd (seed_writes (workflow w) (n # ns) ! k)) =
          Inr (JInt (make_random_seed (uuid4 eng (uuids w + k))))"
      if k: "k < length (seed_writes (workflow w) (n # ns))" for k
    proof (cases "k < length ?here")
      case True
      then have entry: "seed_writes (workflow w) (n # ns) ! k = (n, ?here ! k)"
        by (simp add: all nth_append)
      have "graph_get (workflow w') n (?here ! k) = graph_get (workflow w1) n (?here ! k)"
        using r n by blast
      also have "\<dots> = Inr (JInt (make_random_seed (uuid4 eng (uuids w + k))))"
        using s True by blast
      finally show ?thesis by (simp add: entry)
    next
      case False
      define j where "j = k - length ?here"
      from False k have j: "j < length ?later" and kj: "k = length ?here + j"
        by (simp_all add: j_def all)
      have entry: "seed_writes (workflow w) (n # ns) ! k = ?later ! j"
        using False by (simp add: all nth_append j_def)
      have "graph_get (workflow w') (fst (?later ! j)) (snd (?later ! j)) =
              Inr (JInt (make_random_seed (uuid4 eng (uuids w1 + j))))"
        using r j writes1 by simp
      moreover have "uuids w1 + j = uuids w + k"
        using s kj by simp
      ultimately show ?thesis by (simp add: entry)
    qed
  qed
qed

subsection \<open>One round of the waiting loop\<close>

lemma poll_finished:
  "finished eng pid (requests w) \<Longrightarrow>
   poll (Suc fuel) eng pid w = Some (Inr (), w\<lparr>requests := Suc (requests w)\<rparr>)"
  by (auto simp: finished_def Let_def split: sum.splits)

lemma poll_pending:
  "still_pending eng pid (requests w) \<Longrightarrow>
   poll (Suc fuel) eng pid w =
     poll fuel eng pid (w\<lparr>requests := Suc (requests w), slept := slept w + 1\<rparr>)"
  by (auto simp: still_pending_def sleep_def Let_def split: sum.splits)

lemma poll_broken:
  "\<not> finished eng pid (requests w) \<Longrightarrow> \<not> still_pending eng pid (requests w) \<Longrightarrow>
   \<exists>e. poll (Suc fuel) eng pid w = Some (Inl e, w\<lparr>requests := Suc (requests w)\<rparr>)"
  by (auto simp: finished_def still_pending_def Let_def split: sum.splits)

declare poll.simps(2) [simp del]

lemma not_finished_and_pending: "finished eng pid k \<Longrightarrow> \<not> still_pending eng pid k"
  by (auto simp: finished_def still_pending_def split: sum.splits)


lemma poll_reaches:
  "(\<forall>i<k. still_pending eng pid (requests w + i)) \<Longrightarrow> finished eng pid (requests w + k) \<Longrightarrow>
   k < fuel \<Longrightarrow>
   poll fuel eng pid w = Some (Inr (), w\<lparr>requests := requests w + Suc k, slept := slept w + k\<rparr>)"
proof (induction k arbitrary: w fuel)
  case 0
  then obtain f where "fuel = Suc f" by (cases fuel) auto
  with 0 show ?case by (simp add: poll_finished)
next
  case (Suc k)
  then obtain f where f: "fuel = Suc f" "k < f" by (cases fuel) auto
  let ?w1 = "w\<lparr>requests := Suc (requests w), slept := slept w + 1\<rparr>"
  from Suc.prems(1) have now: "still_pending eng pid (requests w)"
    by (auto dest: spec [of _ 0])
  have later: "\<forall>i<k. still_pending eng pid (requests ?w1 + i)"
    using Suc.prems(1) by (auto dest: spec [of _ "Suc i" for i])
  have fin: "finished eng pid (requests ?w1 + k)" using Suc.prems(2) by simp
  from Suc.IH [OF later fin f(2)] now f(1) show ?case
    by (simp add: poll_pending)
qed


subsection \<open>The pipeline and the handler, stage by stage\<close>

lemma pipeline_submit_error:
  "submit eng prompt aspect_ratio w = (Inl e, w1) \<Longrightarrow>
   comfyui_generate_image fuel eng prompt title aspect_ratio w = Some (Inl e, w1)"
  by (simp add: comfyui_generate_image_def)

lemma pipeline_poll_error:
  "submit eng prompt aspect_ratio w = (Inr prompt_id, w1) \<Longrightarrow>
   poll fuel eng prompt_id w1 = Some (Inl e, w2) \<Longrightarrow>
   comfyui_generate_image fuel eng prompt title aspect_ratio w = Some (Inl e, w2)"
  by (simp add: comfyui_generate_image_def)

lemma pipeline_retrieve:
  "submit eng prompt aspect_ratio w = (Inr prompt_id, w1) \<Longrightarrow>
   poll fuel eng prompt_id w1 = Some (Inr (), w2) \<Longrightarrow>
   comfyui_generate_image fuel eng prompt title aspect_ratio w =
     Some (retrieve eng title prompt_id w2)"
  by (simp add: comfyui_generate_image_def)

lemma handler_pipeline_error:
  "comfyui_generate_image fuel eng (arguments_get arguments ''prompt'')
      (arguments_get arguments ''title'') (arguments_get arguments ''aspect_ratio'') w =
     Some (Inl e, w1) \<Longrightarrow>
   handle_call_tool fuel eng ''image_generate'' arguments w = Some (error_text e, w1)"
  by (simp add: handle_call_tool_def)

lemma handler_no_file:
  "comfyui_generate_image fuel eng (arguments_get arguments ''prompt'')
      (arguments_get arguments ''title'') (arguments_get arguments ''aspect_ratio'') w =
     Some (Inr (None, markdown), w1) \<Longrightarrow>
   handle_call_tool fuel eng ''image_generate'' arguments w =
     Some ([TextContent ''text'' markdown], w1)"
  by (simp add: handle_call_tool_def)

lemma handler_prompt_file:
  "comfyui_generate_image fuel eng (arguments_get arguments ''prompt'')
      (arguments_get arguments ''title'') (arguments_get arguments ''aspect_ratio'') w =
     Some (Inr (Some image_filename, markdown), w1) \<Longrightarrow> image_filename \<noteq> [] \<Longrightarrow>
   handle_call_tool fuel eng ''image_generate'' arguments w =
     (case write_prompt_file eng image_filename (arguments_get arguments ''prompt'') w1 of
        (Inl e, w2) \<Rightarrow> Some (error_text e, w2)
      | (Inr u, w2) \<Rightarrow> Some ([TextContent ''text'' markdown], w2))"
  by (simp add: handle_call_tool_def)

lemma handler_one_text_block:
  assumes "handle_call_tool fuel eng name arguments w = Some (r, w')"
  shows "\<exists>t. r = [TextContent ''text'' t]"
  using assms
  by (auto simp: handle_call_tool_def error_text_def Let_def
      split: if_splits option.splits sum.splits prod.splits)

subsection \<open>Loops that keep a property, and a node the graph does not have\<close>

lemma for_each_invariant:
  assumes "P s" and "\<And>x s r s'. P s \<Longrightarrow> body x s = (r, s') \<Longrightarrow> P s'"
  shows "P (snd (for_each body xs s))"
  using assms(1)
proof (induction xs arbitrary: s)
  case Nil
  then show ?case by simp
next
  case (Cons x xs)
  obtain r s' where b: "body x s = (r, s')" by (cases "body x s")
  from assms(2) [OF Cons.prems b] have s': "P s'" .
  show ?case
  proof (cases r)
    case (Inl e)
    with b s' show ?thesis by simp
  next
    case (Inr u)
    with b Cons.IH [OF s'] show ?thesis by simp
  qed
qed

lemma for_each_fails:
  assumes "P s" and "x \<in> set xs"
    and "\<And>y s r s'. P s \<Longrightarrow> body y s = (r, s') \<Longrightarrow> P s'"
    and "\<And>s. P s \<Longrightarrow> isl (fst (body x s))"
  shows "isl (fst (for_each body xs s))"
  using assms(1,2)
proof (induction xs arbitrary: s)
  case Nil
  then show ?case by simp
next
  case (Cons y ys)
  obtain r s' where b: "body y s = (r, s')" by (cases "body y s")
  from assms(3) [OF Cons.prems(1) b] have s': "P s'" .
  show ?case
  proof (cases r)
    case (Inl e)
    with b show ?thesis by simp
  next
    case (Inr u)
    with b assms(4) [OF Cons.prems(1)] have "y \<noteq> x" by auto
    with Cons.prems(2) have "x \<in> set ys" by simp
    from Cons.IH [OF s' this] b Inr show ?thesis by simp
  qed
qed

lemma set_input_keeps:
  assumes "set_input m f v w = (r, w')" and "\<exists>gd. workflow w = JObj gd"
  shows "(\<exists>gd. workflow w' = JObj gd) \<and>
         isl (py_getitem (workflow w') n) = isl (py_getitem (workflow w) n) \<and>
         config w' = config w \<and> posted w' = posted w \<and> uuids w' = uuids w"
proof (cases "graph_set (workflow w) m f v")
  case (Inl e)
  with assms show ?thesis by (simp add: set_input_def)
next
  case (Inr g)
  from assms(2) obtain gd where gd: "workflow w = JObj gd" ..
  with Inr have s: "graph_set (JObj gd) m f v = Inr g" by simp
  from graph_set_is_dict [OF s] getitem_frame [OF s, of n] Inr assms(1) gd
  show ?thesis by (auto simp: set_input_def)
qed

lemma set_input_missing:
  "isl (py_getitem (workflow w) n) \<Longrightarrow> isl (fst (set_input n f v w))"
  by (cases "py_getitem (workflow w) n") (simp_all add: set_input_def graph_set_def)

lemma assign_if_present_keeps:
  assumes run: "assign_if_present m f rhs w = (r, w')" and g: "\<exists>gd. workflow w = JObj gd"
    and rhs: "\<exists>v. rhs w = (Inr v, w1)"
    and w1: "workflow w1 = workflow w" "config w1 = config w" "posted w1 = posted w"
  shows "(\<exists>gd. workflow w' = JObj gd) \<and>
         isl (py_getitem (workflow w') n) = isl (py_getitem (workflow w) n) \<and>
         config w' = config w \<and> posted w' = posted w"
proof -
  from rhs obtain v where v: "rhs w = (Inr v, w1)" ..
  consider (unchanged) "w' = w" | (assigned) "set_input m f v w1 = (r, w')"
    using run v
    by (auto simp: assign_if_present_def sbind_def has_input_def py_if_def
        split: sum.splits if_splits)
  then show ?thesis
  proof cases
    case unchanged
    with g show ?thesis by simp
  next
    case assigned
    from g w1(1) have "\<exists>gd. workflow w1 = JObj gd" by simp
    from set_input_keeps [OF assigned this, of n] w1 show ?thesis by simp
  qed
qed

lemma assign_if_present_missing:
  "isl (py_getitem (workflow w) n) \<Longrightarrow> isl (fst (assign_if_present n f rhs w))"
  by (cases "py_getitem (workflow w) n")
    (simp_all add: assign_if_present_def sbind_def has_input_def graph_has_def)

lemma size_node_keeps:
  assumes "size_node width height m w = (r, w')" and "\<exists>gd. workflow w = JObj gd"
  shows "(\<exists>gd. workflow w' = JObj gd) \<and>
         isl (py_getitem (workflow w') n) = isl (py_getitem (workflow w) n) \<and>
         config w' = config w \<and> posted w' = posted w"
proof -
  obtain r1 wa where a: "assign_if_present m width_key (pure_step (Inr width)) w = (r1, wa)"
    by (cases "assign_if_present m width_key (pure_step (Inr width)) w")
  have ka: "(\<exists>gd. workflow wa = JObj gd) \<and>
         isl (py_getitem (workflow wa) n) = isl (py_getitem (workflow w) n) \<and>
         config wa = config w \<and> posted wa = posted w"
    by (rule assign_if_present_keeps [OF a assms(2), of w]) (simp_all add: pure_step_def)
  show ?thesis
  proof (cases r1)
    case (Inl e)
    with a assms(1) have "w' = wa" by (simp add: size_node_def sbind_def)
    with ka show ?thesis by simp
  next
    case (Inr u)
    with a assms(1) have b: "assign_if_present m height_key (pure_step (Inr height)) wa = (r, w')"
      by (simp add: size_node_def sbind_def)
    from ka have "\<exists>gd. workflow wa = JObj gd" by blast
    from assign_if_present_keeps [OF b this, of wa n] ka show ?thesis
      by (simp add: pure_step_def)
  qed
qed

lemma seed_node_keeps:
  assumes "seed_node eng m w = (r, w')" and "\<exists>gd. workflow w = JObj gd"
  shows "(\<exists>gd. workflow w' = JObj gd) \<and>
         isl (py_getitem (workflow w') n) = isl (py_getitem (workflow w) n) \<and>
         config w' = config w \<and> posted w' = posted w"
proof -
  obtain r1 wa where a: "assign_if_present m seed_key (draw_seed eng) w = (r1, wa)"
    by (cases "assign_if_present m seed_key (draw_seed eng) w")
  have ka: "(\<exists>gd. workflow wa = JObj gd) \<and>
         isl (py_getitem (workflow wa) n) = isl (py_getitem (workflow w) n) \<and>
         config wa = config w \<and> posted wa = posted w"
    by (rule assign_if_present_keeps [OF a assms(2), of "w\<lparr>uuids := Suc (uuids w)\<rparr>"])
      (simp_all add: draw_seed_def)
  show ?thesis
  proof (cases r1)
    case (Inl e)
    with a assms(1) have "w' = wa" by (simp add: seed_node_def sbind_def)
    with ka show ?thesis by simp
  next
    case (Inr u)
    with a assms(1) have b: "assign_if_present m noise_seed_key (draw_seed eng) wa = (r, w')"
      by (simp add: seed_node_def sbind_def)
    from ka have "\<exists>gd. workflow wa = JObj gd" by blast
    from assign_if_present_keeps [OF b this, of "wa\<lparr>uuids := Suc (uuids wa)\<rparr>" n] ka
    show ?thesis by (simp add: draw_seed_def)
  qed
qed

lemma sbind_keeps:
  assumes "sbind m f s = (r, s')" and "\<And>r1 s1. m s = (r1, s1) \<Longrightarrow> P s1"
    and "\<And>x s1. m s = (Inr x, s1) \<Longrightarrow> f x s1 = (r, s') \<Longrightarrow> P s'"
  shows "P s'"
proof (cases "m s")
  case (Pair r1 s1)
  show ?thesis
  proof (cases r1)
    case (Inl e)
    with Pair assms(1) have "s' = s1" by (simp add: sbind_def)
    with assms(2) [OF Pair] show ?thesis by simp
  next
    case (Inr x)
    with Pair assms(1) have "f x s1 = (r, s')" by (simp add: sbind_def)
    with assms(3) Pair Inr show ?thesis by simp
  qed
qed

lemma sbind_fails_left: "isl (fst (m s)) \<Longrightarrow> isl (fst (sbind m f s))"
  by (cases "m s") (auto simp: sbind_def isl_def)

lemma sbind_fails_right:
  "(\<And>x s1. m s = (Inr x, s1) \<Longrightarrow> isl (fst (f x s1))) \<Longrightarrow> isl (fst (sbind m f s))"
  by (cases "m s") (auto simp: sbind_def split: sum.splits)

lemma stage_keeps:
  assumes "sbind (config_list key) (for_each body) s = (r, s')" and "P s"
    and "\<And>x s r s'. P s \<Longrightarrow> body x s = (r, s') \<Longrightarrow> P s'"
  shows "P s'"
proof (rule sbind_keeps [where P = P, OF assms(1)])
  fix r1 s1 assume "config_list key s = (r1, s1)"
  then have "s1 = s" by (simp add: config_list_def)
  with assms(2) show "P s1" by simp
next
  fix ns s1 assume "config_list key s = (Inr ns, s1)" and f: "for_each body ns s1 = (r, s')"
  then have "s1 = s" by (simp add: config_list_def)
  with f for_each_invariant [of P s body ns, OF assms(2,3)] show "P s'" by simp
qed

lemma stage_fails:
  assumes "P s" and "config_list key s = (Inr ns, s)" and "x \<in> set ns"
    and "\<And>y s r s'. P s \<Longrightarrow> body y s = (r, s') \<Longrightarrow> P s'"
    and "\<And>s. P s \<Longrightarrow> isl (fst (body x s))"
  shows "isl (fst (sbind (config_list key) (for_each body) s))"
proof (rule sbind_fails_right)
  fix ns' s1 assume "config_list key s = (Inr ns', s1)"
  with assms(2) have "ns' = ns" "s1 = s" by simp_all
  with for_each_fails [of P s x ns body, OF assms(1,3,4,5)]
  show "isl (fst (for_each body ns' s1))" by simp
qed

lemma inject_stages:
  "inject eng prompt width height =
     sbind (sbind (config_list image_size_nodes_key) (for_each (size_node width height))) (\<lambda>u.
     sbind (sbind (config_list seed_nodes_key) (for_each (seed_node eng))) (\<lambda>u.
     sbind (config_list prompt_nodes_key) (for_each (prompt_node prompt))))"
  by (auto simp: inject_def sbind_def fun_eq_iff split: prod.splits sum.splits)

lemma size_node_missing: "isl (py_getitem (workflow s) n) \<Longrightarrow> isl (fst (size_node width height n s))"
  unfolding size_node_def by (rule sbind_fails_left) (rule assign_if_present_missing)

lemma seed_node_missing: "isl (py_getitem (workflow s) n) \<Longrightarrow> isl (fst (seed_node eng n s))"
  unfolding seed_node_def by (rule sbind_fails_left) (rule assign_if_present_missing)

lemma inject_missing_node:
  assumes g: "\<exists>gd. workflow w = JObj gd" and missing: "isl (py_getitem (workflow w) n)"
    and listed: "config_list key w = (Inr ns, w)" "n \<in> set ns"
      "key = image_size_nodes_key \<or> key = seed_nodes_key \<or> key = prompt_nodes_key"
  shows "isl (fst (inject eng prompt width height w)) \<and>
         posted (snd (inject eng prompt width height w)) = posted w \<and>
         (\<exists>gd. workflow (snd (inject eng prompt width height w)) = JObj gd) \<and>
         isl (py_getitem (workflow (snd (inject eng prompt width height w))) n) \<and>
         config (snd (inject eng prompt width height w)) = config w"
proof -
  let ?P = "\<lambda>s. (\<exists>gd. workflow s = JObj gd) \<and> isl (py_getitem (workflow s) n) \<and>
                 config s = config w \<and> posted s = posted w"
  let ?st1 = "sbind (config_list image_size_nodes_key) (for_each (size_node width height))"
  let ?st2 = "sbind (config_list seed_nodes_key) (for_each (seed_node eng))"
  let ?st3 = "sbind (config_list prompt_nodes_key) (for_each (prompt_node prompt))"
  have P0: "?P w" using g missing by simp
  have lists: "config_list key s = (Inr ns, s)" if "?P s" for s
    using that listed(1) by (simp add: config_list_def)
  have size_keeps: "?P s'" if "?P s" "size_node width height y s = (r, s')" for y s r s'
  proof -
    from that(1) have "\<exists>gd. workflow s = JObj gd" by blast
    from size_node_keeps [OF that(2) this, of n] that(1) show ?thesis by simp
  qed
  have seed_keeps: "?P s'" if "?P s" "seed_node eng y s = (r, s')" for y s r s'
  proof -
    from that(1) have "\<exists>gd. workflow s = JObj gd" by blast
    from seed_node_keeps [OF that(2) this, of n] that(1) show ?thesis by simp
  qed
  have prompt_keeps: "?P s'" if "?P s" "prompt_node prompt y s = (r, s')" for y s r s'
  proof -
    from that(1) have d: "\<exists>gd. workflow s = JObj gd" by blast
    from that(2) have "set_input y text_key prompt s = (r, s')" by (simp add: prompt_node_def)
    from set_input_keeps [OF this d, of n] that(1) show ?thesis by simp
  qed
  have size_fails: "isl (fst (size_node width height n s))" if "?P s" for s
    using that by (intro size_node_missing) blast
  have seed_fails: "isl (fst (seed_node eng n s))" if "?P s" for s
    using that by (intro seed_node_missing) blast
  have prompt_fails: "isl (fst (prompt_node prompt n s))" if "?P s" for s
    unfolding prompt_node_def using that by (intro set_input_missing) blast
  have k1: "?P s'" if "?P s" "?st1 s = (r, s')" for s r s'
    by (rule stage_keeps [where P = "?P", OF that(2) that(1) size_keeps])
  have k2: "?P s'" if "?P s" "?st2 s = (r, s')" for s r s'
    by (rule stage_keeps [where P = "?P", OF that(2) that(1) seed_keeps])
  have k3: "?P s'" if "?P s" "?st3 s = (r, s')" for s r s'
    by (rule stage_keeps [where P = "?P", OF that(2) that(1) prompt_keeps])
  obtain r s' where run: "inject eng prompt width height w = (r, s')"
    by (cases "inject eng prompt width height w")
  have "?P s'"
  proof (rule sbind_keeps [where P = "?P", OF run [unfolded inject_stages]])
    fix r1 s1 assume "?st1 w = (r1, s1)"
    from k1 [OF P0 this] show "?P s1" .
  next
    fix x s1 assume a: "?st1 w = (Inr x, s1)"
      and b: "sbind ?st2 (\<lambda>u. ?st3) s1 = (r, s')"
    from k1 [OF P0 a] have P1: "?P s1" .
    show "?P s'"
    proof (rule sbind_keeps [where P = "?P", OF b])
      fix r2 s2 assume "?st2 s1 = (r2, s2)"
      from k2 [OF P1 this] show "?P s2" .
    next
      fix y s2 assume c: "?st2 s1 = (Inr y, s2)" and d: "?st3 s2 = (r, s')"
      from k3 [OF k2 [OF P1 c] d] show "?P s'" .
    qed
  qed
  then have kept: "?P (snd (inject eng prompt width height w))"
    using run by simp
  have "isl (fst (inject eng prompt width height w))"
    unfolding inject_stages
  proof -
    consider (size) "key = image_size_nodes_key" | (seed) "key = seed_nodes_key"
      | (prompt) "key = prompt_nodes_key" using listed(3) by blast
    then show "isl (fst (sbind ?st1 (\<lambda>u. sbind ?st2 (\<lambda>u. ?st3)) w))"
    proof cases
      case size
      have "isl (fst (?st1 w))"
      proof (rule stage_fails [where P = "?P" and x = n and ns = ns])
        show "?P w" by (rule P0)
        show "config_list image_size_nodes_key w = (Inr ns, w)" using listed(1) size by simp
        show "n \<in> set ns" by (rule listed(2))
        show "?P s'" if "?P s" "size_node width height y s = (r, s')" for y s r s'
          using that by (rule size_keeps)
        show "isl (fst (size_node width height n s))" if "?P s" for s
          using that by (rule size_fails)
      qed
      then show ?thesis by (rule sbind_fails_left)
    next
      case seed
      show ?thesis
      proof (rule sbind_fails_right)
        fix x s1 assume "?st1 w = (Inr x, s1)"
        from k1 [OF P0 this] have P1: "?P s1" .
        have "isl (fst (?st2 s1))"
        proof (rule stage_fails [where P = "?P" and x = n and ns = ns])
          show "?P s1" by (rule P1)
          show "config_list seed_nodes_key s1 = (Inr ns, s1)" using lists [OF P1] seed by simp
          show "n \<in> set ns" by (rule listed(2))
          show "?P s'" if "?P s" "seed_node eng y s = (r, s')" for y s r s'
            using that by (rule seed_keeps)
          show "isl (fst (seed_node eng n s))" if "?P s" for s
            using that by (rule seed_fails)
        qed
        then show "isl (fst (sbind ?st2 (\<lambda>u. ?st3) s1))" by (rule sbind_fails_left)
      qed
    next
      case prompt
      show ?thesis
      proof (rule sbind_fails_right)
        fix x s1 assume "?st1 w = (Inr x, s1)"
        from k1 [OF P0 this] have P1: "?P s1" .
        show "isl (fst (sbind ?st2 (\<lambda>u. ?st3) s1))"
        proof (rule sbind_fails_right)
          fix y s2 assume "?st2 s1 = (Inr y, s2)"
          from k2 [OF P1 this] have P2: "?P s2" .
          show "isl (fst (?st3 s2))"
          proof (rule stage_fails [where P = "?P" and x = n and ns = ns])
            show "?P s2" by (rule P2)
            show "config_list prompt_nodes_key s2 = (Inr ns, s2)"
              using lists [OF P2] prompt by simp
            show "n \<in> set ns" by (rule listed(2))
            show "?P s'" if "?P s" "prompt_node prompt y s = (r, s')" for y s r s'
              using that by (rule prompt_keeps)
            show "isl (fst (prompt_node prompt n s))" if "?P s" for s
              using that by (rule prompt_fails)
          qed
        qed
      qed
    qed
  qed
  with kept show ?thesis by simp
qed

lemma submit_missing_node:
  assumes g: "\<exists>gd. workflow w = JObj gd" and missing: "isl (py_getitem (workflow w) n)"
    and listed: "config_list key w = (Inr ns, w)" "n \<in> set ns"
      "key = image_size_nodes_key \<or> key = seed_nodes_key \<or> key = prompt_nodes_key"
  shows "\<exists>e w1. submit eng prompt aspect_ratio w = (Inl e, w1) \<and> posted w1 = posted w \<and>
           (\<exists>gd. workflow w1 = JObj gd) \<and> isl (py_getitem (workflow w1) n) \<and>
           config w1 = config w"
proof -
  let ?w0 = "w\<lparr>uuids := Suc (uuids w)\<rparr>"
  show ?thesis
  proof (cases "image_size (config w) aspect_ratio")
    case (Inl e)
    with g missing show ?thesis by (simp add: submit_def sbind_def new_client_id_def)
  next
    case (Inr size)
    have l: "config_list key ?w0 = (Inr ns, ?w0)"
      using listed(1) by (simp add: config_list_def)
    from inject_missing_node [of ?w0 n key ns eng prompt "fst size" "snd size"] g missing l listed(2,3)
    have "isl (fst (inject eng prompt (fst size) (snd size) ?w0))"
      and "posted (snd (inject eng prompt (fst size) (snd size) ?w0)) = posted w"
      and "\<exists>gd. workflow (snd (inject eng prompt (fst size) (snd size) ?w0)) = JObj gd"
      and "isl (py_getitem (workflow (snd (inject eng prompt (fst size) (snd size) ?w0))) n)"
      and "config (snd (inject eng prompt (fst size) (snd size) ?w0)) = config w"
      by simp_all
    then obtain e w1 where "inject eng prompt (fst size) (snd size) ?w0 = (Inl e, w1)"
      and "posted w1 = posted w" and "\<exists>gd. workflow w1 = JObj gd"
      and "isl (py_getitem (workflow w1) n)" and "config w1 = config w"
      by (cases "inject eng prompt (fst size) (snd size) ?w0") (auto simp: isl_def)
    with Inr show ?thesis by (simp add: submit_def sbind_def new_client_id_def)
  qed
qed

lemmas key_defs = aspect_ratios_key_def save_image_node_key_def image_size_nodes_key_def
  seed_nodes_key_def prompt_nodes_key_def inputs_key_def seed_key_def noise_seed_key_def
  width_key_def height_key_def text_key_def

subsection \<open>What the three loops leave in the graph\<close>

lemma field_keys_differ [simp]:
  "width_key \<noteq> height_key" "width_key \<noteq> text_key" "height_key \<noteq> text_key"
  "width_key \<noteq> seed_key" "width_key \<noteq> noise_seed_key"
  "height_key \<noteq> seed_key" "height_key \<noteq> noise_seed_key"
  "height_key \<noteq> width_key" "text_key \<noteq> width_key" "text_key \<noteq> height_key"
  "seed_key \<noteq> width_key" "noise_seed_key \<noteq> width_key"
  "seed_key \<noteq> height_key" "noise_seed_key \<noteq> height_key"
  by (simp_all add: key_defs)

lemma assign_if_present_effect:
  assumes g: "workflow w = JObj gd" and run: "assign_if_present n f rhs w = (Inr (), w')"
    and rhs: "rhs w = (Inr v, w1)"
    and same: "workflow w1 = workflow w" "config w1 = config w" "posted w1 = posted w"
  shows "(\<exists>gd'. workflow w' = JObj gd') \<and> config w' = config w \<and> posted w' = posted w \<and>
         (\<forall>m f'. graph_has (workflow w') m f' = graph_has (workflow w) m f') \<and>
         (\<forall>m f'. graph_get (workflow w') m f' =
            (if m = n \<and> f' = f \<and> graph_has (workflow w) n f = Inr True then Inr v
             else graph_get (workflow w) m f'))"
proof -
  from assign_if_present_ok [OF run rhs]
  consider (absent) "graph_has (workflow w) n f = Inr False" "w' = w"
    | (present) g' where "graph_has (workflow w) n f = Inr True"
        "graph_set (workflow w1) n f v = Inr g'" "w' = w1\<lparr>workflow := g'\<rparr>"
    by blast
  then show ?thesis
  proof cases
    case absent
    with g show ?thesis by simp
  next
    case present
    from present(2) same(1) g have set: "graph_set (JObj gd) n f v = Inr g'" by simp
    from graph_set_is_dict [OF set] obtain gd' where gd': "g' = JObj gd'" ..
    have has: "graph_has g' m f' = graph_has (JObj gd) m f'" for m f'
      using graph_has_frame [OF set] present(1) g by simp
    have get: "graph_get g' m f' =
        (if m = n \<and> f' = f then Inr v else graph_get (JObj gd) m f')" for m f'
    proof (cases "m = n \<and> f' = f")
      case True
      with graph_get_after_set [OF set] show ?thesis by simp
    next
      case False
      then have "m \<noteq> n \<or> f' \<noteq> f" by blast
      from graph_get_frame [OF set this] False show ?thesis by auto
    qed
    show ?thesis
      using present(1,3) g gd' has get same by simp
  qed
qed

lemma size_node_effect:
  assumes g: "workflow w = JObj gd" and run: "size_node width height n w = (Inr (), w')"
  shows "(\<exists>gd'. workflow w' = JObj gd') \<and> config w' = config w \<and> posted w' = posted w \<and>
         (\<forall>m f. graph_has (workflow w') m f = graph_has (workflow w) m f) \<and>
         (\<forall>m f. graph_get (workflow w') m f =
            (if m = n \<and> f = width_key \<and> graph_has (workflow w) n width_key = Inr True
             then Inr width
             else if m = n \<and> f = height_key \<and> graph_has (workflow w) n height_key = Inr True
             then Inr height
             else graph_get (workflow w) m f))"
proof -
  from run obtain wa where
    a: "assign_if_present n width_key (pure_step (Inr width)) w = (Inr (), wa)"
    and b: "assign_if_present n height_key (pure_step (Inr height)) wa = (Inr (), w')"
    by (auto simp: size_node_def sbind_def split: prod.splits sum.splits)
  have ea: "(\<exists>gd'. workflow wa = JObj gd') \<and> config wa = config w \<and> posted wa = posted w \<and>
         (\<forall>m f'. graph_has (workflow wa) m f' = graph_has (workflow w) m f') \<and>
         (\<forall>m f'. graph_get (workflow wa) m f' =
            (if m = n \<and> f' = width_key \<and> graph_has (workflow w) n width_key = Inr True
             then Inr width else graph_get (workflow w) m f'))"
    by (rule assign_if_present_effect [OF g a, of width w]) (simp_all add: pure_step_def)
  then obtain gda where ga: "workflow wa = JObj gda" by blast
  have eb: "(\<exists>gd'. workflow w' = JObj gd') \<and> config w' = config wa \<and> posted w' = posted wa \<and>
         (\<forall>m f'. graph_has (workflow w') m f' = graph_has (workflow wa) m f') \<and>
         (\<forall>m f'. graph_get (workflow w') m f' =
            (if m = n \<and> f' = height_key \<and> graph_has (workflow wa) n height_key = Inr True
             then Inr height else graph_get (workflow wa) m f'))"
    by (rule assign_if_present_effect [OF ga b, of height wa]) (simp_all add: pure_step_def)
  from ea eb show ?thesis by auto
qed

lemma size_loop_effect:
  assumes "workflow w = JObj gd" and "for_each (size_node width height) ns w = (Inr (), w')"
  shows "(\<exists>gd'. workflow w' = JObj gd') \<and> config w' = config w \<and> posted w' = posted w \<and>
         uuids w' = uuids w \<and>
         (\<forall>m f. graph_has (workflow w') m f = graph_has (workflow w) m f) \<and>
         (\<forall>m f. graph_get (workflow w') m f =
            (if m \<in> set ns \<and> f = width_key \<and> graph_has (workflow w) m width_key = Inr True
             then Inr width
             else if m \<in> set ns \<and> f = height_key \<and> graph_has (workflow w) m height_key = Inr True
             then Inr height
             else graph_get (workflow w) m f))"
  using assms
proof (induction ns arbitrary: w gd)
  case Nil
  then show ?case by simp
next
  case (Cons n ns)
  from Cons.prems(2) obtain w1 where step: "size_node width height n w = (Inr (), w1)"
    and rest: "for_each (size_node width height) ns w1 = (Inr (), w')"
    by (auto split: prod.splits sum.splits)
  note s = size_node_effect [OF Cons.prems(1) step]
  from s obtain gd1 where g1: "workflow w1 = JObj gd1" by blast
  note r = Cons.IH [OF g1 rest]
  have u: "uuids w1 = uuids w"
    using step
    by (auto simp: size_node_def assign_if_present_def sbind_def has_input_def py_if_def
        pure_step_def set_input_def split: prod.splits sum.splits if_splits)
  have has1: "graph_has (workflow w1) m f = graph_has (workflow w) m f" for m f
    using s by blast
  have get1: "graph_get (workflow w1) m f =
            (if m = n \<and> f = width_key \<and> graph_has (workflow w) n width_key = Inr True
             then Inr width
             else if m = n \<and> f = height_key \<and> graph_has (workflow w) n height_key = Inr True
             then Inr height
             else graph_get (workflow w) m f)" for m f
    using s by blast
  have get': "graph_get (workflow w') m f =
            (if m \<in> set ns \<and> f = width_key \<and> graph_has (workflow w1) m width_key = Inr True
             then Inr width
             else if m \<in> set ns \<and> f = height_key \<and> graph_has (workflow w1) m height_key = Inr True
             then Inr height
             else graph_get (workflow w1) m f)" for m f
    using r by blast
  show ?case
  proof (intro conjI allI)
    show "\<exists>gd'. workflow w' = JObj gd'" using r by blast
    show "config w' = config w" using r s by simp
    show "posted w' = posted w" using r s by simp
    show "uuids w' = uuids w" using r u by simp
    show "graph_has (workflow w') m f = graph_has (workflow w) m f" for m f
      using r has1 by simp
    show "graph_get (workflow w') m f =
            (if m \<in> set (n # ns) \<and> f = width_key \<and> graph_has (workflow w) m width_key = Inr True
             then Inr width
             else if m \<in> set (n # ns) \<and> f = height_key \<and> graph_has (workflow w) m height_key = Inr True
             then Inr height
             else graph_get (workflow w) m f)" for m f
      unfolding get' [of m f] get1 [of m f] has1 by auto
  qed
qed

lemma seed_node_frame:
  assumes g: "workflow w = JObj gd" and run: "seed_node eng n w = (Inr (), w')"
  shows "(\<exists>gd'. workflow w' = JObj gd') \<and> config w' = config w \<and> posted w' = posted w \<and>
         (\<forall>m f. graph_has (workflow w') m f = graph_has (workflow w) m f) \<and>
         (\<forall>m f. f \<noteq> seed_key \<longrightarrow> f \<noteq> noise_seed_key \<longrightarrow>
            graph_get (workflow w') m f = graph_get (workflow w) m f)"
proof -
  from run obtain wa where a: "assign_if_present n seed_key (draw_seed eng) w = (Inr (), wa)"
    and b: "assign_if_present n noise_seed_key (draw_seed eng) wa = (Inr (), w')"
    by (auto simp: seed_node_def sbind_def split: prod.splits sum.splits)
  have ea: "(\<exists>gd'. workflow wa = JObj gd') \<and> config wa = config w \<and> posted wa = posted w \<and>
         (\<forall>m f'. graph_has (workflow wa) m f' = graph_has (workflow w) m f') \<and>
         (\<forall>m f'. graph_get (workflow wa) m f' =
            (if m = n \<and> f' = seed_key \<and> graph_has (workflow w) n seed_key = Inr True
             then Inr (JInt (make_random_seed (uuid4 eng (uuids w))))
             else graph_get (workflow w) m f'))"
    by (rule assign_if_present_effect [OF g a, of _ "w\<lparr>uuids := Suc (uuids w)\<rparr>"])
      (simp_all add: draw_seed_def)
  then obtain gda where ga: "workflow wa = JObj gda" by blast
  have eb: "(\<exists>gd'. workflow w' = JObj gd') \<and> config w' = config wa \<and> posted w' = posted wa \<and>
         (\<forall>m f'. graph_has (workflow w') m f' = graph_has (workflow wa) m f') \<and>
         (\<forall>m f'. graph_get (workflow w') m f' =
            (if m = n \<and> f' = noise_seed_key \<and> graph_has (workflow wa) n noise_seed_key = Inr True
             then Inr (JInt (make_random_seed (uuid4 eng (uuids wa))))
             else graph_get (workflow wa) m f'))"
    by (rule assign_if_present_effect [OF ga b, of _ "wa\<lparr>uuids := Suc (uuids wa)\<rparr>"])
      (simp_all add: draw_seed_def)
  from ea eb show ?thesis by auto
qed

lemma seed_loop_frame:
  assumes "workflow w = JObj gd" and "for_each (seed_node eng) ns w = (Inr (), w')"
  shows "(\<exists>gd'. workflow w' = JObj gd') \<and> config w' = config w \<and> posted w' = posted w \<and>
         (\<forall>m f. f \<noteq> seed_key \<longrightarrow> f \<noteq> noise_seed_key \<longrightarrow>
            graph_get (workflow w') m f = graph_get (workflow w) m f)"
  using assms
proof (induction ns arbitrary: w gd)
  case Nil
  then show ?case by simp
next
  case (Cons n ns)
  from Cons.prems(2) obtain w1 where step: "seed_node eng n w = (Inr (), w1)"
    and rest: "for_each (seed_node eng) ns w1 = (Inr (), w')"
    by (auto split: prod.splits sum.splits)
  note s = seed_node_frame [OF Cons.prems(1) step]
  from s obtain gd1 where g1: "workflow w1 = JObj gd1" by blast
  from Cons.IH [OF g1 rest] s show ?case by auto
qed

lemma prompt_loop_effect:
  assumes "workflow w = JObj gd" and "for_each (prompt_node prompt) ns w = (Inr (), w')"
  shows "(\<exists>gd'. workflow w' = JObj gd') \<and> config w' = config w \<and> posted w' = posted w \<and>
         (\<forall>m f. graph_get (workflow w') m f =
            (if m \<in> set ns \<and> f = text_key then Inr prompt else graph_get (workflow w) m f))"
  using assms
proof (induction ns arbitrary: w gd)
  case Nil
  then show ?case by simp
next
  case (Cons n ns)
  from Cons.prems(2) obtain w1 where step: "prompt_node prompt n w = (Inr (), w1)"
    and rest: "for_each (prompt_node prompt) ns w1 = (Inr (), w')"
    by (auto split: prod.splits sum.splits)
  from step Cons.prems(1) obtain g' where set: "graph_set (JObj gd) n text_key prompt = Inr g'"
    and w1: "w1 = w\<lparr>workflow := g'\<rparr>"
    by (auto simp: prompt_node_def set_input_def split: sum.splits)
  from graph_set_is_dict [OF set] obtain gd1 where "g' = JObj gd1" ..
  with w1 have g1: "workflow w1 = JObj gd1" by simp
  have get1: "graph_get (workflow w1) m f =
      (if m = n \<and> f = text_key then Inr prompt else graph_get (workflow w) m f)" for m f
  proof (cases "m = n \<and> f = text_key")
    case True
    with graph_get_after_set [OF set] w1 show ?thesis by simp
  next
    case False
    then have "m \<noteq> n \<or> f \<noteq> text_key" by blast
    from graph_get_frame [OF set this] False w1 Cons.prems(1) show ?thesis by auto
  qed
  note r = Cons.IH [OF g1 rest]
  have get': "graph_get (workflow w') m f =
      (if m \<in> set ns \<and> f = text_key then Inr prompt else graph_get (workflow w1) m f)" for m f
    using r by blast
  show ?case
  proof (intro conjI allI)
    show "\<exists>gd'. workflow w' = JObj gd'" using r by blast
    show "config w' = config w" using r w1 by simp
    show "posted w' = posted w" using r w1 by simp
    show "graph_get (workflow w') m f =
      (if m \<in> set (n # ns) \<and> f = text_key then Inr prompt else graph_get (workflow w) m f)" for m f
      unfolding get' [of m f] get1 [of m f] by auto
  qed
qed


subsection \<open>The graph through a whole call\<close>

lemma sbind_Inr:
  assumes "sbind m f s = (Inr y, s')"
  obtains x s1 where "m s = (Inr x, s1)" and "f x s1 = (Inr y, s')"
  using assms by (auto simp: sbind_def split: prod.splits sum.splits)

lemma config_list_same:
  "config s = config w \<Longrightarrow> config_list key s = (r, s') \<Longrightarrow> s' = s \<and> config_list key w = (r, w)"
  by (auto simp: config_list_def)

lemma inject_effect:
  assumes g: "workflow w = JObj gd" and run: "inject eng prompt width height w = (Inr (), w')"
  shows "(\<exists>gd'. workflow w' = JObj gd') \<and> config w' = config w \<and> posted w' = posted w \<and>
         (\<forall>ns n. config_list prompt_nodes_key w = (Inr ns, w) \<longrightarrow> n \<in> set ns \<longrightarrow>
            graph_get (workflow w') n text_key = Inr prompt) \<and>
         (\<forall>ns n. config_list image_size_nodes_key w = (Inr ns, w) \<longrightarrow> n \<in> set ns \<longrightarrow>
            (graph_has (workflow w) n width_key = Inr True \<longrightarrow>
               graph_get (workflow w') n width_key = Inr width) \<and>
            (graph_has (workflow w) n height_key = Inr True \<longrightarrow>
               graph_get (workflow w') n height_key = Inr height))"
proof -
  from run obtain ns1 wa where l1: "config_list image_size_nodes_key w = (Inr ns1, wa)"
    and r1: "sbind (for_each (size_node width height) ns1) (\<lambda>u.
       sbind (config_list seed_nodes_key) (\<lambda>seed_nodes.
       sbind (for_each (seed_node eng) seed_nodes) (\<lambda>u.
       sbind (config_list prompt_nodes_key) (\<lambda>prompt_nodes.
       for_each (prompt_node prompt) prompt_nodes)))) wa = (Inr (), w')"
    unfolding inject_def by (rule sbind_Inr)
  from l1 have wa: "wa = w" by (simp add: config_list_def)
  from r1 obtain u1 w1 where f1: "for_each (size_node width height) ns1 wa = (Inr u1, w1)"
    and r2: "sbind (config_list seed_nodes_key) (\<lambda>seed_nodes.
       sbind (for_each (seed_node eng) seed_nodes) (\<lambda>u.
       sbind (config_list prompt_nodes_key) (\<lambda>prompt_nodes.
       for_each (prompt_node prompt) prompt_nodes))) w1 = (Inr (), w')"
    by (rule sbind_Inr)
  from r2 obtain ns2 wb where l2: "config_list seed_nodes_key w1 = (Inr ns2, wb)"
    and r3: "sbind (for_each (seed_node eng) ns2) (\<lambda>u.
       sbind (config_list prompt_nodes_key) (\<lambda>prompt_nodes.
       for_each (prompt_node prompt) prompt_nodes)) wb = (Inr (), w')"
    by (rule sbind_Inr)
  from l2 have wb: "wb = w1" by (simp add: config_list_def)
  from r3 obtain u2 w2 where f2: "for_each (seed_node eng) ns2 wb = (Inr u2, w2)"
    and r4: "sbind (config_list prompt_nodes_key) (\<lambda>prompt_nodes.
       for_each (prompt_node prompt) prompt_nodes) w2 = (Inr (), w')"
    by (rule sbind_Inr)
  from r4 obtain ns3 wc where l3: "config_list prompt_nodes_key w2 = (Inr ns3, wc)"
    and f3: "for_each (prompt_node prompt) ns3 wc = (Inr (), w')"
    by (rule sbind_Inr)
  from l3 have wc: "wc = w2" by (simp add: config_list_def)
  note e1 = size_loop_effect [OF g f1 [unfolded wa, simplified]]
  from e1 obtain gd1 where g1: "workflow w1 = JObj gd1" by blast
  note e2 = seed_loop_frame [OF g1 f2 [unfolded wb, simplified]]
  from e2 obtain gd2 where g2: "workflow w2 = JObj gd2" by blast
  note e3 = prompt_loop_effect [OF g2 f3 [unfolded wc]]
  have c2: "config w2 = config w" using e1 e2 by simp
  show ?thesis
  proof (intro conjI allI impI)
    show "\<exists>gd'. workflow w' = JObj gd'" using e3 by blast
    show "config w' = config w" using e3 c2 by simp
    show "posted w' = posted w" using e1 e2 e3 by simp
  next
    fix ns n assume l: "config_list prompt_nodes_key w = (Inr ns, w)" and n: "n \<in> set ns"
    from config_list_same [OF c2 l3] wc l have "ns3 = ns" by simp
    with e3 n show "graph_get (workflow w') n text_key = Inr prompt" by simp
  next
    fix ns n assume l: "config_list image_size_nodes_key w = (Inr ns, w)" and n: "n \<in> set ns"
      and h: "graph_has (workflow w) n width_key = Inr True"
    from l l1 wa have ns: "ns1 = ns" by simp
    have "graph_get (workflow w') n width_key = graph_get (workflow w2) n width_key"
      using e3 by simp
    also have "\<dots> = graph_get (workflow w1) n width_key" using e2 by simp
    also have "\<dots> = Inr width" using e1 ns n h by simp
    finally show "graph_get (workflow w') n width_key = Inr width" .
  next
    fix ns n assume l: "config_list image_size_nodes_key w = (Inr ns, w)" and n: "n \<in> set ns"
      and h: "graph_has (workflow w) n height_key = Inr True"
    from l l1 wa have ns: "ns1 = ns" by simp
    have "graph_get (workflow w') n height_key = graph_get (workflow w2) n height_key"
      using e3 by simp
    also have "\<dots> = graph_get (workflow w1) n height_key" using e2 by simp
    also have "\<dots> = Inr height" using e1 ns n h by simp
    finally show "graph_get (workflow w') n height_key = Inr height" .
  qed
qed

lemma submit_effect:
  assumes g: "workflow w = JObj gd"
    and run: "submit eng prompt aspect_ratio w = (Inr prompt_id, w1)"
  shows "posted w1 = posted w @ [(workflow w1, uuid4 eng (uuids w))] \<and>
         (\<forall>ns n. config_list prompt_nodes_key w = (Inr ns, w) \<longrightarrow> n \<in> set ns \<longrightarrow>
            graph_get (workflow w1) n text_key = Inr prompt) \<and>
         (\<forall>ns n width height. image_size (config w) aspect_ratio = Inr (width, height) \<longrightarrow>
            config_list image_size_nodes_key w = (Inr ns, w) \<longrightarrow> n \<in> set ns \<longrightarrow>
            (graph_has (workflow w) n width_key = Inr True \<longrightarrow>
               graph_get (workflow w1) n width_key = Inr width) \<and>
            (graph_has (workflow w) n height_key = Inr True \<longrightarrow>
               graph_get (workflow w1) n height_key = Inr height))"
proof -
  let ?w0 = "w\<lparr>uuids := Suc (uuids w)\<rparr>"
  from run obtain size where size: "image_size (config w) aspect_ratio = Inr size"
    and r1: "sbind (inject eng prompt (fst size) (snd size)) (\<lambda>u.
       sbind (post_prompt eng (uuid4 eng (uuids w))) (\<lambda>result.
       pure_step (py_getitem (JObj result) (JStr ''prompt_id'')))) ?w0 = (Inr prompt_id, w1)"
    by (auto simp: submit_def sbind_def new_client_id_def split: sum.splits)
  from r1 obtain u w2 where inj: "inject eng prompt (fst size) (snd size) ?w0 = (Inr u, w2)"
    and r2: "sbind (post_prompt eng (uuid4 eng (uuids w))) (\<lambda>result.
       pure_step (py_getitem (JObj result) (JStr ''prompt_id''))) w2 = (Inr prompt_id, w1)"
    by (rule sbind_Inr)
  from r2 have w1: "w1 = w2\<lparr>posted := posted w2 @ [(workflow w2, uuid4 eng (uuids w))]\<rparr>"
    by (auto simp: sbind_def post_prompt_def pure_step_def split: sum.splits)
  have g0: "workflow ?w0 = JObj gd" using g by simp
  note e = inject_effect [OF g0 inj [simplified]]
  have lists: "config_list key ?w0 = (Inr ns, ?w0) \<longleftrightarrow> config_list key w = (Inr ns, w)" for key ns
    by (simp add: config_list_def)
  show ?thesis
  proof (intro conjI allI impI)
    show "posted w1 = posted w @ [(workflow w1, uuid4 eng (uuids w))]"
      using e w1 by simp
  next
    fix ns n assume "config_list prompt_nodes_key w = (Inr ns, w)" "n \<in> set ns"
    with e lists [of prompt_nodes_key ns] w1
    show "graph_get (workflow w1) n text_key = Inr prompt" by simp
  next
    fix ns n width height
    assume s: "image_size (config w) aspect_ratio = Inr (width, height)"
      and l: "config_list image_size_nodes_key w = (Inr ns, w)" "n \<in> set ns"
      and h: "graph_has (workflow w) n width_key = Inr True"
    from s size have "fst size = width" by simp
    with e lists [of image_size_nodes_key ns] l h w1
    show "graph_get (workflow w1) n width_key = Inr width" by simp
  next
    fix ns n width height
    assume s: "image_size (config w) aspect_ratio = Inr (width, height)"
      and l: "config_list image_size_nodes_key w = (Inr ns, w)" "n \<in> set ns"
      and h: "graph_has (workflow w) n height_key = Inr True"
    from s size have "snd size = height" by simp
    with e lists [of image_size_nodes_key ns] l h w1
    show "graph_get (workflow w1) n height_key = Inr height" by simp
  qed
qed

lemma poll_keeps_graph:
  "poll fuel eng prompt_id w = Some (r, w') \<Longrightarrow> workflow w' = workflow w \<and> posted w' = posted w"
proof (induction fuel arbitrary: w)
  case 0
  then show ?case by simp
next
  case (Suc fuel)
  consider (fin) "finished eng prompt_id (requests w)"
    | (pen) "still_pending eng prompt_id (requests w)"
    | (bad) "\<not> finished eng prompt_id (requests w)" "\<not> still_pending eng prompt_id (requests w)"
    by blast
  then show ?case
  proof cases
    case fin
    with Suc.prems show ?thesis by (auto simp: poll_finished)
  next
    case pen
    with Suc.prems have "poll fuel eng prompt_id
        (w\<lparr>requests := Suc (requests w), slept := slept w + 1\<rparr>) = Some (r, w')"
      by (simp add: poll_pending)
    from Suc.IH [OF this] show ?thesis by simp
  next
    case bad
    from poll_broken [OF bad, of fuel] Suc.prems show ?thesis by auto
  qed
qed

lemma store_image_keeps_graph:
  "store_image eng title image_data w = (r, w') \<Longrightarrow>
   workflow w' = workflow w \<and> posted w' = posted w"
  by (auto simp: store_image_def Let_def split: sum.splits jval.splits option.splits)

lemma retrieve_keeps_graph:
  assumes "retrieve eng title prompt_id w = (r, w')"
  shows "workflow w' = workflow w \<and> posted w' = posted w"
proof -
  let ?w1 = "w\<lparr>requests := Suc (requests w)\<rparr>"
  let ?P = "\<lambda>s. workflow s = workflow w \<and> posted s = posted w"
  show ?thesis
  proof (rule sbind_keeps [where P = "?P", OF assms [unfolded retrieve_def]])
    fix r1 s1 assume "final_history eng prompt_id w = (r1, s1)"
    then show "?P s1" by (auto simp: final_history_def)
  next
    fix history s1
    assume "final_history eng prompt_id w = (Inr history, s1)"
      and rest: "sbind (pure_step (output_images_of eng history)) (\<lambda>output_images.
         sbind (\<lambda>w. (py_getitem (config w) (JStr save_image_node_key), w)) (\<lambda>save_image_node.
         case (case dict_get output_images (JStr (py_str save_image_node)) of
                 Some xs \<Rightarrow> xs | None \<Rightarrow> []) of
           [] \<Rightarrow> pure_step (Inr (None, ''Unspecified error. No image generated.''))
         | image_data # others \<Rightarrow> store_image eng title image_data)) s1 = (r, w')"
    then have s1: "?P s1" by (auto simp: final_history_def)
    show "?P w'"
    proof (rule sbind_keeps [where P = "?P", OF rest])
      fix r2 s2 assume "pure_step (output_images_of eng history) s1 = (r2, s2)"
      with s1 show "?P s2" by (auto simp: pure_step_def)
    next
      fix oi s2
      assume "pure_step (output_images_of eng history) s1 = (Inr oi, s2)"
        and rest2: "sbind (\<lambda>w. (py_getitem (config w) (JStr save_image_node_key), w)) (\<lambda>save_image_node.
         case (case dict_get oi (JStr (py_str save_image_node)) of
                 Some xs \<Rightarrow> xs | None \<Rightarrow> []) of
           [] \<Rightarrow> pure_step (Inr (None, ''Unspecified error. No image generated.''))
         | image_data # others \<Rightarrow> store_image eng title image_data) s2 = (r, w')"
      with s1 have s2: "?P s2" by (auto simp: pure_step_def)
      show "?P w'"
      proof (rule sbind_keeps [where P = "?P", OF rest2])
        fix r3 s3 assume "(py_getitem (config s2) (JStr save_image_node_key), s2) = (r3, s3)"
        with s2 show "?P s3" by auto
      next
        fix save s3
        assume "(py_getitem (config s2) (JStr save_image_node_key), s2) = (Inr save, s3)"
          and last: "(case (case dict_get oi (JStr (py_str save)) of
                 Some xs \<Rightarrow> xs | None \<Rightarrow> []) of
           [] \<Rightarrow> pure_step (Inr (None, ''Unspecified error. No image generated.''))
         | image_data # others \<Rightarrow> store_image eng title image_data) s3 = (r, w')"
        with s2 have s3: "?P s3" by auto
        show "?P w'"
        proof (cases "case dict_get oi (JStr (py_str save)) of Some xs \<Rightarrow> xs | None \<Rightarrow> []")
          case Nil
          with last s3 show ?thesis by (auto simp: pure_step_def)
        next
          case (Cons image_data others)
          with last have "store_image eng title image_data s3 = (r, w')" by simp
          from store_image_keeps_graph [OF this] s3 show ?thesis by simp
        qed
      qed
    qed
  qed
qed

lemma pipeline_keeps_graph:
  assumes "submit eng prompt aspect_ratio w = (Inr prompt_id, w1)"
    and "comfyui_generate_image fuel eng prompt title aspect_ratio w = Some (r, w')"
  shows "workflow w' = workflow w1 \<and> posted w' = posted w1"
proof (cases "poll fuel eng prompt_id w1")
  case None
  with assms show ?thesis by (simp add: comfyui_generate_image_def)
next
  case (Some p)
  obtain r2 w2 where p: "p = (r2, w2)" by (cases p)
  from poll_keeps_graph [OF Some [unfolded p]] have k: "workflow w2 = workflow w1 \<and> posted w2 = posted w1" .
  show ?thesis
  proof (cases r2)
    case (Inl e)
    with assms Some p k show ?thesis by (simp add: comfyui_generate_image_def)
  next
    case (Inr u)
    with assms Some p have "retrieve eng title prompt_id w2 = (r, w')"
      by (simp add: comfyui_generate_image_def)
    from retrieve_keeps_graph [OF this] k show ?thesis by simp
  qed
qed

subsection \<open>Seeds, and a second writer, in the graph of the module\<close>

lemma seed_writes_fields:
  "(m, f) \<in> set (seed_writes g ns) \<Longrightarrow> f = seed_key \<or> f = noise_seed_key"
  by (auto simp: seed_writes_def seed_fields_def split: if_splits)

lemma inject_seeds:
  assumes g: "workflow w = JObj gd" and run: "inject eng prompt width height w = (Inr (), w')"
    and l: "config_list seed_nodes_key w = (Inr ns, w)" and d: "distinct ns"
    and k: "k < length (seed_writes (workflow w) ns)"
  shows "graph_get (workflow w') (fst (seed_writes (workflow w) ns ! k))
             (snd (seed_writes (workflow w) ns ! k)) =
           Inr (JInt (make_random_seed (uuid4 eng (uuids w + k))))"
proof -
  from run obtain ns1 wa where l1: "config_list image_size_nodes_key w = (Inr ns1, wa)"
    and r1: "sbind (for_each (size_node width height) ns1) (\<lambda>u.
       sbind (config_list seed_nodes_key) (\<lambda>seed_nodes.
       sbind (for_each (seed_node eng) seed_nodes) (\<lambda>u.
       sbind (config_list prompt_nodes_key) (\<lambda>prompt_nodes.
       for_each (prompt_node prompt) prompt_nodes)))) wa = (Inr (), w')"
    unfolding inject_def by (rule sbind_Inr)
  from l1 have wa: "wa = w" by (simp add: config_list_def)
  from r1 obtain u1 w1 where f1: "for_each (size_node width height) ns1 wa = (Inr u1, w1)"
    and r2: "sbind (config_list seed_nodes_key) (\<lambda>seed_nodes.
       sbind (for_each (seed_node eng) seed_nodes) (\<lambda>u.
       sbind (config_list prompt_nodes_key) (\<lambda>prompt_nodes.
       for_each (prompt_node prompt) prompt_nodes))) w1 = (Inr (), w')"
    by (rule sbind_Inr)
  from r2 obtain ns2 wb where l2: "config_list seed_nodes_key w1 = (Inr ns2, wb)"
    and r3: "sbind (for_each (seed_node eng) ns2) (\<lambda>u.
       sbind (config_list prompt_nodes_key) (\<lambda>prompt_nodes.
       for_each (prompt_node prompt) prompt_nodes)) wb = (Inr (), w')"
    by (rule sbind_Inr)
  from l2 have wb: "wb = w1" by (simp add: config_list_def)
  from r3 obtain u2 w2 where f2: "for_each (seed_node eng) ns2 wb = (Inr u2, w2)"
    and r4: "sbind (config_list prompt_nodes_key) (\<lambda>prompt_nodes.
       for_each (prompt_node prompt) prompt_nodes) w2 = (Inr (), w')"
    by (rule sbind_Inr)
  from r4 obtain ns3 wc where l3: "config_list prompt_nodes_key w2 = (Inr ns3, wc)"
    and f3: "for_each (prompt_node prompt) ns3 wc = (Inr (), w')"
    by (rule sbind_Inr)
  from l3 have wc: "wc = w2" by (simp add: config_list_def)
  note e1 = size_loop_effect [OF g f1 [unfolded wa, simplified]]
  from e1 obtain gd1 where g1: "workflow w1 = JObj gd1" by blast
  from e1 have c1: "config w1 = config w" and u1: "uuids w1 = uuids w"
    and has1: "\<And>m f. graph_has (workflow w1) m f = graph_has (workflow w) m f"
    by simp_all
  from config_list_same [OF c1 l2] l have ns: "ns2 = ns" by simp
  note e2 = seed_loop_ok [OF g1 d f2 [unfolded wb ns, simplified]]
  from e2 obtain gd2 where g2: "workflow w2 = JObj gd2" by blast
  note e3 = prompt_loop_effect [OF g2 f3 [unfolded wc]]
  let ?sw = "seed_writes (workflow w) ns"
  have sw: "seed_writes (workflow w1) ns = ?sw"
    using has1 by (rule seed_writes_cong)
  have "(fst (?sw ! k), snd (?sw ! k)) \<in> set ?sw" using k by simp
  from seed_writes_fields [OF this]
  have "snd (?sw ! k) \<noteq> text_key" by (auto simp: key_defs)
  with e3 have "graph_get (workflow w') (fst (?sw ! k)) (snd (?sw ! k)) =
      graph_get (workflow w2) (fst (?sw ! k)) (snd (?sw ! k))" by simp
  also have "\<dots> = Inr (JInt (make_random_seed (uuid4 eng (uuids w1 + k))))"
    using e2 k sw by simp
  finally show ?thesis by (simp add: u1)
qed

lemma submit_parts:
  assumes run: "submit eng prompt aspect_ratio w = (Inr prompt_id, w1)"
  obtains size w2 where "image_size (config w) aspect_ratio = Inr size"
    and "inject eng prompt (fst size) (snd size) (w\<lparr>uuids := Suc (uuids w)\<rparr>) = (Inr (), w2)"
    and "w1 = w2\<lparr>posted := posted w2 @ [(workflow w2, uuid4 eng (uuids w))]\<rparr>"
proof -
  let ?w0 = "w\<lparr>uuids := Suc (uuids w)\<rparr>"
  from run obtain size where size: "image_size (config w) aspect_ratio = Inr size"
    and r1: "sbind (inject eng prompt (fst size) (snd size)) (\<lambda>u.
       sbind (post_prompt eng (uuid4 eng (uuids w))) (\<lambda>result.
       pure_step (py_getitem (JObj result) (JStr ''prompt_id'')))) ?w0 = (Inr prompt_id, w1)"
    by (auto simp: submit_def sbind_def new_client_id_def split: sum.splits)
  from r1 obtain u w2 where inj: "inject eng prompt (fst size) (snd size) ?w0 = (Inr u, w2)"
    and r2: "sbind (post_prompt eng (uuid4 eng (uuids w))) (\<lambda>result.
       pure_step (py_getitem (JObj result) (JStr ''prompt_id''))) w2 = (Inr prompt_id, w1)"
    by (rule sbind_Inr)
  from r2 have w1: "w1 = w2\<lparr>posted := posted w2 @ [(workflow w2, uuid4 eng (uuids w))]\<rparr>"
    by (auto simp: sbind_def post_prompt_def pure_step_def split: sum.splits)
  from size inj w1 show thesis by (intro that) simp_all
qed

lemma submit_seeds:
  assumes g: "workflow w = JObj gd"
    and run: "submit eng prompt aspect_ratio w = (Inr prompt_id, w1)"
    and l: "config_list seed_nodes_key w = (Inr ns, w)" and d: "distinct ns"
    and k: "k < length (seed_writes (workflow w) ns)"
  shows "graph_get (workflow w1) (fst (seed_writes (workflow w) ns ! k))
             (snd (seed_writes (workflow w) ns ! k)) =
           Inr (JInt (make_random_seed (uuid4 eng (Suc (uuids w) + k))))"
proof -
  let ?w0 = "w\<lparr>uuids := Suc (uuids w)\<rparr>"
  from run obtain size w2 where
    inj: "inject eng prompt (fst size) (snd size) ?w0 = (Inr (), w2)"
    and w1: "w1 = w2\<lparr>posted := posted w2 @ [(workflow w2, uuid4 eng (uuids w))]\<rparr>"
    by (rule submit_parts)
  have g0: "workflow ?w0 = JObj gd" using g by simp
  have l0: "config_list seed_nodes_key ?w0 = (Inr ns, ?w0)"
    using l by (simp add: config_list_def)
  have k0: "k < length (seed_writes (workflow ?w0) ns)" using k by simp
  from inject_seeds [OF g0 inj l0 d k0] w1 show ?thesis by simp
qed

lemma submit_keeps:
  assumes g: "workflow w = JObj gd"
    and run: "submit eng prompt aspect_ratio w = (Inr prompt_id, w1)"
  shows "(\<exists>gd1. workflow w1 = JObj gd1) \<and> config w1 = config w"
proof -
  let ?w0 = "w\<lparr>uuids := Suc (uuids w)\<rparr>"
  from run obtain size w2 where
    inj: "inject eng prompt (fst size) (snd size) ?w0 = (Inr (), w2)"
    and w1: "w1 = w2\<lparr>posted := posted w2 @ [(workflow w2, uuid4 eng (uuids w))]\<rparr>"
    by (rule submit_parts)
  have g0: "workflow ?w0 = JObj gd" using g by simp
  from inject_effect [OF g0 inj] w1 show ?thesis by simp
qed

lemma second_writer:
  assumes g: "\<exists>gd. workflow wa = JObj gd" and c: "config wa = config w"
    and run: "inject eng other width height wa = (Inr (), wb)"
    and l: "config_list prompt_nodes_key w = (Inr ns, w)" and n: "n \<in> set ns"
  shows "graph_get (workflow wb) n text_key = Inr other"
proof -
  from g obtain gda where ga: "workflow wa = JObj gda" ..
  from l c have "config_list prompt_nodes_key wa = (Inr ns, wa)"
    by (simp add: config_list_def)
  with inject_effect [OF ga run] n show ?thesis by blast
qed

lemma second_submit:
  assumes g: "\<exists>gd. workflow ws = JObj gd" and c: "config ws = config w"
    and run: "submit eng other aspect_ratio ws = (Inr prompt_id, wb)"
    and l: "config_list prompt_nodes_key w = (Inr ns, w)" and n: "n \<in> set ns"
  shows "graph_get (workflow wb) n text_key = Inr other"
proof -
  from g obtain gds where gs: "workflow ws = JObj gds" ..
  from l c have "config_list prompt_nodes_key ws = (Inr ns, ws)"
    by (simp add: config_list_def)
  with submit_effect [OF gs run] n show ?thesis by blast
qed

subsection \<open>Runs of the concrete installation\<close>



lemma sample_history_states:
  assumes "get_history eng = sample_history (sample_final outputs)"
  shows "still_pending eng (JStr ''p1'') 0"
    and "still_pending eng (JStr ''p1'') (Suc 0)"
    and "finished eng (JStr ''p1'') (Suc (Suc k))"
  using assms
  by (simp_all add: still_pending_def finished_def dict_has_def is_processing_def
      sample_history_def sample_final_def)


lemma sample_lists:
  assumes "config w = config sample_world"
  shows "config_list image_size_nodes_key w = (Inr [JStr ''5''], w)"
    and "config_list seed_nodes_key w = (Inr [JStr ''3''], w)"
    and "config_list prompt_nodes_key w = (Inr [JStr ''6''], w)"
  using assms by (simp_all add: config_list_def sample_world_def key_defs)

lemma sample_size_loop:
  assumes "workflow w = sample_graph a b c d t"
  shows "for_each (size_node width height) [JStr ''5''] w =
           (Inr (), w\<lparr>workflow := sample_graph width height c d t\<rparr>)"
  using assms
  by (simp add: size_node_def assign_if_present_def sbind_def has_input_def set_input_def
      py_if_def pure_step_def graph_has_def graph_set_def key_defs sample_graph_def)

lemma sample_seed_loop_any:
  assumes "workflow w = sample_graph a b c d t"
  shows "for_each (seed_node eng) [JStr ''3''] w =
           (Inr (), w\<lparr>uuids := Suc (Suc (uuids w)),
                       workflow := sample_graph a b (JInt (make_random_seed (uuid4 eng (uuids w))))
                         (JInt (make_random_seed (uuid4 eng (Suc (uuids w))))) t\<rparr>)"
  using assms
  by (simp add: seed_node_def assign_if_present_def sbind_def has_input_def set_input_def
      py_if_def draw_seed_def graph_has_def graph_set_def key_defs sample_graph_def)

lemma sample_prompt_loop:
  assumes "workflow w = sample_graph a b c d t"
  shows "for_each (prompt_node prompt) [JStr ''6''] w =
           (Inr (), w\<lparr>workflow := sample_graph a b c d prompt\<rparr>)"
  using assms
  by (simp add: prompt_node_def set_input_def graph_set_def key_defs sample_graph_def)

lemma sample_inject:
  assumes "workflow w = sample_graph a b c d t" and "config w = config sample_world"
  shows "inject eng prompt width height w =
           (Inr (), w\<lparr>uuids := Suc (Suc (uuids w)),
                       workflow := sample_graph width height
                         (JInt (make_random_seed (uuid4 eng (uuids w))))
                         (JInt (make_random_seed (uuid4 eng (Suc (uuids w))))) prompt\<rparr>)"
  using assms
  by (simp add: inject_def sbind_def sample_lists sample_size_loop sample_seed_loop_any
      sample_prompt_loop del: for_each.simps)

lemma sample_size:
  assumes "config w = config sample_world"
  shows "image_size (config w) (JStr ''tall'') = Inr (JInt 864, JInt 1152)"
  using assms
  by (simp add: image_size_def resolve_alias_def dict_has_def py_unpack2_def
      sample_world_def default_aspect_ratios_def aspect_ratio_aliases_def key_defs)

text \<open>The graph a call with aspect ratio \<^verbatim>\<open>tall\<close> leaves in the sample installation.\<close>

lemma sample_submit:
  assumes "workflow w = sample_graph a b c d t" and "config w = config sample_world"
  shows "submit eng prompt (JStr ''tall'') w =
           (rbind (queue_prompt eng
                     (sample_graph (JInt 864) (JInt 1152)
                        (JInt (make_random_seed (uuid4 eng (Suc (uuids w)))))
                        (JInt (make_random_seed (uuid4 eng (Suc (Suc (uuids w)))))) prompt)
                     (uuid4 eng (uuids w)))
              (\<lambda>result. py_getitem (JObj result) (JStr ''prompt_id'')),
            w\<lparr>uuids := Suc (Suc (Suc (uuids w))),
               workflow := sample_graph (JInt 864) (JInt 1152)
                        (JInt (make_random_seed (uuid4 eng (Suc (uuids w)))))
                        (JInt (make_random_seed (uuid4 eng (Suc (Suc (uuids w)))))) prompt,
               posted := posted w @
                 [(sample_graph (JInt 864) (JInt 1152)
                        (JInt (make_random_seed (uuid4 eng (Suc (uuids w)))))
                        (JInt (make_random_seed (uuid4 eng (Suc (Suc (uuids w)))))) prompt,
                   uuid4 eng (uuids w))]\<rparr>)"
proof -
  let ?w1 = "w\<lparr>uuids := Suc (uuids w)\<rparr>"
  have i: "inject eng prompt (JInt 864) (JInt 1152) ?w1 =
      (Inr (), ?w1\<lparr>uuids := Suc (Suc (uuids ?w1)),
                       workflow := sample_graph (JInt 864) (JInt 1152)
                         (JInt (make_random_seed (uuid4 eng (uuids ?w1))))
                         (JInt (make_random_seed (uuid4 eng (Suc (uuids ?w1))))) prompt\<rparr>)"
    by (rule sample_inject) (simp_all add: assms)
  show ?thesis
    by (cases "queue_prompt eng
                     (sample_graph (JInt 864) (JInt 1152)
                        (JInt (make_random_seed (uuid4 eng (Suc (uuids w)))))
                        (JInt (make_random_seed (uuid4 eng (Suc (Suc (uuids w)))))) prompt)
                     (uuid4 eng (uuids w))")
      (simp_all add: submit_def sbind_def new_client_id_def sample_size [OF assms(2)] i
        post_prompt_def pure_step_def)
qed

lemma sample_poll_first:
  assumes "get_history eng = sample_history (sample_final outputs)" and "requests w = 0"
  shows "poll 5 eng (JStr ''p1'') w = Some (Inr (), w\<lparr>requests := 3, slept := slept w + 2\<rparr>)"
proof -
  have "\<forall>i<2. still_pending eng (JStr ''p1'') (requests w + i)"
  proof (intro allI impI)
    fix i :: nat assume "i < 2"
    then have "i = 0 \<or> i = Suc 0" by auto
    then show "still_pending eng (JStr ''p1'') (requests w + i)"
      using sample_history_states(1,2) [OF assms(1)] assms(2) by auto
  qed
  moreover have "finished eng (JStr ''p1'') (requests w + 2)"
    using sample_history_states(3) [OF assms(1), of 0] assms(2) by (simp add: numeral_2_eq_2)
  ultimately show ?thesis
    using poll_reaches [of 2 eng "JStr ''p1''" w 5] assms(2) by simp
qed

lemma sample_poll_later:
  assumes "get_history eng = sample_history (sample_final outputs)" and "2 \<le> requests w"
  shows "poll (Suc fuel) eng (JStr ''p1'') w = Some (Inr (), w\<lparr>requests := Suc (requests w)\<rparr>)"
proof -
  from assms(2) have "requests w = Suc (Suc (requests w - 2))" by simp
  then obtain k where "requests w = Suc (Suc k)" ..
  with sample_history_states(3) [OF assms(1), of k] show ?thesis
    by (simp add: poll_finished)
qed

lemma sample_final_history:
  assumes "get_history eng = sample_history (sample_final outputs)" and "2 \<le> requests w"
  shows "final_history eng (JStr ''p1'') w =
           (Inr (JObj [(''outputs'', JObj outputs)]), w\<lparr>requests := Suc (requests w)\<rparr>)"
  using assms by (simp add: final_history_def sample_history_def sample_final_def)

lemma sample_output_images:
  assumes "get_image eng = (\<lambda>filename subfolder folder_type. Inr data)"
  shows "output_images_of eng (JObj [(''outputs'', JObj sample_outputs)]) = Inr [(JStr ''9'', [data])]"
  using assms
  by (simp add: output_images_of_def node_images_def sample_outputs_def sample_image_def)

lemma sample_store_image:
  "store_image (sample_env_with q h oe) (JStr ''Red Fox'') data w =
     (Inr (Some ''2025-01-31_12:00:00_Red-Fox_flux-krea.png'',
           ''![Red Fox](http://127.0.0.1:8081/view/2025-01-31_12:00:00_Red-Fox_flux-krea.png)''),
      w\<lparr>files := dict_set ''./output/2025-01-31_12:00:00_Red-Fox_flux-krea.png'' (Png data) (files w)\<rparr>)"
  by (simp add: store_image_def sample_env_with_def re_sub_def special_char_pattern_def
      word_char_def path_join_def Let_def)

lemma sample_sidecar_name:
  "path_join ''./output'' (str_replace ''.png'' ''.txt'' ''2025-01-31_12:00:00_Red-Fox_flux-krea.png'') =
     ''./output/2025-01-31_12:00:00_Red-Fox_flux-krea.txt''"
  by (simp add: path_join_def)


lemma sample_retrieve:
  assumes "2 \<le> requests w" and "config w = config sample_world"
  shows "retrieve (sample_env_with q (sample_history (sample_final sample_outputs)) oe)
           (JStr ''Red Fox'') (JStr ''p1'') w =
     (Inr (Some ''2025-01-31_12:00:00_Red-Fox_flux-krea.png'',
           ''![Red Fox](http://127.0.0.1:8081/view/2025-01-31_12:00:00_Red-Fox_flux-krea.png)''),
      w\<lparr>requests := Suc (requests w),
         files := dict_set ''./output/2025-01-31_12:00:00_Red-Fox_flux-krea.png'' (Png ''PNG-bytes'')
                    (files w)\<rparr>)"
proof -
  let ?eng = "sample_env_with q (sample_history (sample_final sample_outputs)) oe"
  have h: "get_history ?eng = sample_history (sample_final sample_outputs)"
    and i: "get_image ?eng = (\<lambda>filename subfolder folder_type. Inr ''PNG-bytes'')"
    by (simp_all add: sample_env_with_def)
  have s: "py_getitem (config w) (JStr save_image_node_key) = Inr (JStr ''9'')"
    using assms(2) by (simp add: sample_world_def key_defs)
  show ?thesis
    by (simp add: retrieve_def sbind_def pure_step_def sample_final_history [OF h assms(1)]
        sample_output_images [OF i] s py_str_def sample_store_image)
qed

lemma sample_run:
  "comfyui_generate_image 5 (sample_env_with sample_queue (sample_history (sample_final sample_outputs)) oe)
      (JStr ''a red fox'') (JStr ''Red Fox'') (JStr ''tall'') sample_world =
     Some (Inr (Some ''2025-01-31_12:00:00_Red-Fox_flux-krea.png'',
                ''![Red Fox](http://127.0.0.1:8081/view/2025-01-31_12:00:00_Red-Fox_flux-krea.png)''),
           sample_world_after)"
proof -
  let ?eng = "sample_env_with sample_queue (sample_history (sample_final sample_outputs)) oe"
  let ?g = "sample_graph (JInt 864) (JInt 1152) (JInt 6585701376) (JInt 7082102784) (JStr ''a red fox'')"
  let ?w1 = "sample_world\<lparr>uuids := 3, workflow := ?g,
      posted := [(?g, 324969006592305634633390616021200786553)]\<rparr>"
  have g: "workflow sample_world = sample_graph (JInt 512) (JInt 512) (JInt 0) (JInt 0) (JStr [])"
    by (simp add: sample_world_def sample_workflow_def)
  have u: "uuid4 ?eng = sample_uuid4" "queue_prompt ?eng = sample_queue"
    and h: "get_history ?eng = sample_history (sample_final sample_outputs)"
    by (simp_all add: sample_env_with_def)
  have w0: "uuids sample_world = 0" "posted sample_world = []" "requests sample_world = 0"
    "slept sample_world = 0" "files sample_world = []"
    by (simp_all add: sample_world_def)
  have seeds: "make_random_seed (sample_uuid4 (Suc 0)) = 6585701376"
    "make_random_seed (sample_uuid4 (Suc (Suc 0))) = 7082102784"
    "sample_uuid4 0 = 324969006592305634633390616021200786553"
    by (simp_all add: make_random_seed_def float_of_nat_def sample_uuid4_def Let_def)
  have sub: "submit ?eng (JStr ''a red fox'') (JStr ''tall'') sample_world = (Inr (JStr ''p1''), ?w1)"
    unfolding sample_submit [OF g refl] u w0 seeds
    by (simp add: sample_queue_def numeral_3_eq_3)
  have pol: "poll 5 ?eng (JStr ''p1'') ?w1 = Some (Inr (), ?w1\<lparr>requests := 3, slept := slept ?w1 + 2\<rparr>)"
    by (rule sample_poll_first [OF h]) (simp add: w0)
  have ret: "retrieve ?eng (JStr ''Red Fox'') (JStr ''p1'') (?w1\<lparr>requests := 3, slept := slept ?w1 + 2\<rparr>) =
     (Inr (Some ''2025-01-31_12:00:00_Red-Fox_flux-krea.png'',
           ''![Red Fox](http://127.0.0.1:8081/view/2025-01-31_12:00:00_Red-Fox_flux-krea.png)''),
      sample_world_after)"
    unfolding sample_world_after_def
    by (subst sample_retrieve) (simp_all add: w0)
  show ?thesis
    unfolding pipeline_retrieve [OF sub pol] ret ..
qed

subsection \<open>The pipeline does not ask whether the prompt file can be written\<close>

lemma seed_node_write_error: "seed_node (eng\<lparr>write_error := we\<rparr>) = seed_node eng"
proof -
  have "draw_seed (eng\<lparr>write_error := we\<rparr>) = draw_seed eng"
    by (rule ext) (simp add: draw_seed_def)
  then show ?thesis by (intro ext) (simp add: seed_node_def)
qed

lemma submit_write_error: "submit (eng\<lparr>write_error := we\<rparr>) = submit eng"
proof -
  have "new_client_id (eng\<lparr>write_error := we\<rparr>) = new_client_id eng"
    by (rule ext) (simp add: new_client_id_def)
  moreover have "post_prompt (eng\<lparr>write_error := we\<rparr>) = post_prompt eng"
    by (intro ext) (simp add: post_prompt_def)
  moreover have "inject (eng\<lparr>write_error := we\<rparr>) = inject eng"
    by (intro ext) (simp add: inject_def seed_node_write_error)
  ultimately show ?thesis by (intro ext) (simp add: submit_def)
qed

lemma poll_write_error: "poll fuel (eng\<lparr>write_error := we\<rparr>) prompt_id w = poll fuel eng prompt_id w"
  by (induction fuel arbitrary: w) (simp_all add: poll.simps(2) Let_def split: sum.splits)

lemma fetch_images_write_error:
  "fetch_images (eng\<lparr>write_error := we\<rparr>) images = fetch_images eng images"
  by (induction images) simp_all

lemma collect_outputs_write_error:
  "collect_outputs (eng\<lparr>write_error := we\<rparr>) outputs ids acc = collect_outputs eng outputs ids acc"
proof -
  have "fetch_images (eng\<lparr>write_error := we\<rparr>) = fetch_images eng"
    by (rule ext) (rule fetch_images_write_error)
  then have "node_images (eng\<lparr>write_error := we\<rparr>) = node_images eng"
    by (intro ext) (simp add: node_images_def cong: if_cong)
  then show ?thesis by (induction ids arbitrary: acc) simp_all
qed

lemma retrieve_write_error: "retrieve (eng\<lparr>write_error := we\<rparr>) = retrieve eng"
proof -
  have "final_history (eng\<lparr>write_error := we\<rparr>) = final_history eng"
    by (intro ext) (simp add: final_history_def)
  moreover have "output_images_of (eng\<lparr>write_error := we\<rparr>) = output_images_of eng"
    by (intro ext) (simp add: output_images_of_def collect_outputs_write_error)
  moreover have "store_image (eng\<lparr>write_error := we\<rparr>) = store_image eng"
    by (intro ext)
      (simp add: store_image_def Let_def split: sum.splits jval.splits option.splits)
  ultimately show ?thesis by (intro ext) (simp add: retrieve_def cong: list.case_cong)
qed

lemma pipeline_write_error:
  "comfyui_generate_image fuel (eng\<lparr>write_error := we\<rparr>) = comfyui_generate_image fuel eng"
  by (intro ext)
    (simp add: comfyui_generate_image_def submit_write_error poll_write_error retrieve_write_error
      split: prod.splits sum.splits option.splits)

subsection \<open>What the collected outputs hold for a node\<close>

lemma collect_outputs_entry:
  "collect_outputs eng outputs ids acc = Inr oi \<Longrightarrow> dict_get oi k = Some imgs \<Longrightarrow>
   (k \<in> set ids \<and> node_images eng outputs k = Inr imgs) \<or> dict_get acc k = Some imgs"
proof (induction ids arbitrary: acc)
  case Nil
  then show ?case by simp
next
  case (Cons node_id ids)
  from Cons.prems(1) obtain images_output where
    n: "node_images eng outputs node_id = Inr images_output"
    and r: "collect_outputs eng outputs ids (dict_set node_id images_output acc) = Inr oi"
    by (auto simp: rbind_Inr_iff)
  from Cons.IH [OF r Cons.prems(2)] show ?case
  proof
    assume "k \<in> set ids \<and> node_images eng outputs k = Inr imgs"
    then show ?thesis by simp
  next
    assume a: "dict_get (dict_set node_id images_output acc) k = Some imgs"
    show ?thesis
    proof (cases "k = node_id")
      case True
      with a n show ?thesis by simp
    next
      case False
      with a show ?thesis by simp
    qed
  qed
qed

lemma node_without_images:
  assumes "dict_get outputs s = None \<or>
           (dict_get outputs s = Some node_output \<and>
            (py_in ''images'' node_output = Inr False \<or>
             py_getitem node_output (JStr ''images'') = Inr (JArr [])))"
    and "node_images eng (JObj outputs) (JStr s) = Inr imgs"
  shows "imgs = []"
  using assms
  by (auto simp: node_images_def rbind_Inr_iff getitem_str_Inr split: if_splits)

lemma save_node_entry_empty:
  assumes "dict_get outputs s = None \<or>
           (dict_get outputs s = Some node_output \<and>
            (py_in ''images'' node_output = Inr False \<or>
             py_getitem node_output (JStr ''images'') = Inr (JArr [])))"
    and "py_getitem history (JStr ''outputs'') = Inr (JObj outputs)"
    and "output_images_of eng history = Inr oi"
  shows "(case dict_get oi (JStr s) of Some xs \<Rightarrow> xs | None \<Rightarrow> []) = []"
proof (cases "dict_get oi (JStr s)")
  case None
  then show ?thesis by simp
next
  case (Some imgs)
  from assms(2,3) obtain ids where
    "collect_outputs eng (JObj outputs) ids [] = Inr oi"
    by (auto simp: output_images_of_def rbind_Inr_iff)
  from collect_outputs_entry [OF this Some]
  have "node_images eng (JObj outputs) (JStr s) = Inr imgs" by simp
  from node_without_images [OF assms(1) this] Some show ?thesis by simp
qed

lemma retrieve_without_images:
  assumes hist: "get_history eng (requests w) prompt_id = Inr h"
    "py_getitem (JObj h) prompt_id = Inr history"
    and outs: "py_getitem history (JStr ''outputs'') = Inr (JObj outputs)"
    and save: "py_getitem (config w) (JStr save_image_node_key) = Inr save_image_node"
    and none: "dict_get outputs (py_str save_image_node) = None \<or>
           (dict_get outputs (py_str save_image_node) = Some node_output \<and>
            (py_in ''images'' node_output = Inr False \<or>
             py_getitem node_output (JStr ''images'') = Inr (JArr [])))"
  shows "retrieve eng title prompt_id w =
           (case output_images_of eng history of
              Inl e \<Rightarrow> (Inl e, w\<lparr>requests := Suc (requests w)\<rparr>)
            | Inr oi \<Rightarrow> (Inr (None, ''Unspecified error. No image generated.''),
                         w\<lparr>requests := Suc (requests w)\<rparr>))"
proof (cases "output_images_of eng history")
  case (Inl e)
  with hist show ?thesis
    by (simp add: retrieve_def sbind_def final_history_def pure_step_def)
next
  case (Inr oi)
  from save_node_entry_empty [OF none outs Inr]
  have "(case dict_get oi (JStr (py_str save_image_node)) of Some xs \<Rightarrow> xs | None \<Rightarrow> []) = []" .
  with hist Inr save show ?thesis
    by (simp add: retrieve_def sbind_def final_history_def pure_step_def)
qed

lemma sample_output_images_elsewhere:
  assumes "get_image eng = (\<lambda>filename subfolder folder_type. Inr data)"
  shows "output_images_of eng (JObj [(''outputs'', JObj sample_outputs_elsewhere)]) =
           Inr [(JStr ''8'', [data]), (JStr ''9'', [])]"
  using assms
  by (simp add: output_images_of_def node_images_def sample_outputs_elsewhere_def sample_image_def)

lemma sample_output_images_absent:
  assumes "get_image eng = (\<lambda>filename subfolder folder_type. Inr data)"
  shows "output_images_of eng (JObj [(''outputs'', JObj sample_outputs_absent)]) =
           Inr [(JStr ''8'', [data])]"
  using assms
  by (simp add: output_images_of_def node_images_def sample_outputs_absent_def sample_image_def)

text \<open>The sample call up to the last request for the history.\<close>

lemma sample_submit_and_poll:
  assumes "eng = sample_env_with sample_queue (sample_history (sample_final outputs)) oe"
  shows "submit eng (JStr ''a red fox'') (JStr ''tall'') sample_world =
           (Inr (JStr ''p1''), sample_world_after\<lparr>requests := 0, slept := 0, files := []\<rparr>)"
    and "poll 5 eng (JStr ''p1'') (sample_world_after\<lparr>requests := 0, slept := 0, files := []\<rparr>) =
           Some (Inr (), sample_world_after\<lparr>requests := 3, files := []\<rparr>)"
    and "get_history eng (requests (sample_world_after\<lparr>requests := 3, files := []\<rparr>)) (JStr ''p1'') =
           Inr (sample_final outputs)"
    and "py_getitem (JObj (sample_final outputs)) (JStr ''p1'') = Inr (JObj [(''outputs'', JObj outputs)])"
    and "py_getitem (config (sample_world_after\<lparr>requests := 3, files := []\<rparr>))
           (JStr save_image_node_key) = Inr (JStr ''9'')"
proof -
  let ?g = "sample_graph (JInt 864) (JInt 1152) (JInt 6585701376) (JInt 7082102784) (JStr ''a red fox'')"
  let ?w1 = "sample_world\<lparr>uuids := 3, workflow := ?g,
      posted := [(?g, 324969006592305634633390616021200786553)]\<rparr>"
  have g: "workflow sample_world = sample_graph (JInt 512) (JInt 512) (JInt 0) (JInt 0) (JStr [])"
    by (simp add: sample_world_def sample_workflow_def)
  have u: "uuid4 eng = sample_uuid4" "queue_prompt eng = sample_queue"
    and h: "get_history eng = sample_history (sample_final outputs)"
    by (simp_all add: assms sample_env_with_def)
  have w0: "uuids sample_world = 0" "posted sample_world = []" "requests sample_world = 0"
    "slept sample_world = 0" "files sample_world = []"
    by (simp_all add: sample_world_def)
  have seeds: "make_random_seed (sample_uuid4 (Suc 0)) = 6585701376"
    "make_random_seed (sample_uuid4 (Suc (Suc 0))) = 7082102784"
    "sample_uuid4 0 = 324969006592305634633390616021200786553"
    by (simp_all add: make_random_seed_def float_of_nat_def sample_uuid4_def Let_def)
  have a: "sample_world_after\<lparr>requests := 0, slept := 0, files := []\<rparr> = ?w1"
    by (simp add: sample_world_after_def w0)
  have b: "sample_world_after\<lparr>requests := 3, files := []\<rparr> = ?w1\<lparr>requests := 3, slept := slept ?w1 + 2\<rparr>"
    by (simp add: sample_world_after_def w0)
  show "submit eng (JStr ''a red fox'') (JStr ''tall'') sample_world =
           (Inr (JStr ''p1''), sample_world_after\<lparr>requests := 0, slept := 0, files := []\<rparr>)"
    unfolding a sample_submit [OF g refl] u w0 seeds
    by (simp add: sample_queue_def numeral_3_eq_3)
  show "poll 5 eng (JStr ''p1'') (sample_world_after\<lparr>requests := 0, slept := 0, files := []\<rparr>) =
           Some (Inr (), sample_world_after\<lparr>requests := 3, files := []\<rparr>)"
    unfolding a b by (rule sample_poll_first [OF h]) (simp add: w0)
  show "get_history eng (requests (sample_world_after\<lparr>requests := 3, files := []\<rparr>)) (JStr ''p1'') =
           Inr (sample_final outputs)"
    by (simp add: h sample_history_def)
  show "py_getitem (JObj (sample_final outputs)) (JStr ''p1'') = Inr (JObj [(''outputs'', JObj outputs)])"
    by (simp add: sample_final_def)
  show "py_getitem (config (sample_world_after\<lparr>requests := 3, files := []\<rparr>))
           (JStr save_image_node_key) = Inr (JStr ''9'')"
    by (simp add: sample_world_after_def sample_world_def key_defs)
qed

lemma sample_run_without_image:
  assumes eng: "eng = sample_env_with sample_queue (sample_history (sample_final outputs)) oe"
    and oi: "output_images_of eng (JObj [(''outputs'', JObj outputs)]) = Inr oi"
    and none: "dict_get oi (JStr ''9'') = None \<or> dict_get oi (JStr ''9'') = Some []"
  shows "comfyui_generate_image 5 eng (JStr ''a red fox'') title (JStr ''tall'') sample_world =
           Some (Inr (None, ''Unspecified error. No image generated.''),
                 sample_world_after\<lparr>files := []\<rparr>)"
proof -
  note s = sample_submit_and_poll [OF eng]
  let ?w = "sample_world_after\<lparr>requests := 3, files := []\<rparr>"
  have f: "final_history eng (JStr ''p1'') ?w =
      (Inr (JObj [(''outputs'', JObj outputs)]), ?w\<lparr>requests := Suc (requests ?w)\<rparr>)"
    using s(3,4) by (simp add: final_history_def)
  have c: "py_getitem (config sample_world_after) (JStr save_image_node_key) = Inr (JStr ''9'')"
    by (simp add: sample_world_after_def sample_world_def key_defs)
  have e2: "sample_world_after\<lparr>files := [], requests := 4\<rparr> = sample_world_after\<lparr>files := []\<rparr>"
    by (simp add: sample_world_after_def)
  have "retrieve eng title (JStr ''p1'') ?w =
      (Inr (None, ''Unspecified error. No image generated.''), sample_world_after\<lparr>files := []\<rparr>)"
    unfolding retrieve_def sbind_def f
    using none by (auto simp: pure_step_def oi c py_str_def e2)
  with pipeline_retrieve [OF s(1,2), of title] show ?thesis by simp
qed

lemma sample_starts: "startup (Inr sample_workflow) (Inr sample_config) = Inr sample_world"
  by (simp add: startup_def load_config_def sample_config_def sample_world_def key_defs)

lemma sample_missing_starts:
  "startup (Inr sample_workflow) (Inr sample_config_missing) = Inr sample_world_missing"
  by (simp add: startup_def load_config_def sample_config_missing_def sample_world_missing_def
      sample_world_def key_defs)

lemma sample_missing_submit:
  "submit eng prompt (JStr ''tall'') sample_world_missing =
     (Inl (KeyError (JStr ''7'')),
      sample_world_missing
        \<lparr>uuids := 1,
         workflow := sample_graph (JInt 864) (JInt 1152) (JInt 0) (JInt 0) (JStr [])\<rparr>)"
proof -
  let ?w1 = "sample_world_missing\<lparr>uuids := Suc (uuids sample_world_missing)\<rparr>"
  have size: "image_size (config sample_world_missing) (JStr ''tall'') = Inr (JInt 864, JInt 1152)"
    by (simp add: image_size_def resolve_alias_def dict_has_def py_unpack2_def
        sample_world_missing_def default_aspect_ratios_def aspect_ratio_aliases_def key_defs)
  have l: "config_list image_size_nodes_key ?w1 = (Inr [JStr ''5'', JStr ''7''], ?w1)"
    by (simp add: config_list_def sample_world_missing_def key_defs)
  have g: "workflow ?w1 = sample_graph (JInt 512) (JInt 512) (JInt 0) (JInt 0) (JStr [])"
    by (simp add: sample_world_missing_def sample_world_def sample_workflow_def)
  have five: "size_node (JInt 864) (JInt 1152) (JStr ''5'') ?w1 =
      (Inr (), ?w1\<lparr>workflow := sample_graph (JInt 864) (JInt 1152) (JInt 0) (JInt 0) (JStr [])\<rparr>)"
    using sample_size_loop [OF g, of "JInt 864" "JInt 1152"]
    by (simp split: prod.splits sum.splits)
  have seven: "size_node (JInt 864) (JInt 1152) (JStr ''7'')
        (?w1\<lparr>workflow := sample_graph (JInt 864) (JInt 1152) (JInt 0) (JInt 0) (JStr [])\<rparr>) =
      (Inl (KeyError (JStr ''7'')),
       ?w1\<lparr>workflow := sample_graph (JInt 864) (JInt 1152) (JInt 0) (JInt 0) (JStr [])\<rparr>)"
    by (simp add: size_node_def assign_if_present_def sbind_def has_input_def graph_has_def
        sample_graph_def)
  have loop: "for_each (size_node (JInt 864) (JInt 1152)) [JStr ''5'', JStr ''7''] ?w1 =
      (Inl (KeyError (JStr ''7'')),
       ?w1\<lparr>workflow := sample_graph (JInt 864) (JInt 1152) (JInt 0) (JInt 0) (JStr [])\<rparr>)"
    by (simp add: five seven)
  have "inject eng prompt (JInt 864) (JInt 1152) ?w1 =
      (Inl (KeyError (JStr ''7'')),
       ?w1\<lparr>workflow := sample_graph (JInt 864) (JInt 1152) (JInt 0) (JInt 0) (JStr [])\<rparr>)"
    by (simp add: inject_def sbind_def l loop del: for_each.simps)
  moreover have "uuids sample_world_missing = 0"
    by (simp add: sample_world_missing_def sample_world_def)
  ultimately show ?thesis
    by (simp add: submit_def sbind_def new_client_id_def size)
qed

lemma sample_missing_submit_any:
  assumes "workflow w = sample_graph a b c d t" and "config w = config sample_world_missing"
  shows "submit eng prompt (JStr ''tall'') w =
     (Inl (KeyError (JStr ''7'')),
      w\<lparr>uuids := Suc (uuids w), workflow := sample_graph (JInt 864) (JInt 1152) c d t\<rparr>)"
proof -
  let ?w1 = "w\<lparr>uuids := Suc (uuids w)\<rparr>"
  have size: "image_size (config w) (JStr ''tall'') = Inr (JInt 864, JInt 1152)"
    by (simp add: assms(2) image_size_def resolve_alias_def dict_has_def py_unpack2_def
        sample_world_missing_def default_aspect_ratios_def aspect_ratio_aliases_def key_defs)
  have l: "config_list image_size_nodes_key ?w1 = (Inr [JStr ''5'', JStr ''7''], ?w1)"
    by (simp add: assms(2) config_list_def sample_world_missing_def key_defs)
  have g: "workflow ?w1 = sample_graph a b c d t"
    by (simp add: assms(1))
  have five: "size_node (JInt 864) (JInt 1152) (JStr ''5'') ?w1 =
      (Inr (), ?w1\<lparr>workflow := sample_graph (JInt 864) (JInt 1152) c d t\<rparr>)"
    using sample_size_loop [OF g, of "JInt 864" "JInt 1152"]
    by (simp split: prod.splits sum.splits)
  have seven: "size_node (JInt 864) (JInt 1152) (JStr ''7'')
        (?w1\<lparr>workflow := sample_graph (JInt 864) (JInt 1152) c d t\<rparr>) =
      (Inl (KeyError (JStr ''7'')),
       ?w1\<lparr>workflow := sample_graph (JInt 864) (JInt 1152) c d t\<rparr>)"
    by (simp add: size_node_def assign_if_present_def sbind_def has_input_def graph_has_def
        sample_graph_def)
  have loop: "for_each (size_node (JInt 864) (JInt 1152)) [JStr ''5'', JStr ''7''] ?w1 =
      (Inl (KeyError (JStr ''7'')),
       ?w1\<lparr>workflow := sample_graph (JInt 864) (JInt 1152) c d t\<rparr>)"
    by (simp add: five seven)
  have "inject eng prompt (JInt 864) (JInt 1152) ?w1 =
      (Inl (KeyError (JStr ''7'')),
       ?w1\<lparr>workflow := sample_graph (JInt 864) (JInt 1152) c d t\<rparr>)"
    by (simp add: inject_def sbind_def l loop del: for_each.simps)
  then show ?thesis
    by (simp add: submit_def sbind_def new_client_id_def size)
qed

section \<open>The claims\<close>

text \<open>
  C5: with the aspect-ratio table of the config at hand, each of the five ratio names
  gives the pair the table holds for that name, and each friendly name gives the pair of
  its ratio: \<^verbatim>\<open>square\<close> that of \<^verbatim>\<open>1:1\<close>, \<^verbatim>\<open>widest\<close> that of \<^verbatim>\<open>16:9\<close>, \<^verbatim>\<open>tallest\<close> that
  of \<^verbatim>\<open>9:16\<close>, \<^verbatim>\<open>wide\<close> that of \<^verbatim>\<open>4:3\<close>, \<^verbatim>\<open>tall\<close> that of \<^verbatim>\<open>3:4\<close>. Every other
  string, the empty string among them, and every other hashable value (\<^verbatim>\<open>None\<close> for an
  argument that was not given) gives the pair the table holds for \<^verbatim>\<open>1:1\<close>; no exception
  is raised.
\<close>

theorem aspect_ratio_resolves_to_configured_pair:
  assumes "py_getitem cfg (JStr aspect_ratios_key) = Inr (JObj table)"
  shows "(\<forall>width height. dict_get table ''1:1'' = Some (JArr [width, height]) \<longrightarrow>
            image_size cfg (JStr ''1:1'') = Inr (width, height) \<and>
            image_size cfg (JStr ''square'') = Inr (width, height)) \<and>
         (\<forall>width height. dict_get table ''16:9'' = Some (JArr [width, height]) \<longrightarrow>
            image_size cfg (JStr ''16:9'') = Inr (width, height) \<and>
            image_size cfg (JStr ''widest'') = Inr (width, height)) \<and>
         (\<forall>width height. dict_get table ''9:16'' = Some (JArr [width, height]) \<longrightarrow>
            image_size cfg (JStr ''9:16'') = Inr (width, height) \<and>
            image_size cfg (JStr ''tallest'') = Inr (width, height)) \<and>
         (\<forall>width height. dict_get table ''4:3'' = Some (JArr [width, height]) \<longrightarrow>
            image_size cfg (JStr ''4:3'') = Inr (width, height) \<and>
            image_size cfg (JStr ''wide'') = Inr (width, height)) \<and>
         (\<forall>width height. dict_get table ''3:4'' = Some (JArr [width, height]) \<longrightarrow>
            image_size cfg (JStr ''3:4'') = Inr (width, height) \<and>
            image_size cfg (JStr ''tall'') = Inr (width, height)) \<and>
         (\<forall>a width height.
            a \<notin> {''1:1'', ''square'', ''16:9'', ''widest'', ''9:16'', ''tallest'',
                  ''4:3'', ''wide'', ''3:4'', ''tall''} \<longrightarrow>
            dict_get table ''1:1'' = Some (JArr [width, height]) \<longrightarrow>
            image_size cfg (JStr a) = Inr (width, height)) \<and>
         (\<forall>v width height.
            hashable v \<longrightarrow> (\<forall>a. v \<noteq> JStr a) \<longrightarrow>
            dict_get table ''1:1'' = Some (JArr [width, height]) \<longrightarrow>
            image_size cfg v = Inr (width, height))"
proof -
  have known: "image_size cfg (JStr a) = Inr (width, height)"
    if "dict_get aspect_ratio_aliases a = Some r" "dict_get table r = Some (JArr [width, height])"
    for a r width height
    using that assms by (simp add: image_size_def resolve_alias_def dict_has_def py_unpack2_def)
  have square: "dict_get aspect_ratio_aliases ''square'' = Some ''1:1''"
    by (simp add: aspect_ratio_aliases_def)
  have unknown: "image_size cfg (JStr a) = Inr (width, height)"
    if "dict_get aspect_ratio_aliases a = None" "dict_get table ''1:1'' = Some (JArr [width, height])"
    for a width height
    using that assms square
    by (simp add: image_size_def resolve_alias_def dict_has_def py_unpack2_def)
  have other: "image_size cfg v = Inr (width, height)"
    if "hashable v" "\<forall>a. v \<noteq> JStr a" "dict_get table ''1:1'' = Some (JArr [width, height])"
    for v width height
    using that assms square
    by (cases v) (simp_all add: image_size_def resolve_alias_def dict_has_def py_unpack2_def)
  have names: "dict_get aspect_ratio_aliases ''1:1'' = Some ''1:1''"
    "dict_get aspect_ratio_aliases ''16:9'' = Some ''16:9''"
    "dict_get aspect_ratio_aliases ''widest'' = Some ''16:9''"
    "dict_get aspect_ratio_aliases ''9:16'' = Some ''9:16''"
    "dict_get aspect_ratio_aliases ''tallest'' = Some ''9:16''"
    "dict_get aspect_ratio_aliases ''4:3'' = Some ''4:3''"
    "dict_get aspect_ratio_aliases ''wide'' = Some ''4:3''"
    "dict_get aspect_ratio_aliases ''3:4'' = Some ''3:4''"
    "dict_get aspect_ratio_aliases ''tall'' = Some ''3:4''"
    by (simp_all add: aspect_ratio_aliases_def)
  have none: "dict_get aspect_ratio_aliases a = None"
    if "a \<notin> {''1:1'', ''square'', ''16:9'', ''widest'', ''9:16'', ''tallest'',
                  ''4:3'', ''wide'', ''3:4'', ''tall''}" for a
    using that by (auto simp: aspect_ratio_aliases_def)
  show ?thesis
  proof (intro conjI allI impI)
    fix width height
    assume t: "dict_get table ''1:1'' = Some (JArr [width, height])"
    show "image_size cfg (JStr ''1:1'') = Inr (width, height)" by (rule known [OF names(1) t])
    show "image_size cfg (JStr ''square'') = Inr (width, height)" by (rule known [OF square t])
  next
    fix width height
    assume t: "dict_get table ''16:9'' = Some (JArr [width, height])"
    show "image_size cfg (JStr ''16:9'') = Inr (width, height)" by (rule known [OF names(2) t])
    show "image_size cfg (JStr ''widest'') = Inr (width, height)" by (rule known [OF names(3) t])
  next
    fix width height
    assume t: "dict_get table ''9:16'' = Some (JArr [width, height])"
    show "image_size cfg (JStr ''9:16'') = Inr (width, height)" by (rule known [OF names(4) t])
    show "image_size cfg (JStr ''tallest'') = Inr (width, height)" by (rule known [OF names(5) t])
  next
    fix width height
    assume t: "dict_get table ''4:3'' = Some (JArr [width, height])"
    show "image_size cfg (JStr ''4:3'') = Inr (width, height)" by (rule known [OF names(6) t])
    show "image_size cfg (JStr ''wide'') = Inr (width, height)" by (rule known [OF names(7) t])
  next
    fix width height
    assume t: "dict_get table ''3:4'' = Some (JArr [width, height])"
    show "image_size cfg (JStr ''3:4'') = Inr (width, height)" by (rule known [OF names(8) t])
    show "image_size cfg (JStr ''tall'') = Inr (width, height)" by (rule known [OF names(9) t])
  next
    fix a width height
    assume "a \<notin> {''1:1'', ''square'', ''16:9'', ''widest'', ''9:16'', ''tallest'',
                  ''4:3'', ''wide'', ''3:4'', ''tall''}"
      and "dict_get table ''1:1'' = Some (JArr [width, height])"
    then show "image_size cfg (JStr a) = Inr (width, height)"
      by (intro unknown none)
  next
    fix v width height
    assume "hashable v" "\<forall>a. v \<noteq> JStr a" "dict_get table ''1:1'' = Some (JArr [width, height])"
    then show "image_size cfg v = Inr (width, height)" by (rule other)
  qed
qed

theorem aspect_ratio_resolves_to_configured_pair_witness:
  "image_size (config sample_world) (JStr ''tall'') = Inr (JInt 864, JInt 1152) \<and>
   image_size (config sample_world) (JStr ''3:4'') = Inr (JInt 864, JInt 1152) \<and>
   image_size (config sample_world) (JStr ''widest'') = Inr (JInt 1280, JInt 720) \<and>
   image_size (config sample_world) (JStr ''16:9'') = Inr (JInt 1280, JInt 720) \<and>
   image_size (config sample_world) (JStr ''tallest'') = Inr (JInt 720, JInt 1280) \<and>
   image_size (config sample_world) (JStr ''wide'') = Inr (JInt 1152, JInt 864) \<and>
   image_size (config sample_world) (JStr ''square'') = Inr (JInt 1024, JInt 1024) \<and>
   image_size (config sample_world) (JStr []) = Inr (JInt 1024, JInt 1024) \<and>
   image_size (config sample_world) (JStr ''portrait'') = Inr (JInt 1024, JInt 1024) \<and>
   image_size (config sample_world) JNull = Inr (JInt 1024, JInt 1024)"
proof -
  let ?table = "[(''16:9'', JArr [JInt 1280, JInt 720]), (''4:3'', JArr [JInt 1152, JInt 864]),
                 (''1:1'', JArr [JInt 1024, JInt 1024]), (''3:4'', JArr [JInt 864, JInt 1152]),
                 (''9:16'', JArr [JInt 720, JInt 1280])]"
  have cfg: "py_getitem (config sample_world) (JStr aspect_ratios_key) = Inr (JObj ?table)"
    by (simp add: sample_world_def aspect_ratios_key_def default_aspect_ratios_def)
  note t = aspect_ratio_resolves_to_configured_pair [OF cfg]
  have e: "dict_get ?table ''3:4'' = Some (JArr [JInt 864, JInt 1152])"
    "dict_get ?table ''16:9'' = Some (JArr [JInt 1280, JInt 720])"
    "dict_get ?table ''9:16'' = Some (JArr [JInt 720, JInt 1280])"
    "dict_get ?table ''4:3'' = Some (JArr [JInt 1152, JInt 864])"
    "dict_get ?table ''1:1'' = Some (JArr [JInt 1024, JInt 1024])"
    by simp_all
  have n: "[] \<notin> {''1:1'', ''square'', ''16:9'', ''widest'', ''9:16'', ''tallest'',
                  ''4:3'', ''wide'', ''3:4'', ''tall''}"
    "''portrait'' \<notin> {''1:1'', ''square'', ''16:9'', ''widest'', ''9:16'', ''tallest'',
                  ''4:3'', ''wide'', ''3:4'', ''tall''}"
    by simp_all
  have h: "hashable JNull" "\<And>a. JNull \<noteq> JStr a" by simp_all
  note c1 = t [THEN conjunct1, rule_format, OF e(5)]
  note c2 = t [THEN conjunct2, THEN conjunct1, rule_format, OF e(2)]
  note c3 = t [THEN conjunct2, THEN conjunct2, THEN conjunct1, rule_format, OF e(3)]
  note c4 = t [THEN conjunct2, THEN conjunct2, THEN conjunct2, THEN conjunct1, rule_format, OF e(4)]
  note c5 = t [THEN conjunct2, THEN conjunct2, THEN conjunct2, THEN conjunct2, THEN conjunct1,
      rule_format, OF e(1)]
  note c6 = t [THEN conjunct2, THEN conjunct2, THEN conjunct2, THEN conjunct2, THEN conjunct2,
      THEN conjunct1, rule_format]
  note c7 = t [THEN conjunct2, THEN conjunct2, THEN conjunct2, THEN conjunct2, THEN conjunct2,
      THEN conjunct2, rule_format]
  note c8 = c6 [OF n(1) e(5)] and c9 = c6 [OF n(2) e(5)] and c10 = c7 [OF h e(5)]
  from c1 c2 c3 c4 c5 c8 c9 c10 show ?thesis by simp
qed



text \<open>
  C6, as stated: the sanitized form of the title \<^verbatim>\<open>Sun & Moon!!\<close> is \<^verbatim>\<open>Sun--Moon--\<close>.
  It is not: the blank, the ampersand and the second blank give three dashes.
\<close>

theorem sanitized_title_example_differs:
  "re_sub special_char_pattern CHR ''-'' ''Sun & Moon!!'' \<noteq> ''Sun--Moon--''"
  by (simp add: re_sub_def special_char_pattern_def word_char_def)

text \<open>
  C6, amended: the substitution of lines 56 and 203 keeps the length of the title, keeps
  every character of \<^verbatim>\<open>[A-Za-z0-9_]\<close> where it is and puts one \<^verbatim>\<open>-\<close> in the place of
  every other character; the title \<^verbatim>\<open>Sun & Moon!!\<close> becomes \<^verbatim>\<open>Sun---Moon--\<close>.
\<close>

theorem sanitized_title_one_for_one:
  "length (re_sub special_char_pattern CHR ''-'' title) = length title \<and>
   (\<forall>i < length title.
      re_sub special_char_pattern CHR ''-'' title ! i =
        (if title ! i \<in> set ''abcdefghijklmnopqrstuvwxyzABCDEFGHIJKLMNOPQRSTUVWXYZ0123456789_''
         then title ! i else CHR ''-'')) \<and>
   re_sub special_char_pattern CHR ''-'' ''Sun & Moon!!'' = ''Sun---Moon--''"
proof (intro conjI allI impI)
  show "length (re_sub special_char_pattern CHR ''-'' title) = length title"
    by (simp add: re_sub_def)
next
  fix i assume "i < length title"
  then show "re_sub special_char_pattern CHR ''-'' title ! i =
        (if title ! i \<in> set ''abcdefghijklmnopqrstuvwxyzABCDEFGHIJKLMNOPQRSTUVWXYZ0123456789_''
         then title ! i else CHR ''-'')"
    unfolding re_sub_def special_char_pattern_def word_char_iff by simp
next
  show "re_sub special_char_pattern CHR ''-'' ''Sun & Moon!!'' = ''Sun---Moon--''"
    by (simp add: re_sub_def special_char_pattern_def word_char_def)
qed

theorem sanitized_title_one_for_one_witness:
  "re_sub special_char_pattern CHR ''-'' ''Red Fox_2'' ! 3 = CHR ''-'' \<and>
   re_sub special_char_pattern CHR ''-'' ''Red Fox_2'' ! 7 = CHR ''_''"
proof -
  have a: "(3::nat) < length ''Red Fox_2''" and b: "(7::nat) < length ''Red Fox_2''"
    by simp_all
  from sanitized_title_one_for_one [of "''Red Fox_2''"] a b
  have "re_sub special_char_pattern CHR ''-'' ''Red Fox_2'' ! 3 =
          (if ''Red Fox_2'' ! 3 \<in> set ''abcdefghijklmnopqrstuvwxyzABCDEFGHIJKLMNOPQRSTUVWXYZ0123456789_''
           then ''Red Fox_2'' ! 3 else CHR ''-'')"
    and "re_sub special_char_pattern CHR ''-'' ''Red Fox_2'' ! 7 =
          (if ''Red Fox_2'' ! 7 \<in> set ''abcdefghijklmnopqrstuvwxyzABCDEFGHIJKLMNOPQRSTUVWXYZ0123456789_''
           then ''Red Fox_2'' ! 7 else CHR ''-'')"
    by blast+
  then show ?thesis by simp
qed

text \<open>
  C10: a call whose tool name is not \<^verbatim>\<open>image_generate\<close> returns one text block,
  \<^verbatim>\<open>Unknown tool: <name>\<close>, whatever the arguments, and changes nothing.
\<close>

theorem unknown_tool_text:
  "name \<noteq> ''image_generate'' \<Longrightarrow>
   handle_call_tool fuel eng name arguments w =
     Some ([TextContent ''text'' (''Unknown tool: '' @ name)], w)"
  by (simp add: handle_call_tool_def)

theorem unknown_tool_text_witness:
  "handle_call_tool 0 sample_env ''image_list'' [(''prompt'', JInt 3)] sample_world =
     Some ([TextContent ''text'' ''Unknown tool: image_list''], sample_world)"
  using unknown_tool_text [of "''image_list''" 0 sample_env "[(''prompt'', JInt 3)]" sample_world]
  by simp



text \<open>
  C9: whatever a stage of the pipeline raises (writing the request into the graph and
  submitting it, waiting, fetching and storing), the handler returns one text block,
  \<^verbatim>\<open>Error generating image: \<close> followed by the message of the exception; whenever the
  handler returns, what it returns is one text block. The process is ended by an
  exception only while the module loads its two files.
\<close>

theorem handler_catches_pipeline_errors:
  "(submit eng (arguments_get arguments ''prompt'') (arguments_get arguments ''aspect_ratio'') w
       = (Inl e, w1) \<longrightarrow>
      handle_call_tool fuel eng ''image_generate'' arguments w =
        Some ([TextContent ''text'' (''Error generating image: '' @ exc_str e)], w1)) \<and>
   (submit eng (arguments_get arguments ''prompt'') (arguments_get arguments ''aspect_ratio'') w
       = (Inr prompt_id, w1) \<longrightarrow>
    poll fuel eng prompt_id w1 = Some (Inl e, w2) \<longrightarrow>
      handle_call_tool fuel eng ''image_generate'' arguments w =
        Some ([TextContent ''text'' (''Error generating image: '' @ exc_str e)], w2)) \<and>
   (submit eng (arguments_get arguments ''prompt'') (arguments_get arguments ''aspect_ratio'') w
       = (Inr prompt_id, w1) \<longrightarrow>
    poll fuel eng prompt_id w1 = Some (Inr (), w2) \<longrightarrow>
    retrieve eng (arguments_get arguments ''title'') prompt_id w2 = (Inl e, w3) \<longrightarrow>
      handle_call_tool fuel eng ''image_generate'' arguments w =
        Some ([TextContent ''text'' (''Error generating image: '' @ exc_str e)], w3)) \<and>
   (handle_call_tool fuel eng name arguments w = Some (r, w') \<longrightarrow>
      (\<exists>t. r = [TextContent ''text'' t])) \<and>
   startup (Inl e) config_file = Inl e \<and>
   startup (Inr workflow_data) (Inl e) = Inl e"
proof (intro conjI impI)
  assume "submit eng (arguments_get arguments ''prompt'') (arguments_get arguments ''aspect_ratio'') w
       = (Inl e, w1)"
  from handler_pipeline_error [OF pipeline_submit_error [OF this]]
  show "handle_call_tool fuel eng ''image_generate'' arguments w =
        Some ([TextContent ''text'' (''Error generating image: '' @ exc_str e)], w1)"
    by (simp add: error_text_def)
next
  assume "submit eng (arguments_get arguments ''prompt'') (arguments_get arguments ''aspect_ratio'') w
       = (Inr prompt_id, w1)" and "poll fuel eng prompt_id w1 = Some (Inl e, w2)"
  from handler_pipeline_error [OF pipeline_poll_error [OF this]]
  show "handle_call_tool fuel eng ''image_generate'' arguments w =
        Some ([TextContent ''text'' (''Error generating image: '' @ exc_str e)], w2)"
    by (simp add: error_text_def)
next
  assume "submit eng (arguments_get arguments ''prompt'') (arguments_get arguments ''aspect_ratio'') w
       = (Inr prompt_id, w1)" and "poll fuel eng prompt_id w1 = Some (Inr (), w2)"
    and r: "retrieve eng (arguments_get arguments ''title'') prompt_id w2 = (Inl e, w3)"
  from pipeline_retrieve [OF this(1,2), of "arguments_get arguments ''title''"] r
  have "comfyui_generate_image fuel eng (arguments_get arguments ''prompt'')
      (arguments_get arguments ''title'') (arguments_get arguments ''aspect_ratio'') w =
     Some (Inl e, w3)" by simp
  from handler_pipeline_error [OF this]
  show "handle_call_tool fuel eng ''image_generate'' arguments w =
        Some ([TextContent ''text'' (''Error generating image: '' @ exc_str e)], w3)"
    by (simp add: error_text_def)
next
  assume "handle_call_tool fuel eng name arguments w = Some (r, w')"
  then show "\<exists>t. r = [TextContent ''text'' t]" by (rule handler_one_text_block)
next
  show "startup (Inl e) config_file = Inl e" by (simp add: startup_def)
  show "startup (Inr workflow_data) (Inl e) = Inl e" by (simp add: startup_def)
qed

theorem handler_catches_pipeline_errors_witness:
  "handle_call_tool 5
     (sample_env_with (\<lambda>graph client_id. Inl (OSError ''<urlopen error [Errno 111] Connection refused>''))
        (sample_history (sample_final sample_outputs)) (\<lambda>path. None))
     ''image_generate'' sample_arguments sample_world =
   Some ([TextContent ''text''
            ''Error generating image: <urlopen error [Errno 111] Connection refused>''],
         sample_world
           \<lparr>workflow := sample_graph (JInt 864) (JInt 1152) (JInt 6585701376) (JInt 7082102784)
                          (JStr ''a red fox''),
            uuids := 3,
            posted := [(sample_graph (JInt 864) (JInt 1152) (JInt 6585701376) (JInt 7082102784)
                          (JStr ''a red fox''), 324969006592305634633390616021200786553)]\<rparr>)"
proof -
  let ?eng = "sample_env_with (\<lambda>graph client_id. Inl (OSError ''<urlopen error [Errno 111] Connection refused>''))
        (sample_history (sample_final sample_outputs)) (\<lambda>path. None)"
  let ?g = "sample_graph (JInt 864) (JInt 1152) (JInt 6585701376) (JInt 7082102784) (JStr ''a red fox'')"
  let ?w1 = "sample_world\<lparr>workflow := ?g, uuids := 3,
      posted := [(?g, 324969006592305634633390616021200786553)]\<rparr>"
  have g: "workflow sample_world = sample_graph (JInt 512) (JInt 512) (JInt 0) (JInt 0) (JStr [])"
    by (simp add: sample_world_def sample_workflow_def)
  have u: "uuid4 ?eng = sample_uuid4"
    "queue_prompt ?eng = (\<lambda>graph client_id. Inl (OSError ''<urlopen error [Errno 111] Connection refused>''))"
    by (simp_all add: sample_env_with_def)
  have w0: "uuids sample_world = 0" "posted sample_world = []"
    by (simp_all add: sample_world_def)
  have seeds: "make_random_seed (sample_uuid4 (Suc 0)) = 6585701376"
    "make_random_seed (sample_uuid4 (Suc (Suc 0))) = 7082102784"
    "sample_uuid4 0 = 324969006592305634633390616021200786553"
    by (simp_all add: make_random_seed_def float_of_nat_def sample_uuid4_def Let_def)
  have a: "arguments_get sample_arguments ''prompt'' = JStr ''a red fox''"
    "arguments_get sample_arguments ''aspect_ratio'' = JStr ''tall''"
    by (simp_all add: arguments_get_def sample_arguments_def)
  have sub: "submit ?eng (arguments_get sample_arguments ''prompt'')
      (arguments_get sample_arguments ''aspect_ratio'') sample_world =
      (Inl (OSError ''<urlopen error [Errno 111] Connection refused>''), ?w1)"
    unfolding a sample_submit [OF g refl] u w0 seeds
    by (simp add: numeral_3_eq_3)
  from handler_catches_pipeline_errors [of ?eng sample_arguments sample_world
      "OSError ''<urlopen error [Errno 111] Connection refused>''" ?w1 5] sub
  show ?thesis by simp
qed

text \<open>
  C3, as stated: once the image file is written, a failure to write the prompt file does
  not change the result of the call. It does: in the sample installation with a prompt
  file that cannot be opened, the image is stored and the call returns the error text.
\<close>

theorem sidecar_failure_changes_the_result:
  "handle_call_tool 5
     (sample_env_with sample_queue (sample_history (sample_final sample_outputs))
        (\<lambda>path. Some (OSError (''[Errno 13] Permission denied: '' @ repr_str path))))
     ''image_generate'' sample_arguments sample_world =
   Some ([TextContent ''text''
            (''Error generating image: [Errno 13] Permission denied: '' @
             repr_str ''./output/2025-01-31_12:00:00_Red-Fox_flux-krea.txt'')],
         sample_world_after) \<and>
   dict_get (files sample_world_after) ''./output/2025-01-31_12:00:00_Red-Fox_flux-krea.png'' =
     Some (Png ''PNG-bytes'')"
proof -
  let ?oe = "\<lambda>path. Some (OSError (''[Errno 13] Permission denied: '' @ repr_str path))"
  let ?eng = "sample_env_with sample_queue (sample_history (sample_final sample_outputs)) ?oe"
  have a: "arguments_get sample_arguments ''prompt'' = JStr ''a red fox''"
    "arguments_get sample_arguments ''title'' = JStr ''Red Fox''"
    "arguments_get sample_arguments ''aspect_ratio'' = JStr ''tall''"
    by (simp_all add: arguments_get_def sample_arguments_def)
  have run: "comfyui_generate_image 5 ?eng (arguments_get sample_arguments ''prompt'')
      (arguments_get sample_arguments ''title'') (arguments_get sample_arguments ''aspect_ratio'')
      sample_world =
     Some (Inr (Some ''2025-01-31_12:00:00_Red-Fox_flux-krea.png'',
                ''![Red Fox](http://127.0.0.1:8081/view/2025-01-31_12:00:00_Red-Fox_flux-krea.png)''),
           sample_world_after)"
    unfolding a by (rule sample_run)
  have e: "output_dir ?eng = ''./output''" "open_error ?eng = ?oe"
    by (simp_all add: sample_env_with_def)
  have wr: "write_prompt_file ?eng ''2025-01-31_12:00:00_Red-Fox_flux-krea.png''
      (arguments_get sample_arguments ''prompt'') sample_world_after =
    (Inl (OSError (''[Errno 13] Permission denied: '' @
             repr_str ''./output/2025-01-31_12:00:00_Red-Fox_flux-krea.txt'')), sample_world_after)"
    unfolding write_prompt_file_def e sample_sidecar_name Let_def by simp
  have h: "handle_call_tool 5 ?eng ''image_generate'' sample_arguments sample_world =
     (case write_prompt_file ?eng ''2025-01-31_12:00:00_Red-Fox_flux-krea.png''
             (arguments_get sample_arguments ''prompt'') sample_world_after of
        (Inl e, w2) \<Rightarrow> Some (error_text e, w2)
      | (Inr u, w2) \<Rightarrow>
          Some ([TextContent ''text''
                   ''![Red Fox](http://127.0.0.1:8081/view/2025-01-31_12:00:00_Red-Fox_flux-krea.png)''],
                w2))"
    by (rule handler_prompt_file [OF run]) simp
  have t: "error_text (OSError (''[Errno 13] Permission denied: '' @
             repr_str ''./output/2025-01-31_12:00:00_Red-Fox_flux-krea.txt'')) =
      [TextContent ''text''
            (''Error generating image: [Errno 13] Permission denied: '' @
             repr_str ''./output/2025-01-31_12:00:00_Red-Fox_flux-krea.txt'')]"
    by (simp add: error_text_def)
  have "handle_call_tool 5 ?eng ''image_generate'' sample_arguments sample_world =
   Some ([TextContent ''text''
            (''Error generating image: [Errno 13] Permission denied: '' @
             repr_str ''./output/2025-01-31_12:00:00_Red-Fox_flux-krea.txt'')],
         sample_world_after)"
    unfolding h wr t [symmetric] by simp
  moreover have "dict_get (files sample_world_after)
      ''./output/2025-01-31_12:00:00_Red-Fox_flux-krea.png'' = Some (Png ''PNG-bytes'')"
    by (simp add: sample_world_after_def)
  ultimately show ?thesis by blast
qed

text \<open>
  C3, amended: once the pipeline has written the image file and returned its name, a
  failure while the prompt file is written is caught by the same \<^verbatim>\<open>except\<close> clause as the
  errors of the pipeline, whether the file cannot be opened, the write or the close of
  the file raises, or the prompt is not a string: the call returns the text
  \<^verbatim>\<open>Error generating image: \<close> followed by the message, in place of the rendered
  reference. The state is the one the pipeline left, but for the prompt file when it
  could be opened.
\<close>

theorem sidecar_failure_becomes_the_result:
  assumes run: "comfyui_generate_image fuel eng (arguments_get arguments ''prompt'')
      (arguments_get arguments ''title'') (arguments_get arguments ''aspect_ratio'') w =
     Some (Inr (Some image_filename, markdown), w1)"
    and name: "image_filename \<noteq> []"
    and path: "prompt_path = path_join (output_dir eng) (str_replace ''.png'' ''.txt'' image_filename)"
  shows "(\<forall>e. open_error eng prompt_path = Some e \<longrightarrow>
            handle_call_tool fuel eng ''image_generate'' arguments w =
              Some ([TextContent ''text'' (''Error generating image: '' @ exc_str e)], w1)) \<and>
         (\<forall>p e written.
            open_error eng prompt_path = None \<longrightarrow>
            arguments_get arguments ''prompt'' = JStr p \<longrightarrow>
            write_error eng prompt_path p = Some (e, written) \<longrightarrow>
            handle_call_tool fuel eng ''image_generate'' arguments w =
              Some ([TextContent ''text'' (''Error generating image: '' @ exc_str e)],
                    w1\<lparr>files := dict_set prompt_path (Txt written) (files w1)\<rparr>)) \<and>
         (open_error eng prompt_path = None \<longrightarrow>
          (\<forall>p. arguments_get arguments ''prompt'' \<noteq> JStr p) \<longrightarrow>
            handle_call_tool fuel eng ''image_generate'' arguments w =
              Some ([TextContent ''text''
                       (''Error generating image: write() argument must be str, not '' @
                        arg_type_name (arguments_get arguments ''prompt''))],
                    w1\<lparr>files := dict_set prompt_path (Txt []) (files w1)\<rparr>))"
proof (intro conjI allI impI)
  note h = handler_prompt_file [OF run name]
  {
    fix e assume "open_error eng prompt_path = Some e"
    then show "handle_call_tool fuel eng ''image_generate'' arguments w =
        Some ([TextContent ''text'' (''Error generating image: '' @ exc_str e)], w1)"
      unfolding h path by (simp add: write_prompt_file_def error_text_def)
  }
  {
    fix p e written
    assume "open_error eng prompt_path = None" "arguments_get arguments ''prompt'' = JStr p"
      "write_error eng prompt_path p = Some (e, written)"
    then show "handle_call_tool fuel eng ''image_generate'' arguments w =
              Some ([TextContent ''text'' (''Error generating image: '' @ exc_str e)],
                    w1\<lparr>files := dict_set prompt_path (Txt written) (files w1)\<rparr>)"
      unfolding h path by (simp add: write_prompt_file_def error_text_def)
  }
  {
    assume "open_error eng prompt_path = None" "\<forall>p. arguments_get arguments ''prompt'' \<noteq> JStr p"
    then show "handle_call_tool fuel eng ''image_generate'' arguments w =
              Some ([TextContent ''text''
                       (''Error generating image: write() argument must be str, not '' @
                        arg_type_name (arguments_get arguments ''prompt''))],
                    w1\<lparr>files := dict_set prompt_path (Txt []) (files w1)\<rparr>)"
      unfolding h path
      by (cases "arguments_get arguments ''prompt''")
        (simp_all add: write_prompt_file_def error_text_def)
  }
qed

text \<open>The sample call on a full disk: the prompt file is opened, and the write raises.\<close>

theorem sidecar_failure_becomes_the_result_witness:
  "handle_call_tool 5
     (sample_env\<lparr>write_error :=
        \<lambda>path data. Some (OSError ''[Errno 28] No space left on device'', [])\<rparr>)
     ''image_generate'' sample_arguments sample_world =
     Some ([TextContent ''text'' ''Error generating image: [Errno 28] No space left on device''],
           sample_world_after
             \<lparr>files := [(''./output/2025-01-31_12:00:00_Red-Fox_flux-krea.png'', Png ''PNG-bytes''),
                        (''./output/2025-01-31_12:00:00_Red-Fox_flux-krea.txt'', Txt [])]\<rparr>)"
proof -
  let ?we = "\<lambda>path data. Some (OSError ''[Errno 28] No space left on device'', [])"
  let ?eng = "sample_env\<lparr>write_error := ?we\<rparr>"
  let ?path = "''./output/2025-01-31_12:00:00_Red-Fox_flux-krea.txt''"
  have a: "arguments_get sample_arguments ''prompt'' = JStr ''a red fox''"
    "arguments_get sample_arguments ''title'' = JStr ''Red Fox''"
    "arguments_get sample_arguments ''aspect_ratio'' = JStr ''tall''"
    by (simp_all add: arguments_get_def sample_arguments_def)
  have run: "comfyui_generate_image 5 ?eng (arguments_get sample_arguments ''prompt'')
      (arguments_get sample_arguments ''title'') (arguments_get sample_arguments ''aspect_ratio'')
      sample_world =
     Some (Inr (Some ''2025-01-31_12:00:00_Red-Fox_flux-krea.png'',
                ''![Red Fox](http://127.0.0.1:8081/view/2025-01-31_12:00:00_Red-Fox_flux-krea.png)''),
           sample_world_after)"
    unfolding a pipeline_write_error sample_env_def by (rule sample_run)
  have e: "output_dir ?eng = ''./output''" "open_error ?eng ?path = None"
    "write_error ?eng ?path ''a red fox'' = Some (OSError ''[Errno 28] No space left on device'', [])"
    by (simp_all add: sample_env_def sample_env_with_def)
  have ne: "''2025-01-31_12:00:00_Red-Fox_flux-krea.png'' \<noteq> []" by simp
  have path: "?path = path_join (output_dir ?eng)
      (str_replace ''.png'' ''.txt'' ''2025-01-31_12:00:00_Red-Fox_flux-krea.png'')"
    unfolding e(1) sample_sidecar_name ..
  note t = sidecar_failure_becomes_the_result [OF run ne path, THEN conjunct2, THEN conjunct1,
      rule_format, OF e(2) a(1) e(3)]
  have "sample_world_after\<lparr>files := dict_set ?path (Txt []) (files sample_world_after)\<rparr> =
      sample_world_after
             \<lparr>files := [(''./output/2025-01-31_12:00:00_Red-Fox_flux-krea.png'', Png ''PNG-bytes''),
                        (''./output/2025-01-31_12:00:00_Red-Fox_flux-krea.txt'', Txt [])]\<rparr>"
    by (simp add: sample_world_after_def)
  with t show ?thesis by simp
qed

text \<open>
  C4, as stated: when the finished job has no image on the node named by
  \<^verbatim>\<open>save_image_node\<close>, the pipeline fails with an error, and the handler turns that error
  into its text. In the sample installation with an image on node 8 and an empty
  \<^verbatim>\<open>images\<close> list on node 9, the save node, the pipeline does not fail: it returns a
  result, the pair of no file name and a message, and the handler returns the message
  as it returns the reference of a stored image, not the text it makes of an exception.
\<close>

theorem no_image_is_returned_not_raised:
  "comfyui_generate_image 5
     (sample_env_with sample_queue (sample_history (sample_final sample_outputs_elsewhere))
        (\<lambda>path. None))
     (JStr ''a red fox'') (JStr ''Red Fox'') (JStr ''tall'') sample_world =
   Some (Inr (None, ''Unspecified error. No image generated.''),
         sample_world_after\<lparr>files := []\<rparr>) \<and>
   handle_call_tool 5
     (sample_env_with sample_queue (sample_history (sample_final sample_outputs_elsewhere))
        (\<lambda>path. None))
     ''image_generate'' sample_arguments sample_world =
   Some ([TextContent ''text'' ''Unspecified error. No image generated.''],
         sample_world_after\<lparr>files := []\<rparr>)"
proof -
  let ?eng = "sample_env_with sample_queue (sample_history (sample_final sample_outputs_elsewhere))
        (\<lambda>path. None)"
  have i: "get_image ?eng = (\<lambda>filename subfolder folder_type. Inr ''PNG-bytes'')"
    by (simp add: sample_env_with_def)
  have none: "dict_get [(JStr ''8'', [''PNG-bytes'']), (JStr ''9'', [])] (JStr ''9'') = None \<or>
      dict_get [(JStr ''8'', [''PNG-bytes'']), (JStr ''9'', [])] (JStr ''9'') = Some []"
    by simp
  note run = sample_run_without_image [OF refl sample_output_images_elsewhere [OF i] none]
  have a: "arguments_get sample_arguments ''prompt'' = JStr ''a red fox''"
    "arguments_get sample_arguments ''title'' = JStr ''Red Fox''"
    "arguments_get sample_arguments ''aspect_ratio'' = JStr ''tall''"
    by (simp_all add: arguments_get_def sample_arguments_def)
  have "comfyui_generate_image 5 ?eng (arguments_get sample_arguments ''prompt'')
      (arguments_get sample_arguments ''title'') (arguments_get sample_arguments ''aspect_ratio'')
      sample_world =
     Some (Inr (None, ''Unspecified error. No image generated.''), sample_world_after\<lparr>files := []\<rparr>)"
    unfolding a by (rule run)
  from handler_no_file [OF this] run [of "JStr ''Red Fox''"] show ?thesis by simp
qed

text \<open>
  C4, amended: the code has no error for a job without an image. When the job has
  finished and the history fetched at line 187 holds, for the node named by
  \<^verbatim>\<open>save_image_node\<close>, no entry, an entry without \<^verbatim>\<open>images\<close> or an empty \<^verbatim>\<open>images\<close>
  list, then, once the outputs of all nodes are collected (lines 188--195), the pipeline
  returns as its result no file name and the message
  \<^verbatim>\<open>Unspecified error. No image generated.\<close>, whatever images other nodes produced, and
  the handler returns that message as its one text block, with no prompt file written.
  When collecting the outputs raises, that exception is what the pipeline raises, and
  the handler returns its error text. In neither case does the pipeline return a file
  name.
\<close>

theorem no_image_on_save_node_returns_the_message:
  assumes sub: "submit eng (arguments_get arguments ''prompt'')
                  (arguments_get arguments ''aspect_ratio'') w0 = (Inr prompt_id, w1)"
    and pol: "poll fuel eng prompt_id w1 = Some (Inr (), w)"
    and hist: "get_history eng (requests w) prompt_id = Inr h"
      "py_getitem (JObj h) prompt_id = Inr history"
    and outs: "py_getitem history (JStr ''outputs'') = Inr (JObj outputs)"
    and save: "py_getitem (config w) (JStr save_image_node_key) = Inr save_image_node"
    and none: "dict_get outputs (py_str save_image_node) = None \<or>
           (dict_get outputs (py_str save_image_node) = Some node_output \<and>
            (py_in ''images'' node_output = Inr False \<or>
             py_getitem node_output (JStr ''images'') = Inr (JArr [])))"
  shows "(\<forall>oi. output_images_of eng history = Inr oi \<longrightarrow>
            comfyui_generate_image fuel eng (arguments_get arguments ''prompt'')
              (arguments_get arguments ''title'') (arguments_get arguments ''aspect_ratio'') w0 =
              Some (Inr (None, ''Unspecified error. No image generated.''),
                    w\<lparr>requests := Suc (requests w)\<rparr>) \<and>
            handle_call_tool fuel eng ''image_generate'' arguments w0 =
              Some ([TextContent ''text'' ''Unspecified error. No image generated.''],
                    w\<lparr>requests := Suc (requests w)\<rparr>)) \<and>
         (\<forall>e. output_images_of eng history = Inl e \<longrightarrow>
            comfyui_generate_image fuel eng (arguments_get arguments ''prompt'')
              (arguments_get arguments ''title'') (arguments_get arguments ''aspect_ratio'') w0 =
              Some (Inl e, w\<lparr>requests := Suc (requests w)\<rparr>) \<and>
            handle_call_tool fuel eng ''image_generate'' arguments w0 =
              Some ([TextContent ''text'' (''Error generating image: '' @ exc_str e)],
                    w\<lparr>requests := Suc (requests w)\<rparr>)) \<and>
         (\<forall>image_filename markdown w'.
            comfyui_generate_image fuel eng (arguments_get arguments ''prompt'')
              (arguments_get arguments ''title'') (arguments_get arguments ''aspect_ratio'') w0 \<noteq>
            Some (Inr (Some image_filename, markdown), w'))"
proof -
  note p = pipeline_retrieve [OF sub pol, of "arguments_get arguments ''title''"]
  note r = retrieve_without_images [OF hist outs save none, of "arguments_get arguments ''title''"]
  show ?thesis
  proof (intro conjI allI impI)
    fix image_filename markdown w'
    show "comfyui_generate_image fuel eng (arguments_get arguments ''prompt'')
              (arguments_get arguments ''title'') (arguments_get arguments ''aspect_ratio'') w0 \<noteq>
            Some (Inr (Some image_filename, markdown), w')"
      unfolding p r by (simp split: sum.splits)
  next
    fix oi assume oi: "output_images_of eng history = Inr oi"
    then show c: "comfyui_generate_image fuel eng (arguments_get arguments ''prompt'')
              (arguments_get arguments ''title'') (arguments_get arguments ''aspect_ratio'') w0 =
              Some (Inr (None, ''Unspecified error. No image generated.''),
                    w\<lparr>requests := Suc (requests w)\<rparr>)"
      unfolding p r by simp
    show "handle_call_tool fuel eng ''image_generate'' arguments w0 =
              Some ([TextContent ''text'' ''Unspecified error. No image generated.''],
                    w\<lparr>requests := Suc (requests w)\<rparr>)"
      by (rule handler_no_file [OF c])
  next
    fix e assume "output_images_of eng history = Inl e"
    then show c: "comfyui_generate_image fuel eng (arguments_get arguments ''prompt'')
              (arguments_get arguments ''title'') (arguments_get arguments ''aspect_ratio'') w0 =
              Some (Inl e, w\<lparr>requests := Suc (requests w)\<rparr>)"
      unfolding p r by simp
    from handler_pipeline_error [OF c]
    show "handle_call_tool fuel eng ''image_generate'' arguments w0 =
              Some ([TextContent ''text'' (''Error generating image: '' @ exc_str e)],
                    w\<lparr>requests := Suc (requests w)\<rparr>)"
      by (simp add: error_text_def)
  qed
qed

theorem no_image_on_save_node_returns_the_message_witness:
  "comfyui_generate_image 5
     (sample_env_with sample_queue (sample_history (sample_final sample_outputs_absent))
        (\<lambda>path. None))
     (JStr ''a red fox'') (JStr ''Red Fox'') (JStr ''tall'') sample_world =
   Some (Inr (None, ''Unspecified error. No image generated.''),
         sample_world_after\<lparr>files := []\<rparr>) \<and>
   handle_call_tool 5
     (sample_env_with sample_queue (sample_history (sample_final sample_outputs_absent))
        (\<lambda>path. None))
     ''image_generate'' sample_arguments sample_world =
   Some ([TextContent ''text'' ''Unspecified error. No image generated.''],
         sample_world_after\<lparr>files := []\<rparr>)"
proof -
  let ?outputs = "sample_outputs_absent"
  let ?eng = "sample_env_with sample_queue (sample_history (sample_final ?outputs)) (\<lambda>path. None)"
  let ?w = "sample_world_after\<lparr>requests := 3, files := []\<rparr>"
  note s = sample_submit_and_poll [of ?eng ?outputs "\<lambda>path. None", OF refl]
  have i: "get_image ?eng = (\<lambda>filename subfolder folder_type. Inr ''PNG-bytes'')"
    by (simp add: sample_env_with_def)
  have a: "arguments_get sample_arguments ''prompt'' = JStr ''a red fox''"
    "arguments_get sample_arguments ''title'' = JStr ''Red Fox''"
    "arguments_get sample_arguments ''aspect_ratio'' = JStr ''tall''"
    by (simp_all add: arguments_get_def sample_arguments_def)
  have sub: "submit ?eng (arguments_get sample_arguments ''prompt'')
      (arguments_get sample_arguments ''aspect_ratio'') sample_world =
      (Inr (JStr ''p1''), sample_world_after\<lparr>requests := 0, slept := 0, files := []\<rparr>)"
    unfolding a by (rule s(1))
  have outs: "py_getitem (JObj [(''outputs'', JObj ?outputs)]) (JStr ''outputs'') = Inr (JObj ?outputs)"
    by simp
  have none: "dict_get ?outputs (py_str (JStr ''9'')) = None \<or>
           (dict_get ?outputs (py_str (JStr ''9'')) = Some JNull \<and>
            (py_in ''images'' JNull = Inr False \<or>
             py_getitem JNull (JStr ''images'') = Inr (JArr [])))"
    by (simp add: py_str_def sample_outputs_absent_def)
  have oi: "output_images_of ?eng (JObj [(''outputs'', JObj ?outputs)]) = Inr [(JStr ''8'', [''PNG-bytes''])]"
    by (rule sample_output_images_absent [OF i])
  have e: "?w\<lparr>requests := Suc (requests ?w)\<rparr> = sample_world_after\<lparr>files := []\<rparr>"
    by (simp add: sample_world_after_def)
  note t = no_image_on_save_node_returns_the_message [OF sub s(2) s(3) s(4) outs s(5) none]
  from t [THEN conjunct1, rule_format, OF oi] show ?thesis
    unfolding a e .
qed

text \<open>
  C2, as stated: a node identifier of a role list that the graph does not have makes the
  process fail when it starts, never while a request is handled. In the sample
  installation with size node 7 missing the process starts, and the first request finds
  the missing node: it writes the size into node 5 and returns the \<^verbatim>\<open>KeyError\<close> as text.
\<close>

theorem missing_node_found_by_the_request:
  "startup (Inr sample_workflow) (Inr sample_config_missing) = Inr sample_world_missing \<and>
   handle_call_tool 5 sample_env ''image_generate'' sample_arguments sample_world_missing =
     Some ([TextContent ''text'' (''Error generating image: '' @ repr_str ''7'')],
           sample_world_missing
             \<lparr>uuids := 1,
              workflow := sample_graph (JInt 864) (JInt 1152) (JInt 0) (JInt 0) (JStr [])\<rparr>)"
proof -
  have a: "arguments_get sample_arguments ''prompt'' = JStr ''a red fox''"
    "arguments_get sample_arguments ''aspect_ratio'' = JStr ''tall''"
    by (simp_all add: arguments_get_def sample_arguments_def)
  have "submit sample_env (arguments_get sample_arguments ''prompt'')
          (arguments_get sample_arguments ''aspect_ratio'') sample_world_missing =
     (Inl (KeyError (JStr ''7'')),
      sample_world_missing
        \<lparr>uuids := 1,
         workflow := sample_graph (JInt 864) (JInt 1152) (JInt 0) (JInt 0) (JStr [])\<rparr>)"
    unfolding a by (rule sample_missing_submit)
  from handler_pipeline_error [OF pipeline_submit_error [OF this]] sample_missing_starts
  show ?thesis by (simp add: error_text_def)
qed

text \<open>
  C2, amended: nothing compares the role lists with the graph when the process starts.
  Take a state whose graph is a dict without the node \<open>n\<close> and whose config lists \<open>n\<close>
  under \<^verbatim>\<open>image_size_nodes\<close>, \<^verbatim>\<open>seed_nodes\<close> or \<^verbatim>\<open>prompt_nodes\<close>. The process starts with
  that graph and every config file that loads to that config. A generation request
  handled in such a state fails while it writes into the graph: nothing is submitted to
  the engine and the handler returns the exception as the text
  \<^verbatim>\<open>Error generating image: <message>\<close>. The state the request leaves is again such a
  state, so the same holds for the request after it, and for every request of the
  process.
\<close>

theorem missing_node_fails_each_request:
  assumes graph: "workflow w = JObj gd"
    and missing: "isl (py_getitem (workflow w) n)"
    and listed: "config_list key w = (Inr ns, w)" "n \<in> set ns"
      "key = image_size_nodes_key \<or> key = seed_nodes_key \<or> key = prompt_nodes_key"
  shows "(\<forall>config_data. load_config config_data = Inr (config w) \<longrightarrow>
            startup (Inr (workflow w)) (Inr config_data) =
              Inr \<lparr>workflow = workflow w, config = config w, uuids = 0, requests = 0,
                   slept = 0, posted = [], files = []\<rparr>) \<and>
         (\<exists>e w1.
            submit eng (arguments_get arguments ''prompt'')
              (arguments_get arguments ''aspect_ratio'') w = (Inl e, w1) \<and>
            posted w1 = posted w \<and>
            handle_call_tool fuel eng ''image_generate'' arguments w =
              Some ([TextContent ''text'' (''Error generating image: '' @ exc_str e)], w1) \<and>
            (\<exists>gd1. workflow w1 = JObj gd1) \<and>
            isl (py_getitem (workflow w1) n) \<and>
            config_list key w1 = (Inr ns, w1))"
proof
  show "\<forall>config_data. load_config config_data = Inr (config w) \<longrightarrow>
            startup (Inr (workflow w)) (Inr config_data) =
              Inr \<lparr>workflow = workflow w, config = config w, uuids = 0, requests = 0,
                   slept = 0, posted = [], files = []\<rparr>"
    by (simp add: startup_def)
next
  from graph have d: "\<exists>gd. workflow w = JObj gd" by blast
  from submit_missing_node [OF d missing listed, of eng "arguments_get arguments ''prompt''"
      "arguments_get arguments ''aspect_ratio''"]
  obtain e w1 where s: "submit eng (arguments_get arguments ''prompt'')
             (arguments_get arguments ''aspect_ratio'') w = (Inl e, w1)"
    and p: "posted w1 = posted w"
    and k: "\<exists>gd. workflow w1 = JObj gd" "isl (py_getitem (workflow w1) n)"
    and c: "config w1 = config w" by blast
  from handler_pipeline_error [OF pipeline_submit_error [OF s]]
  have h: "handle_call_tool fuel eng ''image_generate'' arguments w =
             Some ([TextContent ''text'' (''Error generating image: '' @ exc_str e)], w1)"
    by (simp add: error_text_def)
  from listed(1) c have l: "config_list key w1 = (Inr ns, w1)"
    by (simp add: config_list_def)
  from s p h k l
  show "\<exists>e w1.
            submit eng (arguments_get arguments ''prompt'')
              (arguments_get arguments ''aspect_ratio'') w = (Inl e, w1) \<and>
            posted w1 = posted w \<and>
            handle_call_tool fuel eng ''image_generate'' arguments w =
              Some ([TextContent ''text'' (''Error generating image: '' @ exc_str e)], w1) \<and>
            (\<exists>gd1. workflow w1 = JObj gd1) \<and>
            isl (py_getitem (workflow w1) n) \<and>
            config_list key w1 = (Inr ns, w1)"
    by blast
qed

text \<open>
  The start of the sample installation with size node 7 missing, and the request that
  comes after the first one, in the state the first one left.
\<close>

theorem missing_node_fails_each_request_witness:
  "startup (Inr sample_workflow) (Inr sample_config_missing) = Inr sample_world_missing \<and>
   handle_call_tool 5 sample_env ''image_generate'' sample_arguments
     (sample_world_missing
        \<lparr>uuids := 1,
         workflow := sample_graph (JInt 864) (JInt 1152) (JInt 0) (JInt 0) (JStr [])\<rparr>) =
     Some ([TextContent ''text'' (''Error generating image: '' @ repr_str ''7'')],
           sample_world_missing
             \<lparr>uuids := 2,
              workflow := sample_graph (JInt 864) (JInt 1152) (JInt 0) (JInt 0) (JStr [])\<rparr>) \<and>
   posted (sample_world_missing
             \<lparr>uuids := 2,
              workflow := sample_graph (JInt 864) (JInt 1152) (JInt 0) (JInt 0) (JStr [])\<rparr>) = []"
proof -
  let ?g = "sample_graph (JInt 864) (JInt 1152) (JInt 0) (JInt 0) (JStr [])"
  let ?w1 = "sample_world_missing\<lparr>uuids := 1, workflow := ?g\<rparr>"
  let ?w2 = "sample_world_missing\<lparr>uuids := 2, workflow := ?g\<rparr>"
  obtain gd0 where gd0: "workflow sample_world_missing = JObj gd0"
    by (simp add: sample_world_missing_def sample_world_def sample_workflow_def sample_graph_def)
  have missing0: "isl (py_getitem (workflow sample_world_missing) (JStr ''7''))"
    by (simp add: sample_world_missing_def sample_world_def sample_workflow_def sample_graph_def)
  have listed0: "config_list image_size_nodes_key sample_world_missing =
      (Inr [JStr ''5'', JStr ''7''], sample_world_missing)"
    by (simp add: config_list_def sample_world_missing_def key_defs)
  have m: "JStr ''7'' \<in> set [JStr ''5'', JStr ''7'']" by simp
  have load: "load_config sample_config_missing = Inr (config sample_world_missing)"
    by (simp add: load_config_def sample_config_missing_def sample_world_missing_def key_defs)
  have w0: "\<lparr>workflow = sample_workflow, config = config sample_world_missing,
             uuids = 0, requests = 0, slept = 0, posted = [], files = []\<rparr> = sample_world_missing"
    "workflow sample_world_missing = sample_workflow"
    by (simp_all add: sample_world_missing_def sample_world_def)
  from missing_node_fails_each_request [OF gd0 missing0 listed0 m, THEN conjunct1, rule_format, OF _ load]
  have start: "startup (Inr sample_workflow) (Inr sample_config_missing) = Inr sample_world_missing"
    by (simp add: w0)
  obtain gd1 where gd1: "workflow ?w1 = JObj gd1"
    by (simp add: sample_graph_def)
  have missing1: "isl (py_getitem (workflow ?w1) (JStr ''7''))"
    by (simp add: sample_graph_def)
  have listed1: "config_list image_size_nodes_key ?w1 = (Inr [JStr ''5'', JStr ''7''], ?w1)"
    by (simp add: config_list_def sample_world_missing_def key_defs)
  have a: "arguments_get sample_arguments ''prompt'' = JStr ''a red fox''"
    "arguments_get sample_arguments ''aspect_ratio'' = JStr ''tall''"
    by (simp_all add: arguments_get_def sample_arguments_def)
  have sub: "submit sample_env (arguments_get sample_arguments ''prompt'')
      (arguments_get sample_arguments ''aspect_ratio'') ?w1 = (Inl (KeyError (JStr ''7'')), ?w2)"
    unfolding a
    by (subst sample_missing_submit_any [of _ "JInt 864" "JInt 1152" "JInt 0" "JInt 0" "JStr []"])
      (simp_all add: numeral_2_eq_2)
  from missing_node_fails_each_request [OF gd1 missing1 listed1 m, THEN conjunct2,
      of sample_env sample_arguments 5]
  obtain e w2 where s: "submit sample_env (arguments_get sample_arguments ''prompt'')
      (arguments_get sample_arguments ''aspect_ratio'') ?w1 = (Inl e, w2)"
    and p: "posted w2 = posted ?w1"
    and h: "handle_call_tool 5 sample_env ''image_generate'' sample_arguments ?w1 =
      Some ([TextContent ''text'' (''Error generating image: '' @ exc_str e)], w2)"
    by blast
  from s sub have e: "e = KeyError (JStr ''7'')" and w2: "w2 = ?w2" by simp_all
  have "posted ?w2 = []"
    by (simp add: sample_world_missing_def sample_world_def)
  with start h [unfolded e w2] show ?thesis by simp
qed

text \<open>
  C1, as stated: every call copies the loaded graph and writes into the copy, so that the
  graph the module holds is never changed after it is loaded and shows nothing of what a
  call wrote. It is changed: after the first call in the sample installation the graph
  of the module holds the prompt of that call in node 6, where the loaded file has the
  empty string.
\<close>

theorem request_changes_the_loaded_graph:
  "startup (Inr sample_workflow) (Inr sample_config) = Inr sample_world \<and>
   comfyui_generate_image 5 sample_env (JStr ''a red fox'') (JStr ''Red Fox'') (JStr ''tall'')
       sample_world =
     Some (Inr (Some ''2025-01-31_12:00:00_Red-Fox_flux-krea.png'',
                ''![Red Fox](http://127.0.0.1:8081/view/2025-01-31_12:00:00_Red-Fox_flux-krea.png)''),
           sample_world_after) \<and>
   workflow sample_world = sample_workflow \<and>
   workflow sample_world_after \<noteq> sample_workflow \<and>
   graph_get sample_workflow (JStr ''6'') ''text'' = Inr (JStr []) \<and>
   graph_get (workflow sample_world_after) (JStr ''6'') ''text'' = Inr (JStr ''a red fox'')"
proof (intro conjI)
  show "startup (Inr sample_workflow) (Inr sample_config) = Inr sample_world"
    by (rule sample_starts)
  show "comfyui_generate_image 5 sample_env (JStr ''a red fox'') (JStr ''Red Fox'') (JStr ''tall'')
       sample_world =
     Some (Inr (Some ''2025-01-31_12:00:00_Red-Fox_flux-krea.png'',
                ''![Red Fox](http://127.0.0.1:8081/view/2025-01-31_12:00:00_Red-Fox_flux-krea.png)''),
           sample_world_after)"
    unfolding sample_env_def by (rule sample_run)
  show "workflow sample_world = sample_workflow" by (simp add: sample_world_def)
  show "workflow sample_world_after \<noteq> sample_workflow"
    by (simp add: sample_world_after_def sample_workflow_def sample_graph_def)
  show "graph_get sample_workflow (JStr ''6'') ''text'' = Inr (JStr [])"
    by (simp add: graph_get_def sample_workflow_def sample_graph_def key_defs)
  show "graph_get (workflow sample_world_after) (JStr ''6'') ''text'' = Inr (JStr ''a red fox'')"
    by (simp add: graph_get_def sample_world_after_def sample_graph_def key_defs)
qed

text \<open>
  C1, amended: a call makes no copy. It writes size, seeds and prompt into the one graph
  the module holds (a dict), and submits that graph as it stands when line 170 runs.
  For a call during which no other call writes: when the submission succeeds, the graph
  recorded as posted is the graph of the module after the writes; it holds the prompt of
  the call at every prompt node, the resolved width and height in every size node that
  had the field, and in the seed fields of the seed nodes (listed once each) the seeds
  made from the UUIDs the call drew after its client id, whatever these fields held
  before; the rest of the call leaves the graph as submitted, so that the next call
  starts from it. Calls run in worker threads and are not kept apart. When another call
  runs its lines 122--171 after this one has submitted, in a state with the graph and
  the config this one left, the prompt nodes of the module's graph hold the other
  prompt. When another call runs its lines 136--149 between the writes of this call and
  its line 170, the graph this call submits is the graph the other call left, and its
  prompt nodes hold the other prompt.
\<close>

theorem request_is_written_into_the_module_graph:
  assumes "workflow w = JObj gd"
  shows "(\<forall>prompt_id w1. submit eng prompt aspect_ratio w = (Inr prompt_id, w1) \<longrightarrow>
            posted w1 = posted w @ [(workflow w1, uuid4 eng (uuids w))] \<and>
            (\<forall>ns n. config_list prompt_nodes_key w = (Inr ns, w) \<longrightarrow> n \<in> set ns \<longrightarrow>
               graph_get (workflow w1) n text_key = Inr prompt) \<and>
            (\<forall>ns n width height. image_size (config w) aspect_ratio = Inr (width, height) \<longrightarrow>
               config_list image_size_nodes_key w = (Inr ns, w) \<longrightarrow> n \<in> set ns \<longrightarrow>
               (graph_has (workflow w) n width_key = Inr True \<longrightarrow>
                  graph_get (workflow w1) n width_key = Inr width) \<and>
               (graph_has (workflow w) n height_key = Inr True \<longrightarrow>
                  graph_get (workflow w1) n height_key = Inr height)) \<and>
            (\<forall>ns. config_list seed_nodes_key w = (Inr ns, w) \<longrightarrow> distinct ns \<longrightarrow>
               (\<forall>k < length (seed_writes (workflow w) ns).
                  graph_get (workflow w1) (fst (seed_writes (workflow w) ns ! k))
                      (snd (seed_writes (workflow w) ns ! k)) =
                    Inr (JInt (make_random_seed (uuid4 eng (Suc (uuids w) + k)))))) \<and>
            (\<forall>fuel title r w'.
               comfyui_generate_image fuel eng prompt title aspect_ratio w = Some (r, w') \<longrightarrow>
               workflow w' = workflow w1) \<and>
            (\<forall>ws other aspect_ratio' prompt_id' wb ns n.
               workflow ws = workflow w1 \<longrightarrow> config ws = config w1 \<longrightarrow>
               submit eng other aspect_ratio' ws = (Inr prompt_id', wb) \<longrightarrow>
               config_list prompt_nodes_key w = (Inr ns, w) \<longrightarrow> n \<in> set ns \<longrightarrow>
               graph_get (workflow wb) n text_key = Inr other)) \<and>
         (\<forall>width height wa ws other width' height' wb wp client_id r wc ns n.
            inject eng prompt width height w = (Inr (), wa) \<longrightarrow>
            workflow ws = workflow wa \<longrightarrow> config ws = config wa \<longrightarrow>
            inject eng other width' height' ws = (Inr (), wb) \<longrightarrow>
            workflow wp = workflow wb \<longrightarrow>
            post_prompt eng client_id wp = (r, wc) \<longrightarrow>
            posted wc = posted wp @ [(workflow wb, client_id)] \<and>
            (config_list prompt_nodes_key w = (Inr ns, w) \<longrightarrow> n \<in> set ns \<longrightarrow>
               graph_get (workflow wb) n text_key = Inr other))"
proof (intro conjI allI impI)
  fix prompt_id w1
  assume run: "submit eng prompt aspect_ratio w = (Inr prompt_id, w1)"
  note e = submit_effect [OF assms run]
  from e show "posted w1 = posted w @ [(workflow w1, uuid4 eng (uuids w))]" by blast
  {
    fix ns n assume "config_list prompt_nodes_key w = (Inr ns, w)" "n \<in> set ns"
    with e show "graph_get (workflow w1) n text_key = Inr prompt" by blast
  }
  {
    fix ns n width height
    assume "image_size (config w) aspect_ratio = Inr (width, height)"
      "config_list image_size_nodes_key w = (Inr ns, w)" "n \<in> set ns"
      "graph_has (workflow w) n width_key = Inr True"
    with e show "graph_get (workflow w1) n width_key = Inr width" by blast
  }
  {
    fix ns n width height
    assume "image_size (config w) aspect_ratio = Inr (width, height)"
      "config_list image_size_nodes_key w = (Inr ns, w)" "n \<in> set ns"
      "graph_has (workflow w) n height_key = Inr True"
    with e show "graph_get (workflow w1) n height_key = Inr height" by blast
  }
  {
    fix ns k
    assume "config_list seed_nodes_key w = (Inr ns, w)" "distinct ns"
      "k < length (seed_writes (workflow w) ns)"
    then show "graph_get (workflow w1) (fst (seed_writes (workflow w) ns ! k))
                      (snd (seed_writes (workflow w) ns ! k)) =
                    Inr (JInt (make_random_seed (uuid4 eng (Suc (uuids w) + k))))"
      by (rule submit_seeds [OF assms run])
  }
  {
    fix fuel title r w'
    assume "comfyui_generate_image fuel eng prompt title aspect_ratio w = Some (r, w')"
    from pipeline_keeps_graph [OF run this] show "workflow w' = workflow w1" by simp
  }
  {
    fix ws other aspect_ratio' prompt_id' wb ns n
    assume s: "workflow ws = workflow w1" "config ws = config w1"
      and b: "submit eng other aspect_ratio' ws = (Inr prompt_id', wb)"
      and l: "config_list prompt_nodes_key w = (Inr ns, w)" "n \<in> set ns"
    note k = submit_keeps [OF assms run]
    from k s have "\<exists>gd. workflow ws = JObj gd" and "config ws = config w" by auto
    from second_submit [OF this b l]
    show "graph_get (workflow wb) n text_key = Inr other" .
  }
next
  fix width height wa ws other width' height' wb wp client_id r wc ns n
  assume a: "inject eng prompt width height w = (Inr (), wa)"
    and s: "workflow ws = workflow wa" "config ws = config wa"
    and b: "inject eng other width' height' ws = (Inr (), wb)"
    and wp: "workflow wp = workflow wb"
    and p: "post_prompt eng client_id wp = (r, wc)"
  from p wp show "posted wc = posted wp @ [(workflow wb, client_id)]"
    by (auto simp: post_prompt_def)
  assume l: "config_list prompt_nodes_key w = (Inr ns, w)" "n \<in> set ns"
  note k = inject_effect [OF assms a]
  from k s have "\<exists>gd. workflow ws = JObj gd" and "config ws = config w" by auto
  from second_writer [OF this b l]
  show "graph_get (workflow wb) n text_key = Inr other" .
qed

text \<open>
  The sample call alone; a second call, for a blue whale, that runs its lines 122--171
  while the first one sleeps after its first request for the history; and the second
  call drawing its client id and writing before the first one submits.
\<close>

theorem request_is_written_into_the_module_graph_witness:
  "(let w1 = snd (submit sample_env (JStr ''a red fox'') (JStr ''tall'') sample_world);
        wb = snd (submit sample_env (JStr ''a blue whale'') (JStr ''tall'')
                    (w1\<lparr>requests := 1, slept := 1\<rparr>))
    in posted w1 = [(workflow w1, sample_uuid4 0)] \<and>
       graph_get (workflow w1) (JStr ''6'') ''text'' = Inr (JStr ''a red fox'') \<and>
       graph_get (workflow w1) (JStr ''5'') ''width'' = Inr (JInt 864) \<and>
       graph_get (workflow w1) (JStr ''5'') ''height'' = Inr (JInt 1152) \<and>
       graph_get (workflow w1) (JStr ''3'') ''seed'' = Inr (JInt 6585701376) \<and>
       graph_get (workflow w1) (JStr ''3'') ''noise_seed'' = Inr (JInt 7082102784) \<and>
       workflow sample_world_after = workflow w1 \<and>
       graph_get (workflow wb) (JStr ''6'') ''text'' = Inr (JStr ''a blue whale'')) \<and>
   (let wa = snd (inject sample_env (JStr ''a red fox'') (JInt 864) (JInt 1152)
                    (sample_world\<lparr>uuids := 1\<rparr>));
        wb = snd (inject sample_env (JStr ''a blue whale'') (JInt 1280) (JInt 720)
                    (wa\<lparr>uuids := Suc (uuids wa)\<rparr>));
        wc = snd (post_prompt sample_env (sample_uuid4 0) wb)
    in posted wc = [(workflow wb, sample_uuid4 0)] \<and>
       graph_get (workflow wb) (JStr ''6'') ''text'' = Inr (JStr ''a blue whale''))"
proof -
  define w1 where "w1 = snd (submit sample_env (JStr ''a red fox'') (JStr ''tall'') sample_world)"
  define wb where "wb = snd (submit sample_env (JStr ''a blue whale'') (JStr ''tall'')
                    (w1\<lparr>requests := 1, slept := 1\<rparr>))"
  define w0 where "w0 = sample_world\<lparr>uuids := 1\<rparr>"
  define wa' where
    "wa' = snd (inject sample_env (JStr ''a red fox'') (JInt 864) (JInt 1152) w0)"
  define wb' where
    "wb' = snd (inject sample_env (JStr ''a blue whale'') (JInt 1280) (JInt 720)
                  (wa'\<lparr>uuids := Suc (uuids wa')\<rparr>))"
  define wc' where "wc' = snd (post_prompt sample_env (sample_uuid4 0) wb')"
  have g: "workflow sample_world = sample_graph (JInt 512) (JInt 512) (JInt 0) (JInt 0) (JStr [])"
    by (simp add: sample_world_def sample_workflow_def)
  obtain gd where gd: "workflow sample_world = JObj gd"
    by (simp add: sample_world_def sample_workflow_def sample_graph_def)
  have g0: "workflow w0 = sample_graph (JInt 512) (JInt 512) (JInt 0) (JInt 0) (JStr [])"
    and c0: "config w0 = config sample_world" and gd0: "workflow w0 = JObj gd"
    and p0: "posted w0 = []"
    using g gd by (simp_all add: w0_def) (simp add: sample_world_def)
  have q: "queue_prompt sample_env = sample_queue"
    by (simp add: sample_env_def sample_env_with_def)
  have "fst (submit sample_env (JStr ''a red fox'') (JStr ''tall'') sample_world) = Inr (JStr ''p1'')"
    unfolding sample_submit [OF g refl] q by (simp add: sample_queue_def)
  then have run: "submit sample_env (JStr ''a red fox'') (JStr ''tall'') sample_world =
      (Inr (JStr ''p1''), w1)"
    unfolding w1_def by (simp add: prod_eq_iff)
  have w1: "workflow (w1\<lparr>requests := 1, slept := 1\<rparr>) = sample_graph (JInt 864) (JInt 1152)
      (JInt (make_random_seed (uuid4 sample_env (Suc (uuids sample_world)))))
      (JInt (make_random_seed (uuid4 sample_env (Suc (Suc (uuids sample_world))))))
      (JStr ''a red fox'')"
    and c1: "config (w1\<lparr>requests := 1, slept := 1\<rparr>) = config sample_world"
    unfolding w1_def sample_submit [OF g refl] by simp_all
  have s1: "workflow (w1\<lparr>requests := 1, slept := 1\<rparr>) = workflow w1"
    "config (w1\<lparr>requests := 1, slept := 1\<rparr>) = config w1"
    by simp_all
  have "fst (submit sample_env (JStr ''a blue whale'') (JStr ''tall'')
      (w1\<lparr>requests := 1, slept := 1\<rparr>)) = Inr (JStr ''p1'')"
    unfolding sample_submit [OF w1 c1] q by (simp add: sample_queue_def)
  then have runb: "submit sample_env (JStr ''a blue whale'') (JStr ''tall'')
      (w1\<lparr>requests := 1, slept := 1\<rparr>) = (Inr (JStr ''p1''), wb)"
    unfolding wb_def by (simp add: prod_eq_iff)
  have runa': "inject sample_env (JStr ''a red fox'') (JInt 864) (JInt 1152) w0 = (Inr (), wa')"
    unfolding wa'_def sample_inject [OF g0 c0] by simp
  have wa': "workflow (wa'\<lparr>uuids := Suc (uuids wa')\<rparr>) = sample_graph (JInt 864) (JInt 1152)
      (JInt (make_random_seed (uuid4 sample_env (uuids w0))))
      (JInt (make_random_seed (uuid4 sample_env (Suc (uuids w0)))))
      (JStr ''a red fox'')"
    and ca': "config (wa'\<lparr>uuids := Suc (uuids wa')\<rparr>) = config sample_world"
    unfolding wa'_def sample_inject [OF g0 c0] by (simp_all add: c0)
  have sa': "workflow (wa'\<lparr>uuids := Suc (uuids wa')\<rparr>) = workflow wa'"
    "config (wa'\<lparr>uuids := Suc (uuids wa')\<rparr>) = config wa'"
    by simp_all
  have runb': "inject sample_env (JStr ''a blue whale'') (JInt 1280) (JInt 720)
      (wa'\<lparr>uuids := Suc (uuids wa')\<rparr>) = (Inr (), wb')"
    unfolding wb'_def sample_inject [OF wa' ca'] by simp
  have pa': "posted wa' = posted w0"
    unfolding wa'_def sample_inject [OF g0 c0] by simp
  have "posted wb' = posted wa'"
    unfolding wb'_def sample_inject [OF wa' ca'] by simp
  with pa' p0 have pb': "posted wb' = []" by simp
  have runc': "post_prompt sample_env (sample_uuid4 0) wb' =
      (fst (post_prompt sample_env (sample_uuid4 0) wb'), wc')"
    unfolding wc'_def by simp
  have u: "uuids sample_world = 0" "posted sample_world = []" "uuid4 sample_env = sample_uuid4"
    by (simp_all add: sample_world_def sample_env_def sample_env_with_def)
  have size: "image_size (config sample_world) (JStr ''tall'') = Inr (JInt 864, JInt 1152)"
    by (rule sample_size) simp
  have l: "config_list prompt_nodes_key sample_world = (Inr [JStr ''6''], sample_world)"
    "config_list image_size_nodes_key sample_world = (Inr [JStr ''5''], sample_world)"
    "config_list seed_nodes_key sample_world = (Inr [JStr ''3''], sample_world)"
    by (simp_all add: sample_lists)
  have l0: "config_list prompt_nodes_key w0 = (Inr [JStr ''6''], w0)"
    by (rule sample_lists) (rule c0)
  have h: "graph_has (workflow sample_world) (JStr ''5'') width_key = Inr True"
    "graph_has (workflow sample_world) (JStr ''5'') height_key = Inr True"
    by (simp_all add: graph_has_def g sample_graph_def key_defs)
  have m: "JStr ''6'' \<in> set [JStr ''6'']" "JStr ''5'' \<in> set [JStr ''5'']"
    "distinct [JStr ''3'']" by simp_all
  have sw: "seed_writes (workflow sample_world) [JStr ''3''] =
      [(JStr ''3'', ''seed''), (JStr ''3'', ''noise_seed'')]"
    by (simp add: seed_writes_def seed_fields_def graph_has_def key_defs
        sample_world_def sample_workflow_def sample_graph_def)
  have seeds: "make_random_seed (sample_uuid4 (Suc 0)) = 6585701376"
    "make_random_seed (sample_uuid4 (Suc (Suc 0))) = 7082102784"
    by (simp_all add: make_random_seed_def float_of_nat_def sample_uuid4_def Let_def)
  have after: "comfyui_generate_image 5 sample_env (JStr ''a red fox'') (JStr ''Red Fox'')
      (JStr ''tall'') sample_world =
     Some (Inr (Some ''2025-01-31_12:00:00_Red-Fox_flux-krea.png'',
                ''![Red Fox](http://127.0.0.1:8081/view/2025-01-31_12:00:00_Red-Fox_flux-krea.png)''),
           sample_world_after)"
    unfolding sample_env_def by (rule sample_run)
  note t = request_is_written_into_the_module_graph [OF gd, of sample_env "JStr ''a red fox''"
      "JStr ''tall''"]
  note t1 = t [THEN conjunct1, rule_format, OF run]
  note t2 = request_is_written_into_the_module_graph [OF gd0, of sample_env "JStr ''a red fox''",
      THEN conjunct2, rule_format, OF runa' sa' runb' refl runc']
  from t1 [THEN conjunct1]
  have p: "posted w1 = [(workflow w1, sample_uuid4 0)]" by (simp add: u)
  from t1 [THEN conjunct2, THEN conjunct1, rule_format, OF l(1) m(1)]
  have a: "graph_get (workflow w1) (JStr ''6'') ''text'' = Inr (JStr ''a red fox'')"
    by (simp add: key_defs)
  note s = t1 [THEN conjunct2, THEN conjunct2, THEN conjunct1, rule_format, OF size l(2) m(2)]
  from s [THEN conjunct1, rule_format, OF h(1)] s [THEN conjunct2, rule_format, OF h(2)]
  have b: "graph_get (workflow w1) (JStr ''5'') ''width'' = Inr (JInt 864)"
    "graph_get (workflow w1) (JStr ''5'') ''height'' = Inr (JInt 1152)"
    by (simp_all add: key_defs)
  note sd = t1 [THEN conjunct2, THEN conjunct2, THEN conjunct2, THEN conjunct1, rule_format,
      OF l(3) m(3)]
  from sd [of 0] sd [of 1]
  have c: "graph_get (workflow w1) (JStr ''3'') ''seed'' = Inr (JInt 6585701376)"
    "graph_get (workflow w1) (JStr ''3'') ''noise_seed'' = Inr (JInt 7082102784)"
    by (simp_all add: sw u seeds)
  from t1 [THEN conjunct2, THEN conjunct2, THEN conjunct2, THEN conjunct2, THEN conjunct1,
      rule_format, OF after]
  have d: "workflow sample_world_after = workflow w1" .
  from t1 [THEN conjunct2, THEN conjunct2, THEN conjunct2, THEN conjunct2, THEN conjunct2,
      rule_format, OF s1 runb l(1) m(1)]
  have e: "graph_get (workflow wb) (JStr ''6'') ''text'' = Inr (JStr ''a blue whale'')"
    by (simp add: key_defs)
  from t2 [THEN conjunct1]
  have f: "posted wc' = [(workflow wb', sample_uuid4 0)]" by (simp add: pb')
  from t2 [THEN conjunct2, rule_format, OF l0 m(1)]
  have k: "graph_get (workflow wb') (JStr ''6'') ''text'' = Inr (JStr ''a blue whale'')"
    by (simp add: key_defs)
  from p a b c d e f k show ?thesis
    unfolding Let_def w1_def wb_def wa'_def wb'_def wc'_def w0_def by blast
qed

end
